(* ===== verification/Prelude.thy ===== *)
theory Prelude
  imports Main "HOL-Library.AList"
begin

text \<open>
  Shared vocabulary of the development: the exception-and-state monad in which
  the pipeline's effects are written, Python's dictionary assignment, the string
  operations of \<open>str\<close> that the scripts use, and \<open>pathlib\<close>'s parsing, joining
  and naming of POSIX paths, together with the lemmas the component theories
  share. Nothing here is specific to one script of \<^verbatim>\<open>src/scripts\<close>.
\<close>

named_theorems path_simps \<open>evaluation of pathlib operations on concrete paths\<close>
named_theorems exn_simps \<open>unfolding of the exception-and-state monad\<close>

section \<open>Exceptions and state\<close>

text \<open>
  A Python statement that may raise and that changes the file system is a function
  from the state to a result (\<open>Inl\<close> the exception, \<open>Inr\<close> the value) and the new
  state. Effects made before an exception stay in the state, as they do on disk.
\<close>

type_synonym ('e, 's, 'a) exn_st = "'s \<Rightarrow> ('e + 'a) \<times> 's"

definition ereturn :: "'a \<Rightarrow> ('e, 's, 'a) exn_st" where
  "ereturn a s = (Inr a, s)"

definition ethrow :: "'e \<Rightarrow> ('e, 's, 'a) exn_st" where
  "ethrow e s = (Inl e, s)"

definition ebind :: "('e, 's, 'a) exn_st \<Rightarrow> ('a \<Rightarrow> ('e, 's, 'b) exn_st) \<Rightarrow> ('e, 's, 'b) exn_st" where
  "ebind m f s = (case m s of (Inl e, s') \<Rightarrow> (Inl e, s') | (Inr a, s') \<Rightarrow> f a s')"

definition elift :: "('e + 'a) \<Rightarrow> ('e, 's, 'a) exn_st" where
  "elift r s = (r, s)"

text \<open>Sequencing of computations that may raise and have no state.\<close>

definition sbind :: "('e + 'a) \<Rightarrow> ('a \<Rightarrow> 'e + 'b) \<Rightarrow> 'e + 'b" where
  "sbind r f = (case r of Inl e \<Rightarrow> Inl e | Inr a \<Rightarrow> f a)"

section \<open>Dictionaries\<close>

text \<open>
  A Python \<open>dict\<close> is an association list with distinct keys in insertion order:
  \<open>d[k] = v\<close> replaces the value in place when \<open>k\<close> is a key and appends the pair
  otherwise, which is \<open>AList.update\<close>; \<open>d.get(k)\<close> is \<open>map_of d k\<close>. Iterating
  \<open>d.items()\<close> is iterating the list.
\<close>

abbreviation dict_set :: "('k \<times> 'v) list \<Rightarrow> 'k \<Rightarrow> 'v \<Rightarrow> ('k \<times> 'v) list" where
  "dict_set d k v \<equiv> AList.update k v d"

text \<open>
  Applying a fallible function to each element in order, stopping at the first
  failure: the shape of a \<open>for\<close> loop whose body may raise and whose results are
  collected.
\<close>

fun traverse :: "('a \<Rightarrow> 'e + 'b) \<Rightarrow> 'a list \<Rightarrow> 'e + 'b list" where
  "traverse f [] = Inr []"
| "traverse f (x # xs) =
     (case f x of Inl e \<Rightarrow> Inl e | Inr b \<Rightarrow> (case traverse f xs of Inl e \<Rightarrow> Inl e | Inr bs \<Rightarrow> Inr (b # bs)))"

section \<open>Strings\<close>

definition startswith :: "string \<Rightarrow> string \<Rightarrow> bool" where
  "startswith s p \<longleftrightarrow> take (length p) s = p"

definition endswith :: "string \<Rightarrow> string \<Rightarrow> bool" where
  "endswith s p \<longleftrightarrow> drop (length s - length p) s = p \<and> length p \<le> length s"

text \<open>\<open>s.partition(c)\<close>: the text before the first \<open>c\<close>, the separator, the text after it.\<close>

definition py_partition :: "char \<Rightarrow> string \<Rightarrow> string \<times> string \<times> string" where
  "py_partition c s =
     (if c \<in> set s then (takeWhile (\<lambda>x. x \<noteq> c) s, [c], tl (dropWhile (\<lambda>x. x \<noteq> c) s))
      else (s, [], []))"

text \<open>\<open>s.split(c)\<close> for a one-character separator: never empty, \<open>''.split('/') = ['']\<close>.\<close>

fun split_on :: "char \<Rightarrow> string \<Rightarrow> string list" where
  "split_on c [] = [[]]"
| "split_on c (x # xs) =
     (if x = c then [] # split_on c xs
      else (case split_on c xs of w # ws \<Rightarrow> (x # w) # ws | [] \<Rightarrow> [[x]]))"

text \<open>\<open>sep.join(ws)\<close>.\<close>

fun join_with :: "string \<Rightarrow> string list \<Rightarrow> string" where
  "join_with sep [] = []"
| "join_with sep [w] = w"
| "join_with sep (w # ws) = w @ sep @ join_with sep ws"

text \<open>\<open>s.lower()\<close> on ASCII letters (the only letters the compared suffixes hold).\<close>

definition lower_char :: "char \<Rightarrow> char" where
  "lower_char c =
     (case map_of (zip ''ABCDEFGHIJKLMNOPQRSTUVWXYZ'' ''abcdefghijklmnopqrstuvwxyz'') c of
        Some d \<Rightarrow> d
      | None \<Rightarrow> c)"

definition lower :: "string \<Rightarrow> string" where
  "lower s = map lower_char s"

text \<open>\<open>s.rfind(c)\<close>, with \<open>None\<close> for Python's \<open>-1\<close>.\<close>

fun rfind :: "char \<Rightarrow> string \<Rightarrow> nat option" where
  "rfind c [] = None"
| "rfind c (x # xs) =
     (case rfind c xs of Some i \<Rightarrow> Some (Suc i) | None \<Rightarrow> if x = c then Some 0 else None)"

text \<open>
  \<open>str.strip()\<close> without arguments: the ASCII characters Python counts as
  whitespace (\<open>\t \n \x0b \x0c \r \x1c-\x1f\<close> and space) are removed at both ends.
\<close>

definition py_space :: "char \<Rightarrow> bool" where
  "py_space c \<longleftrightarrow>
     c \<in> set [CHR 0x09, CHR 0x0A, CHR 0x0B, CHR 0x0C, CHR 0x0D, CHR 0x1C, CHR 0x1D, CHR 0x1E, CHR 0x1F, CHR 0x20]"

definition py_strip :: "string \<Rightarrow> string" where
  "py_strip s = rev (dropWhile py_space (rev (dropWhile py_space s)))"

section \<open>POSIX paths as pathlib parses them\<close>

text \<open>
  \<open>PurePosixPath\<close> splits a path at \<open>/\<close>, drops empty and \<open>.\<close> components and
  remembers whether the path is absolute; \<open>str\<close> joins the components again (\<open>.\<close>
  for none), \<open>/\<close> appends the right operand's components unless it is absolute,
  \<open>.name\<close> is the last component and \<open>.suffix\<close> the last dotted extension of the
  name. The POSIX special case of exactly two leading slashes is not modelled.
\<close>

type_synonym pypath = "bool \<times> string list"

definition path_of :: "string \<Rightarrow> pypath" where
  "path_of s =
     (s \<noteq> [] \<and> hd s = CHR ''/'', filter (\<lambda>w. w \<noteq> [] \<and> w \<noteq> ''.'') (split_on CHR ''/'' s))"

definition path_str :: "pypath \<Rightarrow> string" where
  "path_str p =
     (let s = (if fst p then ''/'' else []) @ join_with ''/'' (snd p) in if s = [] then ''.'' else s)"

definition path_div :: "string \<Rightarrow> string \<Rightarrow> string" where
  "path_div a b =
     (let pa = path_of a; pb = path_of b
      in path_str (if fst pb then pb else (fst pa, snd pa @ snd pb)))"

definition path_parent :: "string \<Rightarrow> string" where
  "path_parent s = (let p = path_of s in path_str (fst p, butlast (snd p)))"

definition path_name :: "string \<Rightarrow> string" where
  "path_name s = (case snd (path_of s) of [] \<Rightarrow> [] | ws \<Rightarrow> last ws)"

definition path_suffix :: "string \<Rightarrow> string" where
  "path_suffix s =
     (let n = path_name s
      in case rfind CHR ''.'' n of
           None \<Rightarrow> []
         | Some i \<Rightarrow> if 0 < i \<and> i < length n - 1 then drop i n else [])"

text \<open>A component as pathlib keeps it after parsing: nonempty, not \<open>.\<close>, no slash.\<close>

definition component_ok :: "string \<Rightarrow> bool" where
  "component_ok w \<longleftrightarrow> w \<noteq> [] \<and> w \<noteq> ''.'' \<and> CHR ''/'' \<notin> set w"

declare path_of_def [path_simps] path_str_def [path_simps] path_div_def [path_simps] path_parent_def [path_simps]
  path_name_def [path_simps] path_suffix_def [path_simps] component_ok_def [path_simps]

section \<open>Lemmas\<close>

lemma ebind_return [simp, exn_simps]: "ebind (ereturn a) f = f a"
  by (simp add: ebind_def ereturn_def fun_eq_iff)

lemma ebind_throw [simp, exn_simps]: "ebind (ethrow e) f = ethrow e"
  by (simp add: ebind_def ethrow_def fun_eq_iff)

lemma ebind_lift [simp, exn_simps]:
  "ebind (elift r) f = (case r of Inl e \<Rightarrow> ethrow e | Inr a \<Rightarrow> f a)"
  by (simp add: ebind_def elift_def ethrow_def fun_eq_iff split: sum.split)

lemma ebind_apply [exn_simps]:
  "ebind m f s = (case m s of (Inl e, s') \<Rightarrow> (Inl e, s') | (Inr a, s') \<Rightarrow> f a s')"
  by (simp add: ebind_def)

lemma ebind_Inr [simp]: "m s = (Inr a, s') \<Longrightarrow> ebind m f s = f a s'"
  by (simp add: ebind_def)

lemma ebind_Inl [simp]: "m s = (Inl e, s') \<Longrightarrow> ebind m f s = (Inl e, s')"
  by (simp add: ebind_def)

lemma ebind_Inr_iff:
  "ebind m f s = (Inr b, t) \<longleftrightarrow> (\<exists>a s'. m s = (Inr a, s') \<and> f a s' = (Inr b, t))"
  by (auto simp: ebind_def split: prod.splits sum.splits)

lemma sbind_Inl [simp, exn_simps]: "sbind (Inl e) f = Inl e"
  by (simp add: sbind_def)

lemma sbind_Inr [simp, exn_simps]: "sbind (Inr a) f = f a"
  by (simp add: sbind_def)

lemma sbind_Inr_iff: "sbind r f = Inr b \<longleftrightarrow> (\<exists>a. r = Inr a \<and> f a = Inr b)"
  by (cases r) simp_all

lemma ereturn_apply [simp, exn_simps]: "ereturn a s = (Inr a, s)"
  and ethrow_apply [simp, exn_simps]: "ethrow e s = (Inl e, s)"
  and elift_apply [simp, exn_simps]: "elift r s = (r, s)"
  by (simp_all add: ereturn_def ethrow_def elift_def)

lemma dict_set_lookup [simp]: "map_of (dict_set d k v) = (map_of d)(k \<mapsto> v)"
  by (rule update_conv')

lemma dict_set_distinct [intro]: "distinct (map fst d) \<Longrightarrow> distinct (map fst (dict_set d k v))"
  by (rule distinct_update)

lemma startswith_iff: "startswith s p \<longleftrightarrow> (\<exists>r. s = p @ r)"
proof
  assume "startswith s p"
  then have "s = p @ drop (length p) s"
    by (metis append_take_drop_id startswith_def)
  then show "\<exists>r. s = p @ r" ..
next
  assume "\<exists>r. s = p @ r"
  then show "startswith s p" by (auto simp: startswith_def)
qed

lemma startswith_append [simp]: "startswith (p @ r) p"
  by (simp add: startswith_def)

lemma startswith_Nil [simp]: "startswith s []"
  by (simp add: startswith_def)

lemma startswith_drop: "startswith s p \<Longrightarrow> p @ drop (length p) s = s"
  by (metis append_take_drop_id startswith_def)

lemma startswith_trans: "startswith s p \<Longrightarrow> startswith p q \<Longrightarrow> startswith s q"
  by (auto simp: startswith_iff)

lemma startswith_takeWhile: "startswith s (takeWhile P s)"
  by (metis startswith_append takeWhile_dropWhile_id)

lemma startswith_self [simp]: "startswith s s"
  by (simp add: startswith_def)

lemma startswith_partition: "startswith t (fst (py_partition c t))"
  by (simp add: py_partition_def startswith_takeWhile startswith_self)

lemma takeWhile_stop:
  "(\<And>x. x \<in> set xs \<Longrightarrow> P x) \<Longrightarrow> ys = [] \<or> \<not> P (hd ys) \<Longrightarrow> takeWhile P (xs @ ys) = xs"
  by (cases ys) (simp_all add: takeWhile_append2)

lemma dropWhile_stop: "(\<And>x. x \<in> set xs \<Longrightarrow> P x) \<Longrightarrow> \<not> P y \<Longrightarrow> dropWhile P (xs @ y # ys) = y # ys"
  by (simp add: dropWhile_append2)

lemma list_all_update:
  "list_all P al \<Longrightarrow> P (k, v) \<Longrightarrow> list_all P (AList.update k v al)"
  by (induction al) auto

lemma py_strip_trailing:
  assumes "s \<noteq> []" and "\<not> py_space (hd s)" and "\<not> py_space (last s)" and "list_all py_space t"
  shows "py_strip (s @ t) = s"
proof -
  have "dropWhile py_space (s @ t) = s @ t"
    using assms(1,2) by (cases s) simp_all
  moreover have "dropWhile py_space (rev t @ rev s) = dropWhile py_space (rev s)"
    using assms(4) by (intro dropWhile_append2) (simp add: list_all_iff)
  moreover have "dropWhile py_space (rev s) = rev s"
  proof -
    from assms(1) obtain a as where r: "rev s = a # as" by (cases "rev s") auto
    then have "s = rev as @ [a]" by (metis rev_rev_ident rev.simps(2))
    with assms(3) r show ?thesis by simp
  qed
  ultimately show ?thesis by (simp add: py_strip_def)
qed

lemma split_on_nonempty [simp]: "split_on c s \<noteq> []"
  by (induction s) (auto split: list.split)

lemma split_on_no_sep: "c \<notin> set w \<Longrightarrow> split_on c w = [w]"
  by (induction w) auto

lemma split_on_append_sep:
  "c \<notin> set w \<Longrightarrow> split_on c (w @ c # r) = w # split_on c r"
  by (induction w) auto

lemma split_on_join:
  "ws \<noteq> [] \<Longrightarrow> \<forall>w \<in> set ws. c \<notin> set w \<Longrightarrow> split_on c (join_with [c] ws) = ws"
proof (induction ws)
  case (Cons w ws)
  then show ?case
    by (cases ws) (simp_all add: split_on_no_sep split_on_append_sep)
qed simp

lemma find_Some_split:
  "find P xs = Some x \<longleftrightarrow> (\<exists>pre post. xs = pre @ x # post \<and> (\<forall>y \<in> set pre. \<not> P y) \<and> P x)"
proof (induction xs)
  case (Cons a xs)
  show ?case
  proof (cases "P a")
    case True
    then show ?thesis by (auto simp: Cons_eq_append_conv)
  next
    case False
    with Cons.IH show ?thesis
      by (auto simp: Cons_eq_append_conv) (metis append_Cons set_ConsD)
  qed
qed simp

lemma find_append_first: "\<forall>y \<in> set pre. \<not> P y \<Longrightarrow> P x \<Longrightarrow> find P (pre @ x # post) = Some x"
  by (induction pre) auto

lemma find_SomeD: "find P xs = Some x \<Longrightarrow> x \<in> set xs \<and> P x"
  by (induction xs) (auto split: if_splits)

lemma find_map_option: "find P (map f xs) = map_option f (find (P \<circ> f) xs)"
  by (induction xs) simp_all

lemma find_upt_Suc:
  "find P [0..<Suc (Suc n)] = (if P 0 then Some 0 else map_option Suc (find (P \<circ> Suc) [0..<Suc n]))"
proof -
  have "[0..<Suc (Suc n)] = 0 # map Suc [0..<Suc n]"
    by (metis map_Suc_upt upt_conv_Cons zero_less_Suc)
  then show ?thesis by (simp only: find.simps find_map_option)
qed

lemma update_new_key: "k \<notin> set (map fst d) \<Longrightarrow> AList.update k v d = d @ [(k, v)]"
  by (induction d) auto

lemma traverse_Inr_length: "traverse f xs = Inr ys \<Longrightarrow> length ys = length xs"
  by (induction xs arbitrary: ys) (auto split: sum.splits)

lemma traverse_Inl_iff:
  "traverse f xs = Inl e \<longleftrightarrow>
   (\<exists>pre x post. xs = pre @ x # post \<and> (\<forall>y \<in> set pre. (\<exists>b. f y = Inr b)) \<and> f x = Inl e)"
proof (induction xs)
  case (Cons a xs)
  show ?case
  proof (cases "f a")
    case (Inl e')
    show ?thesis
    proof
      assume "traverse f (a # xs) = Inl e"
      with Inl have "a # xs = [] @ a # xs \<and> (\<forall>y \<in> set []. (\<exists>b. f y = Inr b)) \<and> f a = Inl e" by simp
      then show "\<exists>pre x post. a # xs = pre @ x # post \<and> (\<forall>y \<in> set pre. (\<exists>b. f y = Inr b)) \<and> f x = Inl e"
        by blast
    next
      assume "\<exists>pre x post. a # xs = pre @ x # post \<and> (\<forall>y \<in> set pre. (\<exists>b. f y = Inr b)) \<and> f x = Inl e"
      with Inl show "traverse f (a # xs) = Inl e"
        by (auto simp: Cons_eq_append_conv)
    qed
  next
    case (Inr b)
    with Cons.IH show ?thesis
      by (auto simp: Cons_eq_append_conv split: sum.split) (metis set_ConsD)+
  qed
qed simp

lemma traverse_Inr_all2: "traverse f xs = Inr ys \<Longrightarrow> list_all2 (\<lambda>x y. f x = Inr y) xs ys"
  by (induction xs arbitrary: ys) (auto split: sum.splits)

lemma map_of_zip_keys:
  "distinct (map k xs) \<Longrightarrow> list_all2 P xs ys \<Longrightarrow> x \<in> set xs \<Longrightarrow>
   \<exists>y. map_of (zip (map k xs) ys) (k x) = Some y \<and> P x y"
proof (induction xs arbitrary: ys)
  case (Cons a xs)
  then obtain b bs where ys: "ys = b # bs" and "P a b" and rest: "list_all2 P xs bs"
    by (auto simp: list_all2_Cons1)
  show ?case
  proof (cases "x = a")
    case True
    with ys \<open>P a b\<close> show ?thesis by simp
  next
    case False
    with Cons.prems have "x \<in> set xs" by simp
    with Cons.prems rest obtain y where "map_of (zip (map k xs) bs) (k x) = Some y" "P x y"
      using Cons.IH by auto
    moreover from Cons.prems \<open>x \<in> set xs\<close> have "k x \<noteq> k a" by (auto simp: image_iff)
    ultimately show ?thesis using ys by auto
  qed
qed simp

lemma rfind_append_other: "c \<notin> set ys \<Longrightarrow> rfind c (xs @ ys) = rfind c xs"
proof (induction xs)
  case Nil
  then show ?case by (induction ys) auto
qed (simp split: option.splits)

lemma rfind_snoc: "rfind c (xs @ [c]) = Some (length xs)"
  by (induction xs) simp_all

lemma path_suffix_ext:
  assumes "path_name s = n @ CHR ''.'' # ext" and "ext \<noteq> []" and "CHR ''.'' \<notin> set ext"
    and "n \<noteq> []"
  shows "path_suffix s = CHR ''.'' # ext"
proof -
  have "rfind CHR ''.'' (n @ CHR ''.'' # ext) = Some (length n)"
    using assms(3) rfind_append_other [of "CHR ''.''" ext "n @ [CHR ''.'']"] by (simp add: rfind_snoc)
  then show ?thesis
    using assms(1,2,4) by (simp add: path_suffix_def)
qed

lemma find_snoc: "find P (xs @ [x]) = (case find P xs of None \<Rightarrow> if P x then Some x else None | s \<Rightarrow> s)"
  by (induction xs) simp_all

lemma split_on_no_sep_all: "w \<in> set (split_on c s) \<Longrightarrow> c \<notin> set w"
  by (induction s arbitrary: w) (auto split: list.splits if_splits)

lemma split_on_append_sep_gen: "split_on c (x @ c # y) = split_on c x @ split_on c y"
proof (induction x)
  case (Cons a x)
  then show ?case by (cases "split_on c x") (auto split: list.splits)
qed simp

lemma path_of_components: "list_all component_ok (snd (path_of s))"
  by (auto simp: path_of_def component_ok_def list_all_iff dest: split_on_no_sep_all)

lemma join_with_hd: "ws \<noteq> [] \<Longrightarrow> hd ws \<noteq> [] \<Longrightarrow> hd (join_with sep ws) = hd (hd ws)"
  by (induction sep ws rule: join_with.induct) auto

lemma component_hd: "component_ok w \<Longrightarrow> hd w \<noteq> CHR ''/''"
  by (cases w) (auto simp: component_ok_def)

lemma join_with_nonempty: "ws \<noteq> [] \<Longrightarrow> hd ws \<noteq> [] \<Longrightarrow> join_with sep ws \<noteq> []"
  by (induction sep ws rule: join_with.induct) auto

lemma path_of_path_str:
  assumes "list_all component_ok cs"
  shows "path_of (path_str (b, cs)) = (b, cs)"
proof (cases "cs = []")
  case True
  then show ?thesis by (cases b) (simp_all add: path_of_def path_str_def)
next
  case False
  have sp: "split_on CHR ''/'' (join_with ''/'' cs) = cs"
    using False assms by (intro split_on_join) (auto simp: list_all_iff component_ok_def)
  have f: "filter (\<lambda>w. w \<noteq> [] \<and> w \<noteq> ''.'') cs = cs"
    using assms by (auto simp: list_all_iff component_ok_def filter_id_conv)
  have ne: "join_with ''/'' cs \<noteq> []"
    using False assms by (intro join_with_nonempty) (auto simp: component_ok_def neq_Nil_conv)
  have hd: "hd (join_with ''/'' cs) \<noteq> CHR ''/''"
    using False assms join_with_hd [of cs "''/''"] component_hd [of "hd cs"]
    by (cases cs) (auto simp: component_ok_def)
  show ?thesis
    using sp f ne hd by (cases b) (simp_all add: path_of_def path_str_def)
qed

lemma path_div_relative:
  "\<not> fst (path_of y) \<Longrightarrow> path_of (path_div d y) = (fst (path_of d), snd (path_of d) @ snd (path_of y))"
  using path_of_components [of d] path_of_components [of y]
  by (simp add: path_div_def Let_def path_of_path_str)

lemma path_of_relative: "\<not> fst (path_of y) \<longleftrightarrow> take 1 y \<noteq> ''/''"
  by (cases y) (auto simp: path_of_def)

lemma component_relative: "component_ok w \<Longrightarrow> \<not> fst (path_of w)"
  by (cases w) (auto simp: component_ok_def path_of_def)

lemma path_name_relative: "\<not> fst (path_of (path_name t))"
proof (cases "snd (path_of t)")
  case Nil
  then show ?thesis by (simp add: path_name_def path_of_def)
next
  case (Cons w ws)
  then have "component_ok (last (w # ws))"
    using path_of_components [of t] last_in_set [of "w # ws"] by (simp only: list_all_iff) blast
  with Cons show ?thesis by (simp add: path_name_def component_relative del: last.simps)
qed

lemma path_str_nonempty: "path_str p \<noteq> []"
  by (simp add: path_str_def Let_def)

lemma set_update_memD: "x \<in> set (AList.update k v al) \<Longrightarrow> x = (k, v) \<or> x \<in> set al"
  by (induction al) (auto split: if_splits)

end
