(* ===== verification/Models.thy ===== *)
theory Models
  imports Prelude
begin

text \<open>
  The data of \<^verbatim>\<open>src/scripts/models.py\<close> (\<open>AssetPattern\<close>, \<open>PluginSource\<close>,
  \<open>PluginConfig\<close>, \<open>ReleaseState\<close>) as records; the GitHub release records that
  \<^verbatim>\<open>plugin_release.py\<close> reads with \<open>dict.get\<close>; the exceptions the scripts raise or
  let escape, as one datatype; the regular-expression engine the scripts call, as an
  interface; and the file store the pipeline reads and writes.
\<close>

section \<open>Configuration and state records (models.py)\<close>

record asset_pattern =
  arch :: string
  pattern :: string
  rename_to :: "string option"
  archive_member :: "string option"

record plugin_source =
  source_type :: string
  owner :: string
  repo :: string
  release_branch :: "string option"
  tag_prefix :: string
  asset_patterns :: "asset_pattern list"

record plugin_config =
  name :: string
  branch :: string
  source :: plugin_source
  release_name_template :: string
  release_body_template :: string
  plugin_description :: string
  binary_subdir :: string

text \<open>\<open>PluginConfig.expected_architectures\<close>.\<close>

definition expected_architectures :: "plugin_config \<Rightarrow> string list" where
  "expected_architectures p = map arch (asset_patterns (source p))"

record release_state =
  plugin :: string
  version :: string
  assets :: "(string \<times> string) list"

section \<open>Upstream releases (GitHub JSON, read with dict.get)\<close>

text \<open>
  A release is the JSON object of the releases listing; each field is what
  \<open>release.get(...)\<close> yields: \<open>tag_name\<close> defaults to the empty string,
  \<open>target_commitish\<close> and \<open>html_url\<close> may be absent, \<open>draft\<close> and
  \<open>prerelease\<close> are read for their truth value.
\<close>

record asset =
  asset_name :: string
  browser_download_url :: "string option"

record release =
  tag_name :: string
  target_commitish :: "string option"
  draft :: bool
  prerelease :: bool
  release_assets :: "asset list"
  html_url :: "string option"

section \<open>Exceptions\<close>

text \<open>
  One constructor per raise site. The first group are the \<open>PluginReleaseError\<close>s of
  \<^verbatim>\<open>plugin_release.py\<close>, the second \<open>ConfigurationError\<close> and \<open>GitHubAPIError\<close>;
  the third are exceptions the scripts do not raise themselves and never catch
  (\<open>re.error\<close>, \<open>KeyError\<close>, \<open>OSError\<close>, \<open>URLError\<close>, JSON decoding, \<open>str.format\<close>):
  they end the process with a traceback.
\<close>

datatype error =
    Branch_unknown
  | Wrong_branch string string
  | Origin_unknown
  | Origin_unparsable string
  | Unexpected_releases_response
  | No_eligible_release
  | No_matching_asset string string
  | No_download_url
  | Download_failed string int
  | Unsupported_archive string
  | Member_not_found string string
  | Ambiguous_member string
  | No_upload_url
  | Configuration_error string
  | GitHub_api_error int
  | Regex_error string
  | Key_error string
  | OS_error string
  | Network_error string
  | Json_decode_error string
  | Type_error string
  | Format_error string

fun is_plugin_release_error :: "error \<Rightarrow> bool" where
  "is_plugin_release_error Branch_unknown = True"
| "is_plugin_release_error (Wrong_branch _ _) = True"
| "is_plugin_release_error Origin_unknown = True"
| "is_plugin_release_error (Origin_unparsable _) = True"
| "is_plugin_release_error Unexpected_releases_response = True"
| "is_plugin_release_error No_eligible_release = True"
| "is_plugin_release_error (No_matching_asset _ _) = True"
| "is_plugin_release_error No_download_url = True"
| "is_plugin_release_error (Download_failed _ _) = True"
| "is_plugin_release_error (Unsupported_archive _) = True"
| "is_plugin_release_error (Member_not_found _ _) = True"
| "is_plugin_release_error (Ambiguous_member _) = True"
| "is_plugin_release_error No_upload_url = True"
| "is_plugin_release_error _ = False"

fun is_github_api_error :: "error \<Rightarrow> bool" where
  "is_github_api_error (GitHub_api_error _) = True"
| "is_github_api_error _ = False"

type_synonym 'a result = "error + 'a"

section \<open>Regular expressions\<close>

text \<open>
  The scripts use \<open>re.compile\<close>, which raises \<open>re.error\<close> on a malformed pattern,
  and \<open>Pattern.search\<close>, which looks for a match anywhere in the subject. The model is
  generic in the engine: every lemma holds for any compiler and any search predicate.
\<close>

record 're regex_engine =
  re_compile :: "string \<Rightarrow> 're option"
  re_search :: "'re \<Rightarrow> string \<Rightarrow> bool"

section \<open>Files\<close>

text \<open>
  File contents. \<open>Bytes\<close> is an opaque file, \<open>Json_doc\<close> a file holding the
  JSON text of a value (what \<open>json.dumps\<close> writes and \<open>json.loads\<close> reads back),
  \<open>Zip_file\<close> a zip archive (its central directory in order: name and content of each
  entry, directories named with a trailing slash) and \<open>Tar_file\<close> a tar archive,
  compressed or not (name, member type and content of each member).
\<close>

datatype json =
    JNull
  | JBool bool
  | JNum int
  | JStr string
  | JArr "json list"
  | JObj "(string \<times> json) list"

datatype tar_kind = Tar_regular | Tar_directory | Tar_special

datatype blob =
    Bytes string
  | Json_doc json
  | Zip_file "(string \<times> blob) list"
  | Tar_file "(string \<times> tar_kind \<times> blob) list"

text \<open>
  The file store maps normalised path strings to contents; directories exist
  implicitly. \<open>p\<close> lies under directory \<open>d\<close> when \<open>d/\<close> is a prefix of \<open>p\<close>. A
  write fails when a file stands where a parent directory should be, or when the
  target is a directory that holds files; \<open>mkdir(parents=True, exist_ok=True)\<close>
  fails when a file stands at the directory or at one of its parents.
\<close>

type_synonym fs = "(string \<times> blob) list"

definition under :: "string \<Rightarrow> string \<Rightarrow> bool" where
  "under d p \<longleftrightarrow> startswith p (d @ ''/'')"

definition writable :: "fs \<Rightarrow> string \<Rightarrow> bool" where
  "writable fs p \<longleftrightarrow> \<not> list_ex (\<lambda>q. under q p \<or> under p q) (map fst fs)"

definition dir_creatable :: "fs \<Rightarrow> string \<Rightarrow> bool" where
  "dir_creatable fs d \<longleftrightarrow> \<not> list_ex (\<lambda>q. q = d \<or> under q d) (map fst fs)"

definition fs_write :: "string \<Rightarrow> blob \<Rightarrow> (error, fs, unit) exn_st" where
  "fs_write p b fs =
     (if writable fs p then (Inr (), AList.update p b fs) else (Inl (OS_error p), fs))"

definition fs_mkdir :: "string \<Rightarrow> (error, fs, unit) exn_st" where
  "fs_mkdir d fs = (if dir_creatable fs d then (Inr (), fs) else (Inl (OS_error d), fs))"

definition fs_read :: "string \<Rightarrow> (error, fs, blob) exn_st" where
  "fs_read p fs = (case map_of fs p of None \<Rightarrow> (Inl (OS_error p), fs) | Some b \<Rightarrow> (Inr b, fs))"

definition fs_exists :: "fs \<Rightarrow> string \<Rightarrow> bool" where
  "fs_exists fs d \<longleftrightarrow> list_ex (\<lambda>q. q = d \<or> under d q) (map fst fs)"

text \<open>\<open>shutil.rmtree(d, ignore_errors=True)\<close>: every file at or under \<open>d\<close> goes.\<close>

definition fs_rmtree :: "string \<Rightarrow> fs \<Rightarrow> fs" where
  "fs_rmtree d fs = filter (\<lambda>(q, _). \<not> (q = d \<or> under d q)) fs"

section \<open>Lemmas\<close>

lemma fs_write_ok [simp]: "writable fs p \<Longrightarrow> fs_write p b fs = (Inr (), AList.update p b fs)"
  by (simp add: fs_write_def)

lemma fs_write_fail [simp]: "\<not> writable fs p \<Longrightarrow> fs_write p b fs = (Inl (OS_error p), fs)"
  by (simp add: fs_write_def)

lemma fs_mkdir_ok [simp]: "dir_creatable fs d \<Longrightarrow> fs_mkdir d fs = (Inr (), fs)"
  by (simp add: fs_mkdir_def)

lemma fs_mkdir_fail [simp]: "\<not> dir_creatable fs d \<Longrightarrow> fs_mkdir d fs = (Inl (OS_error d), fs)"
  by (simp add: fs_mkdir_def)

lemma fs_write_result:
  "fs_write p b fs = (r, fs') \<Longrightarrow> (r = Inr () \<and> fs' = AList.update p b fs) \<or> (r = Inl (OS_error p) \<and> fs' = fs)"
  by (auto simp: fs_write_def split: if_splits)

lemma fs_mkdir_state: "fs_mkdir d fs = (r, fs') \<Longrightarrow> fs' = fs"
  by (auto simp: fs_mkdir_def split: if_splits)

lemma fs_read_state: "fs_read p fs = (r, fs') \<Longrightarrow> fs' = fs"
  by (auto simp: fs_read_def split: option.splits)

lemma fs_rmtree_gone: "map_of (fs_rmtree d fs) q = None \<or> \<not> (q = d \<or> under d q)"
  by (induction fs) (auto simp: fs_rmtree_def)

lemma fs_rmtree_not_exists: "\<not> fs_exists (fs_rmtree d fs) d"
  by (induction fs) (auto simp: fs_rmtree_def fs_exists_def)

lemma fs_rmtree_other: "\<not> (q = d \<or> under d q) \<Longrightarrow> map_of (fs_rmtree d fs) q = map_of fs q"
  by (induction fs) (auto simp: fs_rmtree_def)

lemma under_irrefl [simp]: "\<not> under p p"
  by (simp add: under_def startswith_def)

lemma writable_update_self: "writable fs p \<Longrightarrow> writable (AList.update p b fs) p"
  by (simp add: writable_def list_ex_iff update_keys)

lemma fs_exists_update: "fs_exists (AList.update p b fs) p"
  by (simp add: fs_exists_def list_ex_iff dom_update)

lemma map_of_fs_exists: "map_of fs p \<noteq> None \<Longrightarrow> fs_exists fs p"
  by (force simp: fs_exists_def list_ex_iff dest: map_of_SomeD)

end
