(* ===== verification/State.thy ===== *)
theory State
  imports Models
begin

text \<open>
  The state tracker, \<^verbatim>\<open>src/scripts/state.py\<close>. \<open>save_state\<close> creates the parent
  directory and writes the JSON object \<open>{"plugin", "version", "assets"}\<close>;
  \<open>load_state\<close> answers \<open>None\<close> for a path that does not exist and otherwise reads
  the JSON object back: \<open>raw["plugin"]\<close> and \<open>raw["version"]\<close> raise \<open>KeyError\<close>
  when missing, \<open>raw.get("assets", {})\<close> defaults to an empty object, and a JSON value
  that is not an object makes the subscript raise \<open>TypeError\<close>. The dataclass checks
  no types, so the loaded record holds JSON values as they are (\<open>stored_state\<close>).
  \<open>json.loads\<close> turns an object into a dictionary: a repeated key keeps its first
  position and its last value (\<open>py_object\<close>); the model applies this to the top-level
  object and to the \<open>assets\<close> object, the only objects a state file holds.
\<close>

section \<open>Definitions\<close>

definition state_json :: "release_state \<Rightarrow> json" where
  "state_json s =
     JObj [(''plugin'', JStr (plugin s)), (''version'', JStr (version s)),
           (''assets'', JObj (map (\<lambda>(k, v). (k, JStr v)) (assets s)))]"

definition save_state :: "string \<Rightarrow> release_state \<Rightarrow> (error, fs, unit) exn_st" where
  "save_state path s = ebind (fs_mkdir (path_parent path)) (\<lambda>_. fs_write path (Json_doc (state_json s)))"

record stored_state =
  stored_plugin :: json
  stored_version :: json
  stored_assets :: json

definition py_object :: "(string \<times> json) list \<Rightarrow> (string \<times> json) list" where
  "py_object kv = fold (\<lambda>(k, v) d. dict_set d k v) kv []"

definition py_assets :: "json \<Rightarrow> json" where
  "py_assets j = (case j of JObj kv \<Rightarrow> JObj (py_object kv) | _ \<Rightarrow> j)"

definition state_of_json :: "string \<Rightarrow> json \<Rightarrow> stored_state option result" where
  "state_of_json path raw =
     (case raw of
        JObj kv \<Rightarrow>
          (let d = py_object kv
           in case map_of d ''plugin'' of
                None \<Rightarrow> Inl (Key_error ''plugin'')
              | Some pl \<Rightarrow>
                  (case map_of d ''version'' of
                     None \<Rightarrow> Inl (Key_error ''version'')
                   | Some ve \<Rightarrow>
                       Inr (Some \<lparr>stored_plugin = pl, stored_version = ve,
                                  stored_assets = (case map_of d ''assets'' of
                                                     None \<Rightarrow> JObj []
                                                   | Some a \<Rightarrow> py_assets a)\<rparr>)))
      | _ \<Rightarrow> Inl (Type_error path))"

definition load_state :: "string \<Rightarrow> fs \<Rightarrow> stored_state option result" where
  "load_state path fs =
     (if \<not> fs_exists fs path then Inr None
      else case map_of fs path of
             None \<Rightarrow> Inl (OS_error path)
           | Some (Json_doc raw) \<Rightarrow> state_of_json path raw
           | Some _ \<Rightarrow> Inl (Json_decode_error path))"

text \<open>The record \<open>load_state\<close> gives back for a state written by \<open>save_state\<close>.\<close>

definition stored_of :: "release_state \<Rightarrow> stored_state" where
  "stored_of s =
     \<lparr>stored_plugin = JStr (plugin s), stored_version = JStr (version s),
      stored_assets = JObj (map (\<lambda>(k, v). (k, JStr v)) (assets s))\<rparr>"

section \<open>Lemmas\<close>


lemma fold_dict_set_fresh:
  "distinct (map fst (d @ kv)) \<Longrightarrow> fold (\<lambda>(k, v) d. dict_set d k v) kv d = d @ kv"
proof (induction kv arbitrary: d)
  case (Cons p kv)
  obtain k v where p: "p = (k, v)" by fastforce
  from Cons.prems p have "k \<notin> set (map fst d)" by auto
  then have "dict_set d k v = d @ [(k, v)]" by (rule update_new_key)
  moreover from Cons.prems p have "distinct (map fst ((d @ [(k, v)]) @ kv))" by simp
  ultimately show ?case using Cons.IH p by simp
qed simp

lemma py_object_distinct: "distinct (map fst kv) \<Longrightarrow> py_object kv = kv"
  using fold_dict_set_fresh [of "[]" kv] by (simp add: py_object_def)

lemma save_state_Inr:
  "save_state path s fs = (Inr (), fs') \<Longrightarrow> fs' = AList.update path (Json_doc (state_json s)) fs"
  by (auto simp: save_state_def fs_mkdir_def fs_write_def exn_simps split: if_splits)

lemma map_JStr_keys: "map fst (map (\<lambda>(k, v). (k, JStr v)) kv) = map fst kv"
  by (induction kv) auto

lemma load_state_saved_version:
  assumes "map_of fs p = Some (Json_doc (state_json s))"
  shows "\<exists>st. load_state p fs = Inr (Some st) \<and> stored_version st = JStr (version s)"
proof -
  obtain a where sj: "state_json s = JObj [(''plugin'', JStr (plugin s)), (''version'', JStr (version s)), (''assets'', a)]"
    by (simp add: state_json_def)
  have top: "py_object [(''plugin'', JStr (plugin s)), (''version'', JStr (version s)), (''assets'', a)] =
      [(''plugin'', JStr (plugin s)), (''version'', JStr (version s)), (''assets'', a)]"
    by (rule py_object_distinct) simp
  from assms have "fs_exists fs p" by (intro map_of_fs_exists) simp
  with assms show ?thesis
    by (simp add: load_state_def sj state_of_json_def top)
qed

section \<open>Properties\<close>

text \<open>
  C7 (roundtrip): a release state whose asset dictionary has distinct keys, once written by \<open>save_state\<close>, is read back by \<open>load_state\<close> with the same plugin, version and assets.
\<close>

theorem state_roundtrip:
  assumes "distinct (map fst (assets s))" and "save_state path s fs = (Inr (), fs')"
  shows "load_state path fs' = Inr (Some (stored_of s))"
proof -
  from assms(2) have fs': "fs' = AList.update path (Json_doc (state_json s)) fs"
    by (rule save_state_Inr)
  have top: "py_object [(''plugin'', JStr (plugin s)), (''version'', JStr (version s)),
           (''assets'', JObj (map (\<lambda>(k, v). (k, JStr v)) (assets s)))] =
      [(''plugin'', JStr (plugin s)), (''version'', JStr (version s)),
           (''assets'', JObj (map (\<lambda>(k, v). (k, JStr v)) (assets s)))]"
    by (rule py_object_distinct) simp
  have inner: "py_object (map (\<lambda>(k, v). (k, JStr v)) (assets s)) = map (\<lambda>(k, v). (k, JStr v)) (assets s)"
    by (rule py_object_distinct, subst map_JStr_keys, rule assms(1))
  show ?thesis
    by (simp add: fs' load_state_def fs_exists_update update_conv' state_json_def state_of_json_def
        top inner py_assets_def stored_of_def)
qed

theorem state_roundtrip_witness:
  "save_state ''state/foo.json'' \<lparr>plugin = ''foo'', version = ''2.1.0'', assets = [(''x64'', ''dist/foo-2.1.0-x64.mxt64'')]\<rparr> []
     = (Inr (), [(''state/foo.json'', Json_doc (state_json \<lparr>plugin = ''foo'', version = ''2.1.0'', assets = [(''x64'', ''dist/foo-2.1.0-x64.mxt64'')]\<rparr>))]) \<and>
   load_state ''state/foo.json''
     [(''state/foo.json'', Json_doc (state_json \<lparr>plugin = ''foo'', version = ''2.1.0'', assets = [(''x64'', ''dist/foo-2.1.0-x64.mxt64'')]\<rparr>))]
   = Inr (Some \<lparr>stored_plugin = JStr ''foo'', stored_version = JStr ''2.1.0'',
                stored_assets = JObj [(''x64'', JStr ''dist/foo-2.1.0-x64.mxt64'')]\<rparr>)"
proof -
  let ?s = "\<lparr>plugin = ''foo'', version = ''2.1.0'', assets = [(''x64'', ''dist/foo-2.1.0-x64.mxt64'')]\<rparr>"
  have save: "save_state ''state/foo.json'' ?s [] = (Inr (), [(''state/foo.json'', Json_doc (state_json ?s))])"
    by (simp add: save_state_def dir_creatable_def writable_def exn_simps)
  from state_roundtrip [of ?s, OF _ save] save show ?thesis
    by (simp add: stored_of_def)
qed

end
