(* ===== verification/Resolver.thy ===== *)
theory Resolver
  imports Models
begin

text \<open>
  The release resolver, \<open>_latest_release\<close> of \<^verbatim>\<open>plugin_release.py\<close>: a linear scan
  of the releases listing, newest first, for the first release that is neither a
  draft nor a prerelease, lies on the configured branch and carries the configured
  tag prefix; the version is the tag without the prefix. The listing comes through
  the transport interface \<open>list_releases owner repo\<close>, which may fail with an API
  error or answer with JSON that is not a list. Against it stands the abstract
  specification \<open>resolve_spec\<close> of the release contract (spec section 4.4).
\<close>

section \<open>The scan\<close>

text \<open>A branch is required when \<open>release_branch\<close> is set and not empty (Python truthiness).\<close>

definition branch_required :: "plugin_source \<Rightarrow> bool" where
  "branch_required src = (case release_branch src of None \<Rightarrow> False | Some b \<Rightarrow> b \<noteq> [])"

fun scan_releases :: "plugin_source \<Rightarrow> release list \<Rightarrow> (release \<times> string) result" where
  "scan_releases src [] = Inl No_eligible_release"
| "scan_releases src (r # rs) =
     (if draft r \<or> prerelease r then scan_releases src rs
      else if branch_required src \<and> target_commitish r \<noteq> release_branch src then scan_releases src rs
      else if tag_prefix src \<noteq> [] \<and> \<not> startswith (tag_name r) (tag_prefix src) then scan_releases src rs
      else Inr (r, if tag_prefix src \<noteq> [] then drop (length (tag_prefix src)) (tag_name r)
                   else tag_name r))"

type_synonym releases_api = "string \<Rightarrow> string \<Rightarrow> release list option result"

definition latest_release :: "releases_api \<Rightarrow> plugin_config \<Rightarrow> (release \<times> string) result" where
  "latest_release list_releases pc =
     (case list_releases (owner (source pc)) (repo (source pc)) of
        Inl e \<Rightarrow> Inl e
      | Inr None \<Rightarrow> Inl Unexpected_releases_response
      | Inr (Some releases) \<Rightarrow> scan_releases (source pc) releases)"

section \<open>The contract\<close>

text \<open>
  A release is eligible when it is not a draft, not a prerelease, its target branch is
  the required one if a branch is required, and its tag starts with the prefix. The
  resolved release is the first eligible one, its version the tag with the prefix
  removed.
\<close>

definition eligible :: "plugin_source \<Rightarrow> release \<Rightarrow> bool" where
  "eligible src r \<longleftrightarrow>
     \<not> draft r \<and> \<not> prerelease r \<and>
     (case release_branch src of None \<Rightarrow> True | Some b \<Rightarrow> b = [] \<or> target_commitish r = Some b) \<and>
     startswith (tag_name r) (tag_prefix src)"

definition release_version :: "plugin_source \<Rightarrow> release \<Rightarrow> string" where
  "release_version src r = drop (length (tag_prefix src)) (tag_name r)"

definition resolve_spec :: "plugin_source \<Rightarrow> release list \<Rightarrow> (release \<times> string) result" where
  "resolve_spec src rs =
     (case find (eligible src) rs of
        None \<Rightarrow> Inl No_eligible_release
      | Some r \<Rightarrow> Inr (r, release_version src r))"

section \<open>Example listing\<close>

text \<open>
  A source on branch \<open>main\<close> with tag prefix \<open>release-\<close>, and a listing whose first
  three releases are a draft, a release of another branch and a tag without the prefix.
\<close>

definition example_source :: plugin_source where
  "example_source =
     \<lparr>source_type = ''github'', owner = ''acme'', repo = ''tool'', release_branch = Some ''main'',
      tag_prefix = ''release-'', asset_patterns = []\<rparr>"

definition example_release :: "string \<Rightarrow> string \<Rightarrow> bool \<Rightarrow> release" where
  "example_release tag br dr =
     \<lparr>tag_name = tag, target_commitish = Some br, draft = dr, prerelease = False,
      release_assets = [], html_url = None\<rparr>"

definition example_listing :: "release list" where
  "example_listing =
     [example_release ''release-4.0'' ''main'' True, example_release ''release-3.5'' ''dev'' False,
      example_release ''v3.1'' ''main'' False, example_release ''release-3.0'' ''main'' False,
      example_release ''release-2.0'' ''main'' False]"

definition example_config :: plugin_config where
  "example_config =
     \<lparr>name = ''tool'', branch = ''main'', source = example_source,
      release_name_template = ''{name} {version}'', release_body_template = [],
      plugin_description = [], binary_subdir = ''bin''\<rparr>"

section \<open>Lemmas\<close>

lemma eligible_scan_guards:
  "eligible src r \<longleftrightarrow>
     \<not> (draft r \<or> prerelease r) \<and>
     \<not> (branch_required src \<and> target_commitish r \<noteq> release_branch src) \<and>
     \<not> (tag_prefix src \<noteq> [] \<and> \<not> startswith (tag_name r) (tag_prefix src))"
  by (auto simp: eligible_def branch_required_def split: option.splits)

lemma scan_releases_Cons_eligible:
  "eligible src r \<Longrightarrow> scan_releases src (r # rs) = Inr (r, release_version src r)"
  by (auto simp: eligible_scan_guards release_version_def)

lemma scan_releases_Cons_ineligible:
  "\<not> eligible src r \<Longrightarrow> scan_releases src (r # rs) = scan_releases src rs"
  by (auto simp: eligible_scan_guards)

lemma scan_releases_result:
  "scan_releases src rs = Inl e \<Longrightarrow> e = No_eligible_release"
  by (induction rs) (auto split: if_splits)

lemma scan_releases_Inr_mem:
  "scan_releases src rs = Inr (r, v) \<Longrightarrow> r \<in> set rs \<and> eligible src r \<and> v = release_version src r"
  by (induction rs) (auto simp: eligible_scan_guards release_version_def split: if_splits)

lemma scan_releases_resolve_spec: "scan_releases src rs = resolve_spec src rs"
proof (induction rs)
  case Nil
  then show ?case by (simp add: resolve_spec_def)
next
  case (Cons r rs)
  then show ?case
    by (cases "eligible src r")
       (simp_all add: resolve_spec_def scan_releases_Cons_eligible scan_releases_Cons_ineligible
         del: scan_releases.simps)
qed

lemma latest_release_Inr_cases:
  "latest_release api pc = Inr (r, v) \<Longrightarrow>
   \<exists>rs. api (owner (source pc)) (repo (source pc)) = Inr (Some rs) \<and>
     find (eligible (source pc)) rs = Some r \<and> v = release_version (source pc) r"
  unfolding latest_release_def scan_releases_resolve_spec resolve_spec_def
  by (simp split: sum.splits option.splits)

section \<open>Properties\<close>

text \<open>
  C4 (refinement): \<open>_latest_release\<close> implements the release contract: it passes
  on the transport's error, rejects a listing that is not a list, and on a list returns
  what \<open>resolve_spec\<close> returns, the first eligible release with its version, or
  \<open>NoEligibleRelease\<close> when there is none.
\<close>

theorem latest_release_refines:
  "latest_release api pc =
     (case api (owner (source pc)) (repo (source pc)) of
        Inl e \<Rightarrow> Inl e
      | Inr None \<Rightarrow> Inl Unexpected_releases_response
      | Inr (Some rs) \<Rightarrow> resolve_spec (source pc) rs)"
  unfolding latest_release_def by (simp add: scan_releases_resolve_spec split: sum.split option.split)

text \<open>
  C10 (functional): \<open>_latest_release\<close> returns release \<open>r\<close> with version \<open>v\<close>
  exactly when the listing is a list in which \<open>r\<close> is eligible, every release before
  it is not, and \<open>v\<close> is the tag of \<open>r\<close> without the prefix: first match wins.
\<close>

theorem latest_release_first_eligible:
  "latest_release api pc = Inr (r, v) \<longleftrightarrow>
   (\<exists>pre post. api (owner (source pc)) (repo (source pc)) = Inr (Some (pre @ r # post)) \<and>
      (\<forall>x \<in> set pre. \<not> eligible (source pc) x) \<and> eligible (source pc) r \<and>
      v = release_version (source pc) r)"
  (is "?lhs \<longleftrightarrow> ?rhs")
proof
  assume ?lhs
  then obtain rs where api: "api (owner (source pc)) (repo (source pc)) = Inr (Some rs)"
    and first: "find (eligible (source pc)) rs = Some r" and v: "v = release_version (source pc) r"
    by (blast dest: latest_release_Inr_cases)
  from first obtain pre post where "rs = pre @ r # post" "\<forall>x \<in> set pre. \<not> eligible (source pc) x"
    "eligible (source pc) r"
    unfolding find_Some_split by blast
  with api v show ?rhs by blast
next
  assume ?rhs
  then obtain pre post where api: "api (owner (source pc)) (repo (source pc)) = Inr (Some (pre @ r # post))"
    and pre: "\<forall>x \<in> set pre. \<not> eligible (source pc) x" and el: "eligible (source pc) r"
    and v: "v = release_version (source pc) r"
    by blast
  from pre el have first: "find (eligible (source pc)) (pre @ r # post) = Some r"
    by (rule find_append_first)
  show ?lhs
    by (simp add: latest_release_def scan_releases_resolve_spec resolve_spec_def api first v)
qed

theorem latest_release_first_eligible_witness:
  "latest_release (\<lambda>_ _. Inr (Some example_listing)) example_config
     = Inr (example_listing ! 3, ''3.0'') \<and>
   eligible example_source (example_listing ! 3) \<and>
   \<not> eligible example_source (example_listing ! 0) \<and> \<not> eligible example_source (example_listing ! 1) \<and>
   \<not> eligible example_source (example_listing ! 2)"
proof -
  have pre: "\<forall>x \<in> set (take 3 example_listing). \<not> eligible example_source x"
    by (simp add: example_listing_def example_release_def example_source_def eligible_def startswith_def)
  have el: "eligible example_source (example_listing ! 3)"
    by (simp add: example_listing_def example_release_def example_source_def eligible_def startswith_def)
  have listing: "example_listing = take 3 example_listing @ example_listing ! 3 # drop 4 example_listing"
    by (simp add: example_listing_def)
  have ver: "''3.0'' = release_version example_source (example_listing ! 3)"
    by (simp add: example_listing_def example_release_def example_source_def release_version_def)
  have "latest_release (\<lambda>_ _. Inr (Some example_listing)) example_config
          = Inr (example_listing ! 3, ''3.0'')"
    using latest_release_first_eligible [of "\<lambda>_ _. Inr (Some example_listing)" example_config
        "example_listing ! 3" "''3.0''"]
      pre el ver listing[symmetric]
    unfolding example_config_def by (metis plugin_config.select_convs(3))
  with pre el show ?thesis by (simp add: example_listing_def)
qed

text \<open>
  C15 (error): \<open>_latest_release\<close> fails exactly in three ways: the transport's error
  is passed on, a listing that is not a JSON list gives the unexpected-response error,
  and a list with no eligible release gives \<open>NoEligibleRelease\<close>.
\<close>

theorem latest_release_errors:
  "latest_release api pc = Inl e \<longleftrightarrow>
     api (owner (source pc)) (repo (source pc)) = Inl e \<or>
     (api (owner (source pc)) (repo (source pc)) = Inr None \<and> e = Unexpected_releases_response) \<or>
     (\<exists>rs. api (owner (source pc)) (repo (source pc)) = Inr (Some rs) \<and>
        (\<forall>x \<in> set rs. \<not> eligible (source pc) x) \<and> e = No_eligible_release)"
  unfolding latest_release_def scan_releases_resolve_spec resolve_spec_def
  by (simp add: find_None_iff split: sum.split option.split) (auto dest: find_SomeD)

theorem latest_release_errors_witness:
  "latest_release (\<lambda>_ _. Inr (Some (take 3 example_listing))) example_config = Inl No_eligible_release \<and>
   \<not> eligible example_source (example_listing ! 0) \<and> \<not> eligible example_source (example_listing ! 1) \<and>
   \<not> eligible example_source (example_listing ! 2)"
proof -
  have none: "\<forall>x \<in> set (take 3 example_listing). \<not> eligible example_source x"
    by (simp add: example_listing_def example_release_def example_source_def eligible_def startswith_def)
  have "latest_release (\<lambda>_ _. Inr (Some (take 3 example_listing))) example_config = Inl No_eligible_release"
    using latest_release_errors [of "\<lambda>_ _. Inr (Some (take 3 example_listing))" example_config
        No_eligible_release] none
    by (simp add: example_config_def)
  with none show ?thesis by (simp add: example_listing_def)
qed

text \<open>
  The resolved version is the tag with the configured prefix stripped,
  so prefixing it again gives back the release's tag.
\<close>

theorem scan_releases_version_prefix:
  "scan_releases src rs = Inr (r, v) \<Longrightarrow> tag_name r = tag_prefix src @ v"
proof -
  assume "scan_releases src rs = Inr (r, v)"
  then have "eligible src r" and "v = release_version src r"
    by (auto dest: scan_releases_Inr_mem)
  then show ?thesis
    by (simp add: eligible_def release_version_def startswith_drop)
qed

theorem scan_releases_version_prefix_witness:
  "scan_releases example_source example_listing = Inr (example_listing ! 3, ''3.0'') \<and>
   tag_name (example_listing ! 3) = ''release-'' @ ''3.0''"
proof -
  have run: "scan_releases example_source example_listing = Inr (example_listing ! 3, ''3.0'')"
    by (simp add: example_listing_def example_release_def example_source_def branch_required_def
        startswith_def)
  from scan_releases_version_prefix [OF run] run show ?thesis
    by (simp add: example_source_def)
qed

end
