(* ===== verification/Regex.thy ===== *)
theory Regex
  imports Models
begin

text \<open>
  A concrete instance of the regular-expression interface of \<open>Models\<close>, used to run
  the model on the patterns of the spec's examples (such as \<open>linux-x64\.tar\.gz$\<close>).
  It implements the fragment of Python's \<open>re\<close> without repetition, alternation,
  groups and classes: literal characters, \<open>.\<close> (any character but newline), a
  backslash before a character that is not a letter or digit (that character,
  literally), \<open>^\<close> at the start and \<open>$\<close> at the end (end of the subject, or before
  a final newline). On such patterns \<open>re.search\<close> succeeds exactly when the atoms
  match at some position, since without repetition a match at a position is unique.
  Patterns outside the fragment are refused by this instance (its compiler answers
  \<open>None\<close>), although Python accepts many of them; the lemmas of the development hold
  for every engine, this one only serves to evaluate examples.
\<close>

datatype re_atom = Lit char | Any_char

datatype re_tok = Tok_atom re_atom | Tok_bol | Tok_eol

definition is_alnum :: "char \<Rightarrow> bool" where
  "is_alnum c \<longleftrightarrow>
     (let n = (of_char c :: nat) in (48 \<le> n \<and> n \<le> 57) \<or> (65 \<le> n \<and> n \<le> 90) \<or> (97 \<le> n \<and> n \<le> 122))"

fun re_tokens :: "string \<Rightarrow> re_tok list option" where
  "re_tokens [] = Some []"
| "re_tokens (c # cs) =
     (if c = CHR 0x5C then
        (case cs of
           [] \<Rightarrow> None
         | d # ds \<Rightarrow> if is_alnum d then None else map_option (Cons (Tok_atom (Lit d))) (re_tokens ds))
      else if c = CHR ''.'' then map_option (Cons (Tok_atom Any_char)) (re_tokens cs)
      else if c = CHR ''^'' then map_option (Cons Tok_bol) (re_tokens cs)
      else if c = CHR ''$'' then map_option (Cons Tok_eol) (re_tokens cs)
      else if c \<in> set ''*+?{}[]|()'' then None
      else map_option (Cons (Tok_atom (Lit c))) (re_tokens cs))"

type_synonym re_frag = "bool \<times> re_atom list \<times> bool"

fun tok_atom :: "re_tok \<Rightarrow> re_atom option" where
  "tok_atom (Tok_atom a) = Some a"
| "tok_atom _ = None"

definition atoms_of :: "re_tok list \<Rightarrow> re_atom list option" where
  "atoms_of ts = (if list_all (\<lambda>t. tok_atom t \<noteq> None) ts then Some (List.map_filter tok_atom ts) else None)"

definition frag_compile :: "string \<Rightarrow> re_frag option" where
  "frag_compile s =
     (case re_tokens s of
        None \<Rightarrow> None
      | Some ts \<Rightarrow>
          (let bol = (ts \<noteq> [] \<and> hd ts = Tok_bol);
               ts1 = (if bol then tl ts else ts);
               eol = (ts1 \<noteq> [] \<and> last ts1 = Tok_eol);
               ts2 = (if eol then butlast ts1 else ts1)
           in map_option (\<lambda>as. (bol, as, eol)) (atoms_of ts2)))"

fun atom_ok :: "re_atom \<Rightarrow> char \<Rightarrow> bool" where
  "atom_ok (Lit d) c = (c = d)"
| "atom_ok Any_char c = (c \<noteq> CHR 0x0A)"

fun match_prefix :: "re_atom list \<Rightarrow> string \<Rightarrow> string option" where
  "match_prefix [] s = Some s"
| "match_prefix (a # as) [] = None"
| "match_prefix (a # as) (c # cs) = (if atom_ok a c then match_prefix as cs else None)"

definition match_at :: "re_frag \<Rightarrow> string \<Rightarrow> bool" where
  "match_at f s =
     (case match_prefix (fst (snd f)) s of
        None \<Rightarrow> False
      | Some r \<Rightarrow> \<not> snd (snd f) \<or> r = [] \<or> r = [CHR 0x0A])"

fun any_suffix :: "(string \<Rightarrow> bool) \<Rightarrow> string \<Rightarrow> bool" where
  "any_suffix P [] = P []"
| "any_suffix P (c # cs) = (P (c # cs) \<or> any_suffix P cs)"

definition frag_search :: "re_frag \<Rightarrow> string \<Rightarrow> bool" where
  "frag_search f s = (if fst f then match_at f s else any_suffix (match_at f) s)"

definition fragment_engine :: "re_frag regex_engine" where
  "fragment_engine = \<lparr>re_compile = frag_compile, re_search = frag_search\<rparr>"

section \<open>Lemmas\<close>

lemma fragment_engine_simps [simp]:
  "re_compile fragment_engine = frag_compile"
  "re_search fragment_engine = frag_search"
  by (simp_all add: fragment_engine_def)

lemma any_suffix_iff: "any_suffix P s \<longleftrightarrow> (\<exists>i \<le> length s. P (drop i s))"
proof (induction s)
  case (Cons c cs)
  show ?case
  proof
    assume "any_suffix P (c # cs)"
    with Cons.IH show "\<exists>i \<le> length (c # cs). P (drop i (c # cs))"
      by (auto intro: exI [of _ 0])
  next
    assume "\<exists>i \<le> length (c # cs). P (drop i (c # cs))"
    then obtain i where "i \<le> length (c # cs)" "P (drop i (c # cs))" by blast
    with Cons.IH show "any_suffix P (c # cs)"
      by (cases i) auto
  qed
qed simp

end
