(* ===== verification/Matcher.thy ===== *)
theory Matcher
  imports Resolver Regex
begin

text \<open>
  The pattern matcher, \<open>_match_assets\<close> of \<^verbatim>\<open>plugin_release.py\<close>: for each
  asset pattern in configuration order, compile its regular expression and take the
  first asset of the release whose name it finds; the result is a dictionary from
  architecture to asset. A pattern that matches nothing raises \<open>NoMatchingAsset\<close>;
  a malformed regular expression raises \<open>re.error\<close>, which no caller catches.
  \<open>pattern_match\<close> is the body of the outer loop, \<open>match_loop\<close> the loop with the
  dictionary it fills. The lemmas show that with distinct architectures (the data
  model's invariant) the loop is the independent matching of every pattern, zipped
  with the architectures, and that the first failing pattern decides the error.
\<close>

section \<open>Definitions\<close>

definition pattern_match :: "'re regex_engine \<Rightarrow> asset list \<Rightarrow> asset_pattern \<Rightarrow> asset result" where
  "pattern_match R assets_list p =
     (case re_compile R (pattern p) of
        None \<Rightarrow> Inl (Regex_error (pattern p))
      | Some rx \<Rightarrow>
          (case find (\<lambda>a. re_search R rx (asset_name a)) assets_list of
             None \<Rightarrow> Inl (No_matching_asset (arch p) (pattern p))
           | Some a \<Rightarrow> Inr a))"

fun match_loop ::
  "'re regex_engine \<Rightarrow> asset list \<Rightarrow> asset_pattern list \<Rightarrow> (string \<times> asset) list \<Rightarrow>
   (string \<times> asset) list result" where
  "match_loop R assets_list [] result = Inr result"
| "match_loop R assets_list (p # ps) result =
     (case pattern_match R assets_list p of
        Inl e \<Rightarrow> Inl e
      | Inr a \<Rightarrow> match_loop R assets_list ps (dict_set result (arch p) a))"

definition match_assets ::
  "'re regex_engine \<Rightarrow> asset_pattern list \<Rightarrow> release \<Rightarrow> (string \<times> asset) list result" where
  "match_assets R patterns rel = match_loop R (release_assets rel) patterns []"

text \<open>The matching contract: each pattern on its own, results keyed by architecture.\<close>

definition match_spec ::
  "'re regex_engine \<Rightarrow> asset_pattern list \<Rightarrow> asset list \<Rightarrow> (string \<times> asset) list result" where
  "match_spec R patterns assets_list =
     map_sum id (zip (map arch patterns)) (traverse (pattern_match R assets_list) patterns)"

section \<open>Examples\<close>

definition example_asset :: "string \<Rightarrow> asset" where
  "example_asset n = \<lparr>asset_name = n, browser_download_url = Some (''https://example.org/'' @ n)\<rparr>"

definition example_pattern :: "string \<Rightarrow> string \<Rightarrow> asset_pattern" where
  "example_pattern a pt = \<lparr>arch = a, pattern = pt, rename_to = None, archive_member = None\<rparr>"

definition example_assets :: "asset list" where
  "example_assets =
     [example_asset ''tool-linux-x64.tar.gz.sha256'', example_asset ''tool-linux-x64.tar.gz'',
      example_asset ''tool-win32.zip'', example_asset ''tool-win64.zip'']"

definition example_upstream :: release where
  "example_upstream = \<lparr>tag_name = ''v1'', target_commitish = None, draft = False, prerelease = False,
      release_assets = example_assets, html_url = None\<rparr>"

section \<open>Lemmas\<close>

lemma pattern_match_Inr:
  "pattern_match R assets_list p = Inr a \<longleftrightarrow>
   (\<exists>rx. re_compile R (pattern p) = Some rx \<and> find (\<lambda>a. re_search R rx (asset_name a)) assets_list = Some a)"
  by (auto simp: pattern_match_def split: option.splits)

lemma match_loop_traverse:
  "distinct (map arch ps) \<Longrightarrow> set (map arch ps) \<inter> set (map fst acc) = {} \<Longrightarrow>
   match_loop R assets_list ps acc =
     map_sum id (\<lambda>as. acc @ zip (map arch ps) as) (traverse (pattern_match R assets_list) ps)"
proof (induction ps arbitrary: acc)
  case Nil
  then show ?case by simp
next
  case (Cons p ps)
  show ?case
  proof (cases "pattern_match R assets_list p")
    case (Inl e)
    then show ?thesis by simp
  next
    case (Inr a)
    from Cons.prems have fresh: "arch p \<notin> set (map fst acc)" by auto
    then have upd: "dict_set acc (arch p) a = acc @ [(arch p, a)]"
      by (rule update_new_key)
    from Cons.prems have "distinct (map arch ps)"
      and "set (map arch ps) \<inter> set (map fst (acc @ [(arch p, a)])) = {}" by auto
    then have IH: "match_loop R assets_list ps (acc @ [(arch p, a)]) =
        map_sum id (\<lambda>as. (acc @ [(arch p, a)]) @ zip (map arch ps) as)
          (traverse (pattern_match R assets_list) ps)"
      by (rule Cons.IH)
    show ?thesis
      using Inr by (simp add: upd IH split: sum.split)
  qed
qed

lemma match_loop_Inl_acc:
  "match_loop R assets_list ps acc = Inl e \<longleftrightarrow> traverse (pattern_match R assets_list) ps = Inl e"
  by (induction ps arbitrary: acc) (auto split: sum.splits)

lemma match_loop_map_of:
  "match_loop R as ps acc = Inr d \<Longrightarrow>
   map_of d k = (case find (\<lambda>p. arch p = k) (rev ps) of
                   None \<Rightarrow> map_of acc k
                 | Some p \<Rightarrow> (case pattern_match R as p of Inr b \<Rightarrow> Some b | Inl _ \<Rightarrow> None))"
proof (induction ps arbitrary: acc)
  case (Cons p ps)
  then obtain a where a: "pattern_match R as p = Inr a"
    and d: "match_loop R as ps (dict_set acc (arch p) a) = Inr d"
    by (auto split: sum.splits)
  show ?case
    using Cons.IH [OF d] a by (simp add: find_snoc split: option.splits)
qed simp

lemma match_loop_keys:
  "match_loop R as ps acc = Inr d \<Longrightarrow> distinct (map fst acc) \<Longrightarrow>
   distinct (map fst d) \<and> set (map fst d) = set (map fst acc) \<union> arch ` set ps"
proof (induction ps arbitrary: acc)
  case (Cons p ps)
  then obtain a where a: "pattern_match R as p = Inr a"
    and d: "match_loop R as ps (dict_set acc (arch p) a) = Inr d"
    by (auto split: sum.splits)
  have "distinct (map fst (dict_set acc (arch p) a))" using Cons.prems(2) by (rule dict_set_distinct)
  from Cons.IH [OF d this] show ?case
    by (auto simp: dom_update)
qed simp

lemma match_loop_Inr_matched:
  "match_loop R as ps acc = Inr d \<Longrightarrow> p \<in> set ps \<Longrightarrow> \<exists>b. pattern_match R as p = Inr b"
  by (induction ps arbitrary: acc) (auto split: sum.splits)

section \<open>Properties\<close>

text \<open>
  C5 (refinement): with distinct architectures, \<open>_match_assets\<close> is the matching
  contract: every pattern is matched on its own against the whole asset list, the first
  failing pattern decides the error, and the dictionary pairs each architecture with its
  pattern's asset in configuration order.
\<close>

theorem match_assets_refines:
  "distinct (map arch ps) \<Longrightarrow> match_assets R ps rel = match_spec R ps (release_assets rel)"
  by (simp add: match_assets_def match_spec_def match_loop_traverse)

theorem match_assets_refines_witness:
  "distinct (map arch [example_pattern ''x64'' ''linux-x64'', example_pattern ''x86'' ''win32'']) \<and>
   match_assets fragment_engine [example_pattern ''x64'' ''linux-x64'', example_pattern ''x86'' ''win32'']
     example_upstream
   = Inr [(''x64'', example_asset ''tool-linux-x64.tar.gz.sha256''), (''x86'', example_asset ''tool-win32.zip'')]"
proof -
  let ?ps = "[example_pattern ''x64'' ''linux-x64'', example_pattern ''x86'' ''win32'']"
  let ?rel = example_upstream
  have d: "distinct (map arch ?ps)" by (simp add: example_pattern_def)
  have "match_spec fragment_engine ?ps (release_assets ?rel) =
      Inr [(''x64'', example_asset ''tool-linux-x64.tar.gz.sha256''), (''x86'', example_asset ''tool-win32.zip'')]"
    by (simp add: match_spec_def pattern_match_def example_pattern_def example_assets_def example_upstream_def
        example_asset_def frag_compile_def is_alnum_def atoms_of_def map_filter_simps frag_search_def
        match_at_def)
  with match_assets_refines [OF d, of fragment_engine ?rel] d show ?thesis by simp
qed

text \<open>
  When \<open>_match_assets\<close> succeeds with distinct architectures, its
  dictionary has exactly the configured architectures, in order, and maps each to the
  first asset, in listing order, whose name the pattern's regular expression finds.
\<close>

theorem match_assets_first_match:
  assumes "distinct (map arch ps)" and "match_assets R ps rel = Inr res"
  shows "map fst res = map arch ps \<and>
    (\<forall>p \<in> set ps. \<exists>rx. re_compile R (pattern p) = Some rx \<and>
       map_of res (arch p) = find (\<lambda>a. re_search R rx (asset_name a)) (release_assets rel))"
proof -
  from assms have "map_sum id (zip (map arch ps)) (traverse (pattern_match R (release_assets rel)) ps) = Inr res"
    by (simp add: match_assets_def match_loop_traverse)
  then obtain as where tr: "traverse (pattern_match R (release_assets rel)) ps = Inr as"
    and res: "res = zip (map arch ps) as"
    by (cases "traverse (pattern_match R (release_assets rel)) ps") auto
  from tr have all2: "list_all2 (\<lambda>p a. pattern_match R (release_assets rel) p = Inr a) ps as"
    by (rule traverse_Inr_all2)
  then have "length as = length ps" by (simp add: list_all2_lengthD)
  then have keys: "map fst res = map arch ps" by (simp add: res)
  have "\<exists>rx. re_compile R (pattern p) = Some rx \<and>
       map_of res (arch p) = find (\<lambda>a. re_search R rx (asset_name a)) (release_assets rel)"
    if "p \<in> set ps" for p
  proof -
    from map_of_zip_keys [OF assms(1) all2 that] obtain a where
      "map_of res (arch p) = Some a" "pattern_match R (release_assets rel) p = Inr a"
      by (auto simp: res)
    then show ?thesis by (auto simp: pattern_match_Inr)
  qed
  with keys show ?thesis by blast
qed

theorem match_assets_first_match_witness:
  "match_assets fragment_engine [example_pattern ''x64'' ''linux-x64'', example_pattern ''x86'' ''win32'']
     example_upstream = Inr [(''x64'', example_asset ''tool-linux-x64.tar.gz.sha256''), (''x86'', example_asset ''tool-win32.zip'')] \<and>
   map_of [(''x64'', example_asset ''tool-linux-x64.tar.gz.sha256''), (''x86'', example_asset ''tool-win32.zip'')] ''x86''
     = find (\<lambda>a. frag_search (the (frag_compile ''win32'')) (asset_name a)) example_assets"
proof -
  let ?ps = "[example_pattern ''x64'' ''linux-x64'', example_pattern ''x86'' ''win32'']"
  let ?res = "[(''x64'', example_asset ''tool-linux-x64.tar.gz.sha256''), (''x86'', example_asset ''tool-win32.zip'')]"
  have d: "distinct (map arch ?ps)" by (simp add: example_pattern_def)
  have run: "match_assets fragment_engine ?ps example_upstream = Inr ?res"
    by (simp add: match_assets_def pattern_match_def example_pattern_def example_assets_def example_upstream_def
        example_asset_def frag_compile_def is_alnum_def atoms_of_def map_filter_simps frag_search_def
        match_at_def)
  have p: "example_pattern ''x86'' ''win32'' \<in> set ?ps" by simp
  from match_assets_first_match [OF d run] p obtain rx where
    "frag_compile ''win32'' = Some rx"
    "map_of ?res ''x86'' = find (\<lambda>a. frag_search rx (asset_name a)) example_assets"
    by (fastforce simp: example_pattern_def example_upstream_def)
  with run show ?thesis by simp
qed

text \<open>
  C16 (error): \<open>_match_assets\<close> fails with error \<open>e\<close> exactly when some pattern fails
  with \<open>e\<close> (a malformed regular expression, or no asset name matching) and every
  pattern before it matched.
\<close>

theorem match_assets_errors:
  "match_assets R ps rel = Inl e \<longleftrightarrow>
   (\<exists>pre p post. ps = pre @ p # post \<and>
      (\<forall>q \<in> set pre. \<exists>a. pattern_match R (release_assets rel) q = Inr a) \<and>
      pattern_match R (release_assets rel) p = Inl e)"
  by (simp add: match_assets_def match_loop_Inl_acc traverse_Inl_iff)

theorem match_assets_errors_witness:
  "match_assets fragment_engine [example_pattern ''x64'' ''linux-x64'', example_pattern ''arm'' ''aarch64'']
     example_upstream = Inl (No_matching_asset ''arm'' ''aarch64'') \<and>
   pattern_match fragment_engine example_assets (example_pattern ''x64'' ''linux-x64'')
     = Inr (example_asset ''tool-linux-x64.tar.gz.sha256'')"
proof -
  have ok: "pattern_match fragment_engine example_assets (example_pattern ''x64'' ''linux-x64'')
     = Inr (example_asset ''tool-linux-x64.tar.gz.sha256'')"
    by (simp add: pattern_match_def example_pattern_def example_assets_def
        example_asset_def frag_compile_def is_alnum_def atoms_of_def map_filter_simps frag_search_def
        match_at_def)
  have bad: "pattern_match fragment_engine example_assets (example_pattern ''arm'' ''aarch64'')
     = Inl (No_matching_asset ''arm'' ''aarch64'')"
    by (simp add: pattern_match_def example_pattern_def example_assets_def
        example_asset_def frag_compile_def is_alnum_def atoms_of_def map_filter_simps frag_search_def
        match_at_def)
  have "match_assets fragment_engine [example_pattern ''x64'' ''linux-x64'', example_pattern ''arm'' ''aarch64'']
     example_upstream = Inl (No_matching_asset ''arm'' ''aarch64'')"
  proof (rule match_assets_errors [THEN iffD2], intro exI conjI)
    show "[example_pattern ''x64'' ''linux-x64'', example_pattern ''arm'' ''aarch64''] =
        [example_pattern ''x64'' ''linux-x64''] @ example_pattern ''arm'' ''aarch64'' # []" by simp
    show "\<forall>q \<in> set [example_pattern ''x64'' ''linux-x64'']. \<exists>a. pattern_match fragment_engine (release_assets example_upstream) q = Inr a"
      using ok by (simp add: example_upstream_def)
    show "pattern_match fragment_engine (release_assets example_upstream) (example_pattern ''arm'' ''aarch64'') =
        Inl (No_matching_asset ''arm'' ''aarch64'')"
      using bad by (simp add: example_upstream_def)
  qed
  with ok show ?thesis by simp
qed

text \<open>
  C17 (functional): the code does not check that architectures are distinct. On success the dictionary has one entry per distinct architecture, and the entry of an architecture holds the asset of the last pattern naming it: the assets matched by earlier patterns with the same architecture are dropped.
\<close>

theorem match_assets_duplicate_arch:
  assumes "match_assets R (xs @ q # ys) rel = Inr d" and "arch q \<notin> arch ` set ys"
  shows "length d = card (arch ` set (xs @ q # ys)) \<and>
         (\<exists>b. pattern_match R (release_assets rel) q = Inr b \<and> map_of d (arch q) = Some b)"
proof -
  have ml: "match_loop R (release_assets rel) (xs @ q # ys) [] = Inr d"
    using assms(1) by (simp add: match_assets_def)
  from match_loop_keys [OF ml] have k: "distinct (map fst d)" "set (map fst d) = arch ` set (xs @ q # ys)" by simp_all
  have "length d = card (arch ` set (xs @ q # ys))"
    using distinct_card [OF k(1)] k(2) by simp
  moreover have "find (\<lambda>p. arch p = arch q) (rev ys @ q # rev xs) = Some q"
    using assms(2) by (intro find_append_first) (auto intro: rev_image_eqI)
  then have "map_of d (arch q) = (case pattern_match R (release_assets rel) q of Inr b \<Rightarrow> Some b | Inl _ \<Rightarrow> None)"
    using match_loop_map_of [OF ml, of "arch q"] by simp
  moreover have "\<exists>b. pattern_match R (release_assets rel) q = Inr b"
    using match_loop_Inr_matched [OF ml] by simp
  ultimately show ?thesis by auto
qed

theorem match_assets_duplicate_arch_witness:
  "match_assets fragment_engine [example_pattern ''x64'' ''linux-x64'', example_pattern ''x64'' ''win64''] example_upstream =
     Inr [(''x64'', example_asset ''tool-win64.zip'')] \<and>
   length [(''x64'', example_asset ''tool-win64.zip'')] =
     card (arch ` set [example_pattern ''x64'' ''linux-x64'', example_pattern ''x64'' ''win64'']) \<and>
   pattern_match fragment_engine (release_assets example_upstream) (example_pattern ''x64'' ''win64'') =
     Inr (example_asset ''tool-win64.zip'')"
proof -
  have m: "match_assets fragment_engine ([example_pattern ''x64'' ''linux-x64''] @ example_pattern ''x64'' ''win64'' # [])
      example_upstream = Inr [(''x64'', example_asset ''tool-win64.zip'')]"
    by (simp add: match_assets_def pattern_match_def example_pattern_def example_assets_def example_upstream_def
        example_asset_def frag_compile_def is_alnum_def atoms_of_def map_filter_simps frag_search_def match_at_def)
  have "length [(''x64'', example_asset ''tool-win64.zip'')] =
      card (arch ` set ([example_pattern ''x64'' ''linux-x64''] @ example_pattern ''x64'' ''win64'' # [])) \<and>
    (\<exists>b. pattern_match fragment_engine (release_assets example_upstream) (example_pattern ''x64'' ''win64'') = Inr b \<and>
       map_of [(''x64'', example_asset ''tool-win64.zip'')] (arch (example_pattern ''x64'' ''win64'')) = Some b)"
    by (rule match_assets_duplicate_arch [OF m]) simp
  then show ?thesis using m by (auto simp: example_pattern_def)
qed

end
