(* ===== verification/Extractor.thy ===== *)
theory Extractor
  imports Matcher
begin

text \<open>
  The archive extractor of \<^verbatim>\<open>plugin_release.py\<close>. \<open>_prepare_binary\<close> decides from
  the file's suffix (\<open>.zip\<close>, \<open>.gz\<close>, \<open>.tgz\<close>, \<open>.tar\<close>, any case) or from zip
  content whether to extract; \<open>_extract_from_archive\<close> compiles the optional member
  pattern, creates \<open>workdir/extracted\<close>, opens the file as zip or else as tar, lists
  its regular members, lets \<open>_select_member\<close> choose one, and copies the chosen
  member's bytes to \<open>extracted/<base name>\<close>; a file that is neither is returned
  unchanged unless a member pattern was configured. \<open>_select_member\<close> drops members
  whose base name starts with a dot, takes the first one the pattern finds, or the only
  one when there is no pattern. Zip and tar both look the chosen name up again
  (\<open>ZipFile.open\<close> through \<open>getinfo\<close>, \<open>TarFile.getmember\<close>), and both answer
  the last entry of that name. Symbolic and hard links in tar archives are not
  modelled.
\<close>

section \<open>Definitions\<close>

definition hidden_member :: "string \<Rightarrow> bool" where
  "hidden_member m \<longleftrightarrow> startswith (path_name m) ''.''"

definition select_member ::
  "'re regex_engine \<Rightarrow> (string \<times> 're) option \<Rightarrow> string \<Rightarrow> string list \<Rightarrow> string result" where
  "select_member R regex archive_path members =
     (let candidates = filter (\<lambda>m. \<not> hidden_member m) members
      in case regex of
           Some (pat, rx) \<Rightarrow>
             (case find (re_search R rx) candidates of
                Some m \<Rightarrow> Inr m
              | None \<Rightarrow> Inl (Member_not_found archive_path pat))
         | None \<Rightarrow>
             (case candidates of
                [m] \<Rightarrow> Inr m
              | _ \<Rightarrow> Inl (Ambiguous_member archive_path)))"

text \<open>\<open>re.compile(pattern.archive_member) if pattern.archive_member else None\<close>.\<close>

definition member_regex :: "'re regex_engine \<Rightarrow> asset_pattern \<Rightarrow> (string \<times> 're) option result" where
  "member_regex R p =
     (case archive_member p of
        None \<Rightarrow> Inr None
      | Some am \<Rightarrow>
          if am = [] then Inr None
          else (case re_compile R am of None \<Rightarrow> Inl (Regex_error am) | Some rx \<Rightarrow> Inr (Some (am, rx))))"

text \<open>\<open>ZipFile.getinfo\<close> and \<open>TarFile.getmember\<close>: the last entry with the name.\<close>

definition last_entry :: "('k \<times> 'v) list \<Rightarrow> 'k \<Rightarrow> 'v option" where
  "last_entry entries n = map_of (rev entries) n"

definition zip_members :: "(string \<times> blob) list \<Rightarrow> string list" where
  "zip_members entries = filter (\<lambda>m. \<not> endswith m ''/'') (map fst entries)"

definition tar_members :: "(string \<times> tar_kind \<times> blob) list \<Rightarrow> string list" where
  "tar_members entries = map fst (filter (\<lambda>e. fst (snd e) = Tar_regular) entries)"

text \<open>Copy a chosen member's bytes to \<open>extracted/<base name>\<close> and answer that path.\<close>

definition copy_out :: "string \<Rightarrow> string \<Rightarrow> blob \<Rightarrow> (error, fs, string) exn_st" where
  "copy_out extracted_dir target b =
     (let destination = path_div extracted_dir (path_name target)
      in ebind (fs_write destination b) (\<lambda>_. ereturn destination))"

definition extract_zip ::
  "'re regex_engine \<Rightarrow> (string \<times> 're) option \<Rightarrow> string \<Rightarrow> string \<Rightarrow> (string \<times> blob) list \<Rightarrow>
   (error, fs, string) exn_st" where
  "extract_zip R mrx archive_path extracted_dir entries =
     ebind (elift (select_member R mrx archive_path (zip_members entries))) (\<lambda>target.
       case last_entry entries target of
         None \<Rightarrow> ethrow (Key_error target)
       | Some b \<Rightarrow> copy_out extracted_dir target b)"

definition extract_tar ::
  "'re regex_engine \<Rightarrow> (string \<times> 're) option \<Rightarrow> string \<Rightarrow> string \<Rightarrow> (string \<times> tar_kind \<times> blob) list \<Rightarrow>
   (error, fs, string) exn_st" where
  "extract_tar R mrx archive_path extracted_dir entries =
     ebind (elift (select_member R mrx archive_path (tar_members entries))) (\<lambda>target_name.
       case last_entry entries target_name of
         None \<Rightarrow> ethrow (Key_error target_name)
       | Some (Tar_regular, b) \<Rightarrow> copy_out extracted_dir target_name b
       | Some (_, b) \<Rightarrow> ethrow (Type_error target_name))"

definition extract_from_archive ::
  "'re regex_engine \<Rightarrow> string \<Rightarrow> asset_pattern \<Rightarrow> string \<Rightarrow> (error, fs, string) exn_st" where
  "extract_from_archive R archive_path p workdir =
     ebind (elift (member_regex R p)) (\<lambda>mrx.
       let extracted_dir = path_div workdir ''extracted''
       in ebind (fs_mkdir extracted_dir) (\<lambda>_ fs.
            case map_of fs archive_path of
              None \<Rightarrow> (Inl (OS_error archive_path), fs)
            | Some (Zip_file entries) \<Rightarrow> extract_zip R mrx archive_path extracted_dir entries fs
            | Some (Tar_file entries) \<Rightarrow> extract_tar R mrx archive_path extracted_dir entries fs
            | Some _ \<Rightarrow>
                if mrx \<noteq> None then (Inl (Unsupported_archive archive_path), fs)
                else (Inr archive_path, fs)))"

definition archive_suffixes :: "string list" where
  "archive_suffixes = [''.zip'', ''.gz'', ''.tgz'', ''.tar'']"

definition is_zipfile :: "fs \<Rightarrow> string \<Rightarrow> bool" where
  "is_zipfile fs p = (case map_of fs p of Some (Zip_file _) \<Rightarrow> True | _ \<Rightarrow> False)"

definition prepare_binary ::
  "'re regex_engine \<Rightarrow> string \<Rightarrow> asset_pattern \<Rightarrow> string \<Rightarrow> (error, fs, string) exn_st" where
  "prepare_binary R binary_path p workdir fs =
     (if lower (path_suffix binary_path) \<in> set archive_suffixes \<or> is_zipfile fs binary_path
      then extract_from_archive R binary_path p workdir fs
      else (Inr binary_path, fs))"

definition archive_members :: "fs \<Rightarrow> string \<Rightarrow> string list option" where
  "archive_members fs ap =
     (case map_of fs ap of
        Some (Zip_file es) \<Rightarrow> Some (zip_members es)
      | Some (Tar_file es) \<Rightarrow> Some (tar_members es)
      | _ \<Rightarrow> None)"

definition example_tar :: blob where
  "example_tar = Tar_file
     [(''tool-2.1.0'', Tar_directory, Bytes []), (''tool-2.1.0/tool'', Tar_regular, Bytes ''ELF''),
      (''tool-2.1.0/.tool.sig'', Tar_regular, Bytes ''SIG''), (''tool-2.1.0/README.md'', Tar_regular, Bytes ''doc'')]"

definition example_member_pattern :: "string option \<Rightarrow> asset_pattern" where
  "example_member_pattern am = \<lparr>arch = ''x64'', pattern = ''linux-x64'', rename_to = None, archive_member = am\<rparr>"

section \<open>Lemmas\<close>


lemma select_member_None_iff:
  "select_member R None ap ms = Inr m \<longleftrightarrow> filter (\<lambda>m. \<not> hidden_member m) ms = [m]"
  by (auto simp: select_member_def split: list.split)

lemma select_member_None_Inl:
  "select_member R None ap ms = Inl e \<longleftrightarrow>
     length (filter (\<lambda>m. \<not> hidden_member m) ms) \<noteq> 1 \<and> e = Ambiguous_member ap"
  by (auto simp: select_member_def split: list.split)

lemma extract_from_archive_members:
  assumes "member_regex R p = Inr mrx" and "dir_creatable fs (path_div wd ''extracted'')"
    and "archive_members fs ap = Some ms" and "select_member R mrx ap ms = Inl e"
  shows "extract_from_archive R ap p wd fs = (Inl e, fs)"
  using assms
  by (auto simp: extract_from_archive_def archive_members_def extract_zip_def extract_tar_def Let_def exn_simps
      split: option.splits blob.splits)

lemma last_entry_exists: "n \<in> set (map fst es) \<Longrightarrow> \<exists>v. last_entry es n = Some v"
  by (cases "map_of (rev es) n") (auto simp: last_entry_def map_of_eq_None_iff)

lemma find_filter_mem: "find P (filter Q xs) = Some x \<Longrightarrow> x \<in> set xs \<and> Q x \<and> P x"
  by (auto dest: find_SomeD)

theorem extract_tar_example:
  "prepare_binary fragment_engine ''.tmp/tool-2.1.0/tool-linux-x64.tar.gz'' (example_member_pattern None)
     ''.tmp/tool-2.1.0'' [(''.tmp/tool-2.1.0/tool-linux-x64.tar.gz'', example_tar)]
   = (Inl (Ambiguous_member ''.tmp/tool-2.1.0/tool-linux-x64.tar.gz''), [(''.tmp/tool-2.1.0/tool-linux-x64.tar.gz'', example_tar)])"
  by (simp add: prepare_binary_def path_simps lower_def lower_char_def archive_suffixes_def
      is_zipfile_def example_tar_def extract_from_archive_def member_regex_def example_member_pattern_def
      extract_tar_def tar_members_def select_member_def hidden_member_def startswith_def Let_def exn_simps
      dir_creatable_def under_def)

section \<open>Properties\<close>

text \<open>
  C6 (error): extraction ambiguity. With no member pattern, an archive (zip or tar) whose non-hidden regular members are not exactly one fails with \<open>AmbiguousMember\<close>, and the file store is left as it was.
\<close>

theorem extract_ambiguous:
  assumes "member_regex R p = Inr None"
    and "dir_creatable fs (path_div wd ''extracted'')"
    and "archive_members fs ap = Some ms"
    and "length (filter (\<lambda>m. \<not> hidden_member m) ms) \<noteq> 1"
  shows "extract_from_archive R ap p wd fs = (Inl (Ambiguous_member ap), fs)"
  using assms(4) by (intro extract_from_archive_members [OF assms(1-3)])
    (simp add: select_member_None_Inl)

theorem extract_ambiguous_witness:
  "extract_from_archive fragment_engine ''.tmp/t/tool.tar.gz'' (example_member_pattern None) ''.tmp/t''
     [(''.tmp/t/tool.tar.gz'', example_tar)]
   = (Inl (Ambiguous_member ''.tmp/t/tool.tar.gz''), [(''.tmp/t/tool.tar.gz'', example_tar)])"
proof (rule extract_ambiguous)
  show "member_regex fragment_engine (example_member_pattern None) = Inr None"
    by (simp add: member_regex_def example_member_pattern_def)
  show "dir_creatable [(''.tmp/t/tool.tar.gz'', example_tar)] (path_div ''.tmp/t'' ''extracted'')"
    by (simp add: dir_creatable_def under_def startswith_def path_simps)
  show "archive_members [(''.tmp/t/tool.tar.gz'', example_tar)] ''.tmp/t/tool.tar.gz'' =
      Some [''tool-2.1.0/tool'', ''tool-2.1.0/.tool.sig'', ''tool-2.1.0/README.md'']"
    by (simp add: archive_members_def example_tar_def tar_members_def)
  show "length (filter (\<lambda>m. \<not> hidden_member m) [''tool-2.1.0/tool'', ''tool-2.1.0/.tool.sig'', ''tool-2.1.0/README.md'']) \<noteq> 1"
    by (simp add: hidden_member_def startswith_def path_simps)
qed

text \<open>
  With a member pattern, extraction from a zip archive succeeds with the first non-hidden member the pattern finds: its bytes are written to \<open>extracted/<base name>\<close> in the scratch directory and that path is returned.
\<close>

theorem extract_zip_member_pattern:
  assumes "member_regex R p = Inr (Some (am, rx))"
    and "dir_creatable fs (path_div wd ''extracted'')"
    and "map_of fs ap = Some (Zip_file es)"
    and "find (re_search R rx) (filter (\<lambda>m. \<not> hidden_member m) (zip_members es)) = Some m"
    and "writable fs (path_div (path_div wd ''extracted'') (path_name m))"
  shows "\<exists>b. last_entry es m = Some b \<and>
    extract_from_archive R ap p wd fs =
      (Inr (path_div (path_div wd ''extracted'') (path_name m)),
       AList.update (path_div (path_div wd ''extracted'') (path_name m)) b fs)"
proof -
  from find_filter_mem [OF assms(4)] have "m \<in> set (map fst es)"
    by (auto simp: zip_members_def)
  then obtain b where b: "last_entry es m = Some b" by (blast dest: last_entry_exists)
  have sel: "select_member R (Some (am, rx)) ap (zip_members es) = Inr m"
    using assms(4) by (simp add: select_member_def)
  have "extract_from_archive R ap p wd fs =
      (Inr (path_div (path_div wd ''extracted'') (path_name m)),
       AList.update (path_div (path_div wd ''extracted'') (path_name m)) b fs)"
    using assms(1-3,5) sel b
    by (simp add: extract_from_archive_def extract_zip_def copy_out_def Let_def exn_simps)
  with b show ?thesis by blast
qed

theorem extract_zip_member_pattern_witness:
  "extract_from_archive fragment_engine ''.tmp/t/tool.zip'' (example_member_pattern (Some ''tool$'')) ''.tmp/t''
     [(''.tmp/t/tool.zip'', Zip_file [(''bin/'', Bytes []), (''bin/.tool'', Bytes ''x''), (''bin/tool'', Bytes ''ELF''),
        (''bin/tool.sig'', Bytes ''SIG'')])]
   = (Inr ''.tmp/t/extracted/tool'',
      [(''.tmp/t/tool.zip'', Zip_file [(''bin/'', Bytes []), (''bin/.tool'', Bytes ''x''), (''bin/tool'', Bytes ''ELF''),
        (''bin/tool.sig'', Bytes ''SIG'')]), (''.tmp/t/extracted/tool'', Bytes ''ELF'')])"
proof -
  let ?es = "[(''bin/'', Bytes []), (''bin/.tool'', Bytes ''x''), (''bin/tool'', Bytes ''ELF''), (''bin/tool.sig'', Bytes ''SIG'')]"
  let ?fs = "[(''.tmp/t/tool.zip'', Zip_file ?es)]"
  have rx: "member_regex fragment_engine (example_member_pattern (Some ''tool$'')) =
      Inr (Some (''tool$'', (False, [Lit CHR ''t'', Lit CHR ''o'', Lit CHR ''o'', Lit CHR ''l''], True)))"
    by (simp add: member_regex_def example_member_pattern_def frag_compile_def is_alnum_def atoms_of_def
        map_filter_simps)
  have found: "find (re_search fragment_engine (False, [Lit CHR ''t'', Lit CHR ''o'', Lit CHR ''o'', Lit CHR ''l''], True))
      (filter (\<lambda>m. \<not> hidden_member m) (zip_members ?es)) = Some ''bin/tool''"
    by (simp add: zip_members_def endswith_def hidden_member_def startswith_def path_simps frag_search_def
        match_at_def)
  have "\<exists>b. last_entry ?es ''bin/tool'' = Some b \<and>
    extract_from_archive fragment_engine ''.tmp/t/tool.zip'' (example_member_pattern (Some ''tool$'')) ''.tmp/t'' ?fs =
      (Inr (path_div (path_div ''.tmp/t'' ''extracted'') (path_name ''bin/tool'')),
       AList.update (path_div (path_div ''.tmp/t'' ''extracted'') (path_name ''bin/tool'')) b ?fs)"
    by (rule extract_zip_member_pattern [OF rx _ _ found])
      (simp_all add: dir_creatable_def writable_def under_def startswith_def path_simps)
  then show ?thesis
    by (simp add: last_entry_def path_simps)
qed

text \<open>
  C18 (functional): with a member pattern, \<open>_select_member\<close> chooses exactly the first member, in archive order, whose base name does not start with a dot and that the pattern finds.
\<close>

theorem select_member_first_match:
  "select_member R (Some (pat, rx)) ap ms = Inr m \<longleftrightarrow>
   (\<exists>pre post. filter (\<lambda>x. \<not> hidden_member x) ms = pre @ m # post \<and>
      (\<forall>x \<in> set pre. \<not> re_search R rx x) \<and> re_search R rx m)"
proof -
  have "select_member R (Some (pat, rx)) ap ms = Inr m \<longleftrightarrow>
      find (re_search R rx) (filter (\<lambda>x. \<not> hidden_member x) ms) = Some m"
    by (simp add: select_member_def split: option.split)
  then show ?thesis by (simp only: find_Some_split)
qed

theorem select_member_first_match_witness:
  "select_member fragment_engine (Some (''tool'', (False, [Lit CHR ''t'', Lit CHR ''o'', Lit CHR ''o'', Lit CHR ''l''], False)))
     ''a.zip'' [''a/.tool'', ''a/README'', ''a/tool'', ''a/tool2''] = Inr ''a/tool'' \<and>
   filter (\<lambda>x. \<not> hidden_member x) [''a/.tool'', ''a/README'', ''a/tool'', ''a/tool2''] = [''a/README''] @ ''a/tool'' # [''a/tool2''] \<and>
   \<not> frag_search (False, [Lit CHR ''t'', Lit CHR ''o'', Lit CHR ''o'', Lit CHR ''l''], False) ''a/README''"
proof -
  let ?rx = "(False, [Lit CHR ''t'', Lit CHR ''o'', Lit CHR ''o'', Lit CHR ''l''], False)"
  have f: "filter (\<lambda>x. \<not> hidden_member x) [''a/.tool'', ''a/README'', ''a/tool'', ''a/tool2''] = [''a/README''] @ ''a/tool'' # [''a/tool2'']"
    by (simp add: hidden_member_def startswith_def path_simps)
  have n: "\<not> frag_search ?rx ''a/README''" and y: "frag_search ?rx ''a/tool''"
    by (simp_all add: frag_search_def match_at_def)
  have "select_member fragment_engine (Some (''tool'', ?rx)) ''a.zip'' [''a/.tool'', ''a/README'', ''a/tool'', ''a/tool2''] = Inr ''a/tool''"
  proof (rule select_member_first_match [THEN iffD2], intro exI conjI)
    show "filter (\<lambda>x. \<not> hidden_member x) [''a/.tool'', ''a/README'', ''a/tool'', ''a/tool2''] =
        [''a/README''] @ ''a/tool'' # [''a/tool2'']" by (rule f)
    show "\<forall>x \<in> set [''a/README'']. \<not> re_search fragment_engine ?rx x" using n by simp
    show "re_search fragment_engine ?rx ''a/tool''" using y by simp
  qed
  with f n show ?thesis by simp
qed

text \<open>
  A downloaded file whose suffix is not an archive suffix and whose content is not a zip archive is the binary itself: \<open>_prepare_binary\<close> returns its path and touches no file.
\<close>

theorem prepare_binary_plain:
  "lower (path_suffix bp) \<notin> set archive_suffixes \<Longrightarrow> \<not> is_zipfile fs bp \<Longrightarrow>
   prepare_binary R bp p wd fs = (Inr bp, fs)"
  by (simp add: prepare_binary_def)

theorem prepare_binary_plain_witness:
  "prepare_binary fragment_engine ''.tmp/t/tool.exe'' (example_member_pattern None) ''.tmp/t''
     [(''.tmp/t/tool.exe'', Bytes ''MZ'')] = (Inr ''.tmp/t/tool.exe'', [(''.tmp/t/tool.exe'', Bytes ''MZ'')])"
  by (rule prepare_binary_plain)
    (simp_all add: path_simps lower_def lower_char_def archive_suffixes_def is_zipfile_def)

text \<open>
  A file with an archive suffix that is neither zip nor tar is returned unchanged when no member pattern is configured, and fails with \<open>UnsupportedArchive\<close> when one is.
\<close>

theorem prepare_binary_unrecognised:
  assumes "lower (path_suffix bp) \<in> set archive_suffixes"
    and "map_of fs bp = Some (Bytes data)"
    and "member_regex R p = Inr mrx"
    and "dir_creatable fs (path_div wd ''extracted'')"
  shows "prepare_binary R bp p wd fs =
    (if mrx = None then (Inr bp, fs) else (Inl (Unsupported_archive bp), fs))"
  using assms by (simp add: prepare_binary_def extract_from_archive_def Let_def exn_simps)

theorem prepare_binary_unrecognised_witness:
  "prepare_binary fragment_engine ''.tmp/t/tool.gz'' (example_member_pattern None) ''.tmp/t''
     [(''.tmp/t/tool.gz'', Bytes ''gzip'')] = (Inr ''.tmp/t/tool.gz'', [(''.tmp/t/tool.gz'', Bytes ''gzip'')])"
proof -
  have "prepare_binary fragment_engine ''.tmp/t/tool.gz'' (example_member_pattern None) ''.tmp/t''
     [(''.tmp/t/tool.gz'', Bytes ''gzip'')] =
     (if (None :: (string \<times> re_frag) option) = None then (Inr ''.tmp/t/tool.gz'', [(''.tmp/t/tool.gz'', Bytes ''gzip'')])
      else (Inl (Unsupported_archive ''.tmp/t/tool.gz''), [(''.tmp/t/tool.gz'', Bytes ''gzip'')]))"
    by (rule prepare_binary_unrecognised)
      (simp_all add: path_simps lower_def lower_char_def archive_suffixes_def member_regex_def
        example_member_pattern_def dir_creatable_def under_def startswith_def)
  then show ?thesis by simp
qed

text \<open>
  C19 (functional): a tar archive compressed with xz or bzip2 (a file name ending in .tar.xz or .tar.bz2) is not recognised as an archive, whatever its members: _prepare_binary returns the tarball itself as the binary to package, and touches no file.
\<close>

theorem prepare_binary_tar_xz_kept:
  assumes "map_of fs bp = Some (Tar_file es)"
    and "path_name bp = n @ ''.tar.'' @ ext" and "ext \<in> {''xz'', ''bz2''}"
  shows "prepare_binary R bp p wd fs = (Inr bp, fs)"
proof -
  have "path_suffix bp = CHR ''.'' # ext"
    using assms(2,3) by (intro path_suffix_ext [where n = "n @ ''.tar''"]) auto
  with assms(1,3) show ?thesis
    by (auto simp: prepare_binary_def is_zipfile_def archive_suffixes_def lower_def lower_char_def)
qed

theorem prepare_binary_tar_xz_kept_witness:
  "map_of [(''.tmp/tool-2.1.0/tool-linux-x64.tar.xz'', example_tar)] ''.tmp/tool-2.1.0/tool-linux-x64.tar.xz'' = Some example_tar \<and>
   path_name ''.tmp/tool-2.1.0/tool-linux-x64.tar.xz'' = ''tool-linux-x64'' @ ''.tar.'' @ ''xz'' \<and> ''xz'' \<in> {''xz'', ''bz2''} \<and>
   prepare_binary fragment_engine ''.tmp/tool-2.1.0/tool-linux-x64.tar.xz'' (example_member_pattern None)
     ''.tmp/tool-2.1.0'' [(''.tmp/tool-2.1.0/tool-linux-x64.tar.xz'', example_tar)]
   = (Inr ''.tmp/tool-2.1.0/tool-linux-x64.tar.xz'', [(''.tmp/tool-2.1.0/tool-linux-x64.tar.xz'', example_tar)])"
proof -
  have m: "map_of [(''.tmp/tool-2.1.0/tool-linux-x64.tar.xz'', example_tar)] ''.tmp/tool-2.1.0/tool-linux-x64.tar.xz'' =
      Some (Tar_file [(''tool-2.1.0'', Tar_directory, Bytes []), (''tool-2.1.0/tool'', Tar_regular, Bytes ''ELF''),
      (''tool-2.1.0/.tool.sig'', Tar_regular, Bytes ''SIG''), (''tool-2.1.0/README.md'', Tar_regular, Bytes ''doc'')])"
    by (simp add: example_tar_def)
  have n: "path_name ''.tmp/tool-2.1.0/tool-linux-x64.tar.xz'' = ''tool-linux-x64'' @ ''.tar.'' @ ''xz''"
    by (simp add: path_simps)
  show ?thesis
    using prepare_binary_tar_xz_kept [OF m n] m n by simp
qed

text \<open>
  C20 (functional): the member is selected by name and then opened by name, so with duplicate
  names the bytes written are those of the last entry of that name. Whatever the entries
  before, between and after, once the selected name n occurs twice and not after the second
  occurrence, extraction writes the second entry's bytes, although the spec selects the first
  matching entry in archive order.
\<close>

theorem extract_zip_duplicate_names:
  assumes "select_member R mrx ap (zip_members es) = Inr n"
    and "es = pre @ (n, bs) # mid @ (n, bt) # post" and "n \<notin> set (map fst post)"
    and "writable fs (path_div ed (path_name n))"
  shows "extract_zip R mrx ap ed es fs =
    (Inr (path_div ed (path_name n)), AList.update (path_div ed (path_name n)) bt fs)"
proof -
  have "map_of (rev post) n = None" using assms(3) by (simp add: map_of_eq_None_iff)
  then have "last_entry es n = Some bt" using assms(2) by (simp add: last_entry_def map_of_append map_add_def)
  with assms(1,4) show ?thesis by (simp add: extract_zip_def copy_out_def ebind_def Let_def)
qed

theorem extract_zip_duplicate_names_witness:
  "select_member \<lparr>re_compile = \<lambda>s. Some s, re_search = \<lambda>rx m. rx = m\<rparr> (Some (''tool'', ''tool'')) ''a.zip''
     (zip_members [(''tool'', Bytes ''first''), (''tool'', Bytes ''second'')]) = Inr ''tool'' \<and>
   ''tool'' \<notin> set (map fst ([] :: (string \<times> blob) list)) \<and> writable [] (path_div ''t/extracted'' (path_name ''tool'')) \<and>
   extract_zip \<lparr>re_compile = \<lambda>s. Some s, re_search = \<lambda>rx m. rx = m\<rparr> (Some (''tool'', ''tool'')) ''a.zip'' ''t/extracted''
     [(''tool'', Bytes ''first''), (''tool'', Bytes ''second'')] [] =
   (Inr ''t/extracted/tool'', [(''t/extracted/tool'', Bytes ''second'')])"
proof -
  let ?R = "\<lparr>re_compile = \<lambda>s. Some s, re_search = \<lambda>rx m. rx = m\<rparr> :: string regex_engine"
  have s: "select_member ?R (Some (''tool'', ''tool'')) ''a.zip''
     (zip_members [(''tool'', Bytes ''first''), (''tool'', Bytes ''second'')]) = Inr ''tool''"
    by (simp add: select_member_def zip_members_def hidden_member_def endswith_def startswith_def path_simps)
  have w: "writable [] (path_div ''t/extracted'' (path_name ''tool''))"
    by (simp add: writable_def path_simps)
  have p: "path_div ''t/extracted'' (path_name ''tool'') = ''t/extracted/tool''" by (simp add: path_simps)
  show ?thesis
    using extract_zip_duplicate_names [OF s, where pre = "[]" and bs = "Bytes ''first''" and mid = "[]"
        and bt = "Bytes ''second''" and post = "[]", OF _ _ w] s w p
    by simp
qed

end
