(* ===== verification/Builder.thy ===== *)
theory Builder
  imports Extractor
begin

text \<open>
  The package builder, \<^verbatim>\<open>src/scripts/package_builder.py\<close>. An output archive is named
  \<open>{name}-{version}-{arch}{extension}\<close>, the extension \<open>.mxt3\<close> for \<open>x86\<close>,
  \<open>.mxt64\<close> for \<open>x64\<close> and \<open>-{arch}.zip\<close> for any other architecture. It is a
  zip with two entries: the binary under \<open>{binary_subdir}/{internal name}\<close> (the
  pattern's \<open>rename_to\<close> if it is set and not empty, else the binary's own file name)
  and \<open>plugin.json\<close>, the metadata object. \<open>ZipFile(path, "w")\<close> creates the
  archive before the binary is read, so a missing binary leaves an empty archive behind.
  \<open>zipfile\<close> strips leading slashes from entry names; its further normalisation of
  \<open>..\<close> components is not modelled.
\<close>

section \<open>Definitions\<close>

definition archive_extension :: "string \<Rightarrow> string" where
  "archive_extension a =
     (case map_of [(''x86'', ''.mxt3''), (''x64'', ''.mxt64'')] a of
        Some e \<Rightarrow> e
      | None \<Rightarrow> ''-'' @ a @ ''.zip'')"

definition resolve_archive_name :: "plugin_config \<Rightarrow> string \<Rightarrow> string \<Rightarrow> string" where
  "resolve_archive_name pc v a = name pc @ ''-'' @ v @ ''-'' @ a @ archive_extension a"

definition resolve_internal_name :: "asset_pattern \<Rightarrow> string \<Rightarrow> string" where
  "resolve_internal_name p source_path =
     (case rename_to p of
        Some r \<Rightarrow> if r \<noteq> [] then r else path_name source_path
      | None \<Rightarrow> path_name source_path)"

definition plugin_metadata :: "plugin_config \<Rightarrow> string \<Rightarrow> string \<Rightarrow> string option \<Rightarrow> json" where
  "plugin_metadata pc v a release_url =
     JObj [(''name'', JStr (name pc)), (''version'', JStr v), (''arch'', JStr a),
           (''description'', JStr (plugin_description pc)),
           (''source_release'', case release_url of None \<Rightarrow> JNull | Some u \<Rightarrow> JStr u)]"

text \<open>\<open>ZipFile.write(..., arcname)\<close> drops leading slashes of the entry name.\<close>

definition zip_arcname :: "string \<Rightarrow> string" where
  "zip_arcname s = dropWhile (\<lambda>c. c = CHR ''/'') s"

definition package_contents :: "string \<Rightarrow> blob \<Rightarrow> json \<Rightarrow> blob" where
  "package_contents binary_inside b metadata =
     Zip_file [(zip_arcname binary_inside, b), (''plugin.json'', Json_doc metadata)]"

text \<open>\<open>PackageBuilder.__init__\<close>: the output directory is created.\<close>

definition package_builder_init :: "string \<Rightarrow> (error, fs, unit) exn_st" where
  "package_builder_init output_dir = fs_mkdir output_dir"

definition build ::
  "string \<Rightarrow> plugin_config \<Rightarrow> asset_pattern \<Rightarrow> string \<Rightarrow> string \<Rightarrow> string option \<Rightarrow>
   (error, fs, string) exn_st" where
  "build output_dir pc p v binary_path release_url =
     (let archive_path = path_div output_dir (resolve_archive_name pc v (arch p));
          metadata = plugin_metadata pc v (arch p) release_url;
          binary_inside = path_div (binary_subdir pc) (resolve_internal_name p binary_path)
      in ebind (fs_write archive_path (Zip_file [])) (\<lambda>_.
           ebind (fs_read binary_path) (\<lambda>b.
             ebind (fs_write archive_path (package_contents binary_inside b metadata)) (\<lambda>_.
               ereturn archive_path))))"

definition example_plugin :: plugin_config where
  "example_plugin =
     \<lparr>name = ''foo'', branch = ''main'',
      source = \<lparr>source_type = ''github'', owner = ''acme'', repo = ''foo'', release_branch = None,
                tag_prefix = ''v'', asset_patterns = []\<rparr>,
      release_name_template = ''{name} {version}'', release_body_template = ''Release of {name}'',
      plugin_description = ''Foo plugin'', binary_subdir = ''bin''\<rparr>"

section \<open>Lemmas\<close>


lemma archive_extension_other: "a \<noteq> ''x86'' \<Longrightarrow> a \<noteq> ''x64'' \<Longrightarrow> archive_extension a = ''-'' @ a @ ''.zip''"
  by (simp add: archive_extension_def)

lemma arch_ext_last:
  "last (a @ archive_extension a) = (if a = ''x86'' then CHR ''3'' else if a = ''x64'' then CHR ''4'' else CHR ''p'')"
  by (simp add: archive_extension_def)

lemma doubled_inj: "a @ ''-'' @ a @ ''.zip'' = b @ ''-'' @ b @ ''.zip'' \<Longrightarrow> a = b"
proof -
  assume eq: "a @ ''-'' @ a @ ''.zip'' = b @ ''-'' @ b @ ''.zip''"
  then have "length (a @ ''-'' @ a @ ''.zip'') = length (b @ ''-'' @ b @ ''.zip'')" by (rule arg_cong)
  then have "length a = length b" by simp
  with eq show "a = b" by simp
qed

lemma arch_ext_inj: "a @ archive_extension a = b @ archive_extension b \<Longrightarrow> a = b"
proof -
  assume eq: "a @ archive_extension a = b @ archive_extension b"
  then have lasts: "last (a @ archive_extension a) = last (b @ archive_extension b)" by (rule arg_cong)
  show "a = b"
  proof (cases "a = ''x86'' \<or> a = ''x64'' \<or> b = ''x86'' \<or> b = ''x64''")
    case True
    then show ?thesis using lasts unfolding arch_ext_last by (auto split: if_splits)
  next
    case False
    then have "a @ ''-'' @ a @ ''.zip'' = b @ ''-'' @ b @ ''.zip''"
      using eq by (simp add: archive_extension_other)
    then show ?thesis by (rule doubled_inj)
  qed
qed

section \<open>Properties\<close>

text \<open>
  Archive naming. The package of architecture \<open>a\<close> is named \<open>{name}-{version}-{a}\<close> followed by \<open>.mxt3\<close> for \<open>x86\<close>, \<open>.mxt64\<close> for \<open>x64\<close>, and \<open>-{a}.zip\<close> for every other architecture (so \<open>arm\<close> gives \<open>...-arm-arm.zip\<close>).
\<close>

theorem resolve_archive_name_cases:
  "resolve_archive_name pc v a =
     name pc @ ''-'' @ v @ ''-'' @ a @
       (if a = ''x86'' then ''.mxt3'' else if a = ''x64'' then ''.mxt64'' else ''-'' @ a @ ''.zip'')"
  by (simp add: resolve_archive_name_def archive_extension_def)

text \<open>
  C22 (safety): two different architectures never get the same package name for the same plugin and version, so the packages of one run do not overwrite each other.
\<close>

theorem archive_names_distinct:
  "a \<noteq> b \<Longrightarrow> resolve_archive_name pc v a \<noteq> resolve_archive_name pc v b"
proof
  assume "resolve_archive_name pc v a = resolve_archive_name pc v b"
  then have "a @ archive_extension a = b @ archive_extension b"
    by (simp add: resolve_archive_name_def)
  then have "a = b" by (rule arch_ext_inj)
  moreover assume "a \<noteq> b"
  ultimately show False by simp
qed

theorem archive_names_distinct_witness:
  "''x86'' \<noteq> ''arm'' \<and> resolve_archive_name example_plugin ''2.1.0'' ''x86'' \<noteq> resolve_archive_name example_plugin ''2.1.0'' ''arm''"
  using archive_names_distinct [of "''x86''" "''arm''" example_plugin "''2.1.0''"] by simp

text \<open>
  C8 (functional): when the prepared binary exists and the package path is writable, \<open>PackageBuilder.build\<close> writes at \<open>{output_dir}/{archive name}\<close> a zip holding exactly the binary under \<open>{binary_subdir}/{internal name}\<close> and \<open>plugin.json\<close> with name, version, architecture, description and source URL, returns that path and changes no other file.
\<close>

theorem build_writes_package:
  assumes "map_of fs bp = Some b"
    and "writable fs (path_div out (resolve_archive_name pc v (arch p)))"
    and "path_div out (resolve_archive_name pc v (arch p)) \<noteq> bp"
  shows "build out pc p v bp url fs =
    (Inr (path_div out (resolve_archive_name pc v (arch p))),
     AList.update (path_div out (resolve_archive_name pc v (arch p)))
       (Zip_file [(zip_arcname (path_div (binary_subdir pc) (resolve_internal_name p bp)), b),
                  (''plugin.json'', Json_doc (plugin_metadata pc v (arch p) url))]) fs)"
proof -
  define ap where "ap = path_div out (resolve_archive_name pc v (arch p))"
  have w0: "fs_write ap (Zip_file []) fs = (Inr (), AList.update ap (Zip_file []) fs)"
    using assms(2) by (simp add: ap_def)
  have w1: "writable (AList.update ap (Zip_file []) fs) ap"
    using assms(2) by (simp add: ap_def writable_update_self)
  have r: "fs_read bp (AList.update ap (Zip_file []) fs) = (Inr b, AList.update ap (Zip_file []) fs)"
    using assms(1,3) by (simp add: fs_read_def update_conv' ap_def)
  show ?thesis
    unfolding build_def Let_def ap_def[symmetric]
    by (simp add: w0 r w1 package_contents_def)
qed

theorem build_writes_package_witness:
  "build ''dist'' example_plugin \<lparr>arch = ''x64'', pattern = ''linux-x64'', rename_to = None, archive_member = None\<rparr>
     ''2.1.0'' ''.tmp/foo-2.1.0/extracted/foo-bin'' (Some ''https://github.com/acme/foo/releases/v2.1.0'')
     [(''.tmp/foo-2.1.0/extracted/foo-bin'', Bytes ''ELF'')]
   = (Inr ''dist/foo-2.1.0-x64.mxt64'',
      [(''.tmp/foo-2.1.0/extracted/foo-bin'', Bytes ''ELF''),
       (''dist/foo-2.1.0-x64.mxt64'',
        Zip_file [(''bin/foo-bin'', Bytes ''ELF''),
                  (''plugin.json'', Json_doc (JObj [(''name'', JStr ''foo''), (''version'', JStr ''2.1.0''),
                     (''arch'', JStr ''x64''), (''description'', JStr ''Foo plugin''),
                     (''source_release'', JStr ''https://github.com/acme/foo/releases/v2.1.0'')]))])])"
proof -
  let ?p = "\<lparr>arch = ''x64'', pattern = ''linux-x64'', rename_to = None, archive_member = None\<rparr>"
  let ?fs = "[(''.tmp/foo-2.1.0/extracted/foo-bin'', Bytes ''ELF'')]"
  have name: "path_div ''dist'' (resolve_archive_name example_plugin ''2.1.0'' ''x64'') = ''dist/foo-2.1.0-x64.mxt64''"
    by (simp add: resolve_archive_name_def archive_extension_def example_plugin_def path_simps)
  have "build ''dist'' example_plugin ?p ''2.1.0'' ''.tmp/foo-2.1.0/extracted/foo-bin''
      (Some ''https://github.com/acme/foo/releases/v2.1.0'') ?fs =
    (Inr (path_div ''dist'' (resolve_archive_name example_plugin ''2.1.0'' (arch ?p))),
     AList.update (path_div ''dist'' (resolve_archive_name example_plugin ''2.1.0'' (arch ?p)))
       (Zip_file [(zip_arcname (path_div (binary_subdir example_plugin) (resolve_internal_name ?p ''.tmp/foo-2.1.0/extracted/foo-bin'')), Bytes ''ELF''),
                  (''plugin.json'', Json_doc (plugin_metadata example_plugin ''2.1.0'' (arch ?p) (Some ''https://github.com/acme/foo/releases/v2.1.0'')))]) ?fs)"
    by (rule build_writes_package) (simp_all add: name writable_def under_def startswith_def)
  moreover have "zip_arcname (path_div (binary_subdir example_plugin)
      (resolve_internal_name ?p ''.tmp/foo-2.1.0/extracted/foo-bin'')) = ''bin/foo-bin''"
    by (simp add: resolve_internal_name_def example_plugin_def path_simps zip_arcname_def)
  moreover have "plugin_metadata example_plugin ''2.1.0'' (arch ?p) (Some ''https://github.com/acme/foo/releases/v2.1.0'') =
      JObj [(''name'', JStr ''foo''), (''version'', JStr ''2.1.0''),
                     (''arch'', JStr ''x64''), (''description'', JStr ''Foo plugin''),
                     (''source_release'', JStr ''https://github.com/acme/foo/releases/v2.1.0'')]"
    by (simp add: plugin_metadata_def example_plugin_def)
  moreover have "arch ?p = ''x64''" by simp
  ultimately show ?thesis
    by (simp only: name) simp
qed

end
