(* ===== verification/Publisher.thy ===== *)
theory Publisher
  imports State Builder
begin

text \<open>
  The publish step of \<^verbatim>\<open>plugin_release.py\<close>: \<open>_origin_repo\<close> reads the
  \<open>origin\<close> URL from git and extracts owner and repository with the regular expression
  \<open>github.com[:/](?P<owner>[^/]+)/(?P<repo>[^/.]+)(?:\.git)?\<close>; the release name and
  body come from \<open>str.format\<close> on the plugin's templates; \<open>_upload_release\<close> reuses
  the release tagged \<open>{name}-v{version}\<close> if \<open>get_release_by_tag\<close> finds it, creates
  it otherwise, and uploads every package of the state through \<open>upload_asset\<close>
  (\<^verbatim>\<open>github_api.py\<close>).

  The GitHub side is a model of the service: the releases of each repository by tag,
  each with its upload URL and uploaded assets. Any API call may fail with an HTTP
  status chosen by the environment (\<open>api_status\<close>); \<open>get_release_by_tag\<close> turns a
  404 into "not found"; the service answers 404 for an unknown tag and 422 for an asset
  name that the release already has.

  \<open>str.format\<close> is modelled for templates whose fields are plain keyword names and
  the escapes \<open>{{\<close> and \<open>}}\<close>; a field that is not one of the keywords raises, as do
  an unmatched brace and a field with a conversion, format spec, attribute or index
  (on which Python would do more than the model: such templates are outside it).
\<close>

section \<open>Definitions\<close>

subsection \<open>Origin URL\<close>

text \<open>The match of the origin expression at the start of \<open>s\<close>, with its greedy groups.\<close>

definition origin_match_at :: "string \<Rightarrow> (string \<times> string) option" where
  "origin_match_at s =
     (if 11 \<le> length s \<and> take 6 s = ''github'' \<and> s ! 6 \<noteq> CHR 0x0A \<and> take 3 (drop 7 s) = ''com'' \<and>
         (s ! 10 = CHR '':'' \<or> s ! 10 = CHR ''/'')
      then
        (let r = drop 11 s;
             owner_part = takeWhile (\<lambda>c. c \<noteq> CHR ''/'') r;
             after = dropWhile (\<lambda>c. c \<noteq> CHR ''/'') r;
             repo_part = takeWhile (\<lambda>c. c \<noteq> CHR ''/'' \<and> c \<noteq> CHR ''.'') (drop 1 after)
         in if owner_part \<noteq> [] \<and> after \<noteq> [] \<and> repo_part \<noteq> [] then Some (owner_part, repo_part) else None)
      else None)"

text \<open>\<open>re.search\<close>: the leftmost position where the expression matches.\<close>

fun origin_search :: "string \<Rightarrow> (string \<times> string) option" where
  "origin_search [] = origin_match_at []"
| "origin_search (c # cs) =
     (case origin_match_at (c # cs) of Some m \<Rightarrow> Some m | None \<Rightarrow> origin_search cs)"

text \<open>
  \<open>_origin_repo\<close>: the output of \<open>git config --get remote.origin.url\<close> (\<open>None\<close>
  when the command fails), stripped, then searched.
\<close>

definition origin_repo :: "string option \<Rightarrow> (string \<times> string) result" where
  "origin_repo git_output =
     (case git_output of
        None \<Rightarrow> Inl Origin_unknown
      | Some out \<Rightarrow>
          (let url = py_strip out
           in case origin_search url of None \<Rightarrow> Inl (Origin_unparsable url) | Some m \<Rightarrow> Inr m))"

subsection \<open>Templates\<close>

definition format_field :: "(string \<times> string) list \<Rightarrow> string \<Rightarrow> string result" where
  "format_field kw f =
     (if list_ex (\<lambda>c. c \<in> set ''{[.!:'') f then Inl (Format_error f)
      else case map_of kw f of Some v \<Rightarrow> Inr v | None \<Rightarrow> Inl (Format_error f))"

function (domintros) py_format :: "(string \<times> string) list \<Rightarrow> string \<Rightarrow> string result" where
  "py_format kw [] = Inr []"
| "py_format kw (c # cs) =
     (if c = CHR ''{'' then
        (if cs \<noteq> [] \<and> hd cs = CHR ''{'' then map_sum id (Cons CHR ''{'') (py_format kw (tl cs))
         else
           (let field = takeWhile (\<lambda>x. x \<noteq> CHR ''}'') cs;
                rest = dropWhile (\<lambda>x. x \<noteq> CHR ''}'') cs
            in if rest = [] then Inl (Format_error (c # cs))
               else (case format_field kw field of
                       Inl e \<Rightarrow> Inl e
                     | Inr v \<Rightarrow> map_sum id ((@) v) (py_format kw (tl rest)))))
      else if c = CHR ''}'' then
        (if cs \<noteq> [] \<and> hd cs = CHR ''}'' then map_sum id (Cons CHR ''}'') (py_format kw (tl cs))
         else Inl (Format_error (c # cs)))
      else map_sum id (Cons c) (py_format kw cs))"
  by pat_completeness auto
termination
proof (relation "measure (\<lambda>(kw, s). length s)")
  fix kw :: "(string \<times> string) list" and c cs field rest
  assume "rest = dropWhile (\<lambda>x. x \<noteq> CHR ''}'') cs"
  then have "length rest \<le> length cs" by (simp add: length_dropWhile_le)
  then show "((kw, tl rest), kw, c # cs) \<in> measure (\<lambda>(kw, s). length s)" by simp
qed auto

subsection \<open>The GitHub service\<close>

record gh_release =
  gr_target :: string
  gr_name :: string
  gr_body :: string
  gr_upload_url :: "string option"
  gr_assets :: "(string \<times> blob) list"

type_synonym gh_service = "((string \<times> string) \<times> (string \<times> gh_release) list) list"

datatype gh_call =
    Get_release_call string
  | Create_release_call string
  | Upload_call string string

text \<open>\<open>upload_url.split("{", 1)[0]\<close>.\<close>

definition upload_endpoint :: "string \<Rightarrow> string" where
  "upload_endpoint u = takeWhile (\<lambda>c. c \<noteq> CHR ''{'') u"

definition repo_releases :: "gh_service \<Rightarrow> string \<times> string \<Rightarrow> (string \<times> gh_release) list" where
  "repo_releases gh rp = (case map_of gh rp of None \<Rightarrow> [] | Some rels \<Rightarrow> rels)"

definition get_release_by_tag ::
  "(gh_call \<Rightarrow> int option) \<Rightarrow> string \<Rightarrow> string \<Rightarrow> string \<Rightarrow> gh_service \<Rightarrow> gh_release option result" where
  "get_release_by_tag status ow rp tag gh =
     (case status (Get_release_call tag) of
        Some st \<Rightarrow> if st = 404 then Inr None else Inl (GitHub_api_error st)
      | None \<Rightarrow> Inr (map_of (repo_releases gh (ow, rp)) tag))"

definition create_release ::
  "(gh_call \<Rightarrow> int option) \<Rightarrow> string \<Rightarrow> string \<Rightarrow> string \<Rightarrow> string \<Rightarrow> string \<Rightarrow> string \<Rightarrow>
   (error, gh_service, gh_release) exn_st" where
  "create_release status ow rp tag target rname body gh =
     (case status (Create_release_call tag) of
        Some st \<Rightarrow> (Inl (GitHub_api_error st), gh)
      | None \<Rightarrow>
          if map_of (repo_releases gh (ow, rp)) tag \<noteq> None then (Inl (GitHub_api_error 422), gh)
          else
            (let rel = \<lparr>gr_target = target, gr_name = rname, gr_body = body,
                        gr_upload_url = Some (''https://uploads.github.com/repos/'' @ ow @ ''/'' @ rp @
                                              ''/releases/'' @ tag @ ''/assets{?name,label}''),
                        gr_assets = []\<rparr>
             in (Inr rel, AList.update (ow, rp) (AList.update tag rel (repo_releases gh (ow, rp))) gh)))"

text \<open>The release of the repository whose upload URL has the given endpoint.\<close>

definition release_at_endpoint :: "(string \<times> gh_release) list \<Rightarrow> string \<Rightarrow> string option" where
  "release_at_endpoint rels ep =
     map_option fst (find (\<lambda>(t, rel). map_option upload_endpoint (gr_upload_url rel) = Some ep) rels)"

text \<open>
  The service side of an upload to the endpoint \<open>ep\<close>: the release of the repository
  with that upload endpoint gets the asset \<open>n\<close>, unless it already has one of that name
  (status 422) or no release has the endpoint (status 404).
\<close>

definition add_asset ::
  "(gh_call \<Rightarrow> int option) \<Rightarrow> string \<Rightarrow> string \<Rightarrow> string \<Rightarrow> string \<Rightarrow> blob \<Rightarrow>
   (error, gh_service, unit) exn_st" where
  "add_asset status ow rp ep n content gh =
     (case status (Upload_call ep n) of
        Some code \<Rightarrow> (Inl (GitHub_api_error code), gh)
      | None \<Rightarrow>
          (case release_at_endpoint (repo_releases gh (ow, rp)) ep of
             None \<Rightarrow> (Inl (GitHub_api_error 404), gh)
           | Some tag \<Rightarrow>
               (let rel = the (map_of (repo_releases gh (ow, rp)) tag)
                in if map_of (gr_assets rel) n \<noteq> None then (Inl (GitHub_api_error 422), gh)
                   else (Inr (), AList.update (ow, rp)
                                   (AList.update tag (rel\<lparr>gr_assets := gr_assets rel @ [(n, content)]\<rparr>)
                                     (repo_releases gh (ow, rp))) gh))))"

text \<open>\<open>GitHubAPI.upload_asset\<close>: the file is read, then posted to the endpoint.\<close>

definition upload_asset ::
  "(gh_call \<Rightarrow> int option) \<Rightarrow> string \<Rightarrow> string \<Rightarrow> string \<Rightarrow> string \<Rightarrow>
   (error, fs \<times> gh_service, unit) exn_st" where
  "upload_asset status ow rp upload_url asset_path st =
     (let (files, gh) = st
      in case map_of files asset_path of
           None \<Rightarrow> (Inl (OS_error asset_path), st)
         | Some content \<Rightarrow>
             (let (r, gh') = add_asset status ow rp (upload_endpoint upload_url) (path_name asset_path) content gh
              in (r, files, gh')))"

fun upload_all ::
  "(gh_call \<Rightarrow> int option) \<Rightarrow> string \<Rightarrow> string \<Rightarrow> string \<Rightarrow> (string \<times> string) list \<Rightarrow>
   (error, fs \<times> gh_service, unit) exn_st" where
  "upload_all status ow rp url [] = ereturn ()"
| "upload_all status ow rp url ((a, path) # rest) =
     ebind (upload_asset status ow rp url path) (\<lambda>_. upload_all status ow rp url rest)"

definition release_tag :: "plugin_config \<Rightarrow> release_state \<Rightarrow> string" where
  "release_tag pc s = name pc @ ''-v'' @ version s"

text \<open>\<open>_upload_release\<close>.\<close>

definition upload_release ::
  "(gh_call \<Rightarrow> int option) \<Rightarrow> string \<Rightarrow> string \<Rightarrow> plugin_config \<Rightarrow> release_state \<Rightarrow>
   string \<Rightarrow> string \<Rightarrow> string \<Rightarrow> (error, fs \<times> gh_service, unit) exn_st" where
  "upload_release status ow rp pc s rname body target st =
     (let tag = release_tag pc s; (files, gh) = st
      in case get_release_by_tag status ow rp tag gh of
           Inl e \<Rightarrow> (Inl e, st)
         | Inr existing \<Rightarrow>
             (let (created, gh') =
                    (case existing of
                       Some rel \<Rightarrow> (Inr rel, gh)
                     | None \<Rightarrow> create_release status ow rp tag target rname body gh)
              in case created of
                   Inl e \<Rightarrow> (Inl e, files, gh')
                 | Inr rel \<Rightarrow>
                     (case gr_upload_url rel of
                        None \<Rightarrow> (Inl No_upload_url, files, gh')
                      | Some u \<Rightarrow>
                          if u = [] then (Inl No_upload_url, files, gh')
                          else upload_all status ow rp u (assets s) (files, gh'))))"

subsection \<open>Invariant of the service, and examples\<close>

text \<open>Repositories are unique, and so are the release tags of each repository.\<close>

definition gh_wf :: "gh_service \<Rightarrow> bool" where
  "gh_wf gh \<longleftrightarrow> distinct (map fst gh) \<and> list_all (\<lambda>(r, rels). distinct (map fst rels)) gh"

text \<open>The assets a release gets from uploading the files \<open>xs\<close> of a state.\<close>

definition uploaded :: "fs \<Rightarrow> (string \<times> string) list \<Rightarrow> (string \<times> blob) list" where
  "uploaded fs xs = map (\<lambda>(a, p). (path_name p, the (map_of fs p))) xs"

definition example_state :: release_state where
  "example_state = \<lparr>plugin = ''foo'', version = ''2.1.0'', assets = [(''x64'', ''dist/foo-2.1.0-x64.mxt64'')]\<rparr>"

definition example_files :: fs where
  "example_files = [(''dist/foo-2.1.0-x64.mxt64'', Bytes ''PKG'')]"

text \<open>
  Two observations of the service: the release that an upload endpoint resolves to already has
  an asset of the name \<open>n\<close>; and the upload URL of the release tagged \<open>t\<close>.
\<close>

definition has_asset_at :: "gh_service \<Rightarrow> string \<times> string \<Rightarrow> string \<Rightarrow> string \<Rightarrow> bool" where
  "has_asset_at gh r ep n \<longleftrightarrow>
     (case release_at_endpoint (repo_releases gh r) ep of
        None \<Rightarrow> False
      | Some t \<Rightarrow> (case map_of (repo_releases gh r) t of None \<Rightarrow> False | Some rel \<Rightarrow> map_of (gr_assets rel) n \<noteq> None))"

definition release_url_at :: "gh_service \<Rightarrow> string \<times> string \<Rightarrow> string \<Rightarrow> string option" where
  "release_url_at gh r t = (case map_of (repo_releases gh r) t of None \<Rightarrow> None | Some rel \<Rightarrow> gr_upload_url rel)"

section \<open>Lemmas\<close>


text \<open>The recursive equation of \<open>py_format\<close> is used through the lemmas below.\<close>

declare py_format.simps(2) [simp del]


lemma upload_asset_files: "upload_asset status ow rp u path st = (r, st') \<Longrightarrow> fst st' = fst st"
  by (auto simp: upload_asset_def add_asset_def Let_def split: prod.splits option.splits if_splits)

lemma upload_all_files: "upload_all status ow rp u xs st = (r, st') \<Longrightarrow> fst st' = fst st"
proof (induction xs arbitrary: st)
  case Nil
  then show ?case by simp
next
  case (Cons x xs)
  obtain a path where x: "x = (a, path)" by fastforce
  obtain r1 st1 where u: "upload_asset status ow rp u path st = (r1, st1)"
    by (cases "upload_asset status ow rp u path st")
  with upload_asset_files have "fst st1 = fst st" by blast
  with Cons u x show ?case
    by (cases r1) (auto simp: ebind_def)
qed

lemma upload_release_files: "upload_release status ow rp pc s rn bd tg st = (r, st') \<Longrightarrow> fst st' = fst st"
  by (auto simp: upload_release_def Let_def split: prod.splits sum.splits option.splits if_splits
      dest: upload_all_files)

lemma origin_match_at_github:
  assumes "ow \<noteq> []" and "CHR ''/'' \<notin> set ow" and "rp \<noteq> []" and "CHR ''/'' \<notin> set rp" and "CHR ''.'' \<notin> set rp"
    and "sep = CHR '':'' \<or> sep = CHR ''/''"
    and "sfx = [] \<or> hd sfx = CHR ''.'' \<or> hd sfx = CHR ''/''"
  shows "origin_match_at (''github.com'' @ sep # ow @ CHR ''/'' # rp @ sfx) = Some (ow, rp)"
proof -
  have tw: "takeWhile (\<lambda>c. c \<noteq> CHR ''/'') (ow @ CHR ''/'' # rp @ sfx) = ow"
    using assms(2) by (intro takeWhile_stop) auto
  have dw: "dropWhile (\<lambda>c. c \<noteq> CHR ''/'') (ow @ CHR ''/'' # rp @ sfx) = CHR ''/'' # rp @ sfx"
    using assms(2) by (intro dropWhile_stop) auto
  have tr: "takeWhile (\<lambda>c. c \<noteq> CHR ''/'' \<and> c \<noteq> CHR ''.'') (rp @ sfx) = rp"
    using assms(4,5,7) by (intro takeWhile_stop) auto
  show ?thesis
    using assms(1,3,6) by (auto simp: origin_match_at_def Let_def tw dw tr)
qed

lemma py_format_plain:
  "c \<noteq> CHR ''{'' \<Longrightarrow> c \<noteq> CHR ''}'' \<Longrightarrow> py_format kw (c # cs) = map_sum id (Cons c) (py_format kw cs)"
  by (simp add: py_format.simps(2))

lemma py_format_field:
  assumes "CHR ''}'' \<notin> set f" and "f = [] \<or> hd f \<noteq> CHR ''{''"
  shows "py_format kw (CHR ''{'' # f @ CHR ''}'' # rest) =
    (case format_field kw f of Inl e \<Rightarrow> Inl e | Inr v \<Rightarrow> map_sum id ((@) v) (py_format kw rest))"
proof -
  have tw: "takeWhile (\<lambda>x. x \<noteq> CHR ''}'') (f @ CHR ''}'' # rest) = f"
    using assms(1) by (intro takeWhile_stop) auto
  have dw: "dropWhile (\<lambda>x. x \<noteq> CHR ''}'') (f @ CHR ''}'' # rest) = CHR ''}'' # rest"
    using assms(1) by (intro dropWhile_stop) auto
  have nb: "\<not> (f @ CHR ''}'' # rest \<noteq> [] \<and> hd (f @ CHR ''}'' # rest) = CHR ''{'')"
    using assms(2) by (cases f) auto
  show ?thesis
    by (simp only: py_format.simps(2) nb tw dw if_False if_True Let_def list.sel list.distinct simp_thms)
qed

lemma py_format_text:
  "CHR ''{'' \<notin> set t \<Longrightarrow> CHR ''}'' \<notin> set t \<Longrightarrow> py_format kw (t @ rest) = map_sum id ((@) t) (py_format kw rest)"
proof (induction t)
  case Nil
  then show ?case by (cases "py_format kw rest") simp_all
next
  case (Cons c t)
  from Cons.prems have "c \<noteq> CHR ''{''" "c \<noteq> CHR ''}''" by auto
  then have "py_format kw ((c # t) @ rest) = map_sum id (Cons c) (py_format kw (t @ rest))"
    by (simp add: py_format_plain)
  with Cons show ?case by (cases "py_format kw rest") simp_all
qed

lemma py_format_known_field:
  assumes "map_of kw g = Some val" and "CHR ''}'' \<notin> set g" and "g = [] \<or> hd g \<noteq> CHR ''{''"
    and "\<not> list_ex (\<lambda>c. c \<in> set ''{[.!:'') g"
  shows "py_format kw (CHR ''{'' # g @ CHR ''}'' # rest) = map_sum id ((@) val) (py_format kw rest)"
  using py_format_field [OF assms(2,3), of kw rest] assms(1,4) by (simp add: format_field_def)

lemma py_format_unknown_field:
  assumes "map_of kw g = None" and "CHR ''}'' \<notin> set g" and "g = [] \<or> hd g \<noteq> CHR ''{''"
  shows "py_format kw (CHR ''{'' # g @ CHR ''}'' # rest) = Inl (Format_error g)"
  using py_format_field [OF assms(2,3), of kw rest] assms(1) by (simp add: format_field_def split: if_splits)

lemma gh_wf_update:
  "gh_wf gh \<Longrightarrow> distinct (map fst rels) \<Longrightarrow> gh_wf (AList.update r rels gh)"
  by (simp add: gh_wf_def distinct_update list_all_update)

lemma repo_releases_distinct: "gh_wf gh \<Longrightarrow> distinct (map fst (repo_releases gh r))"
  by (auto simp: gh_wf_def repo_releases_def list_all_iff split: option.splits dest!: map_of_SomeD)

lemma repo_releases_update [simp]: "repo_releases (AList.update r rels gh) r = rels"
  by (simp add: repo_releases_def update_conv')

lemma gh_wf_update_release:
  "gh_wf gh \<Longrightarrow> gh_wf (AList.update r (AList.update t rel (repo_releases gh r)) gh)"
  by (intro gh_wf_update distinct_update repo_releases_distinct)

lemma create_release_wf:
  "gh_wf gh \<Longrightarrow> create_release status ow rp tag tg rn bd gh = (x, gh') \<Longrightarrow> gh_wf gh'"
  by (auto simp: create_release_def Let_def gh_wf_update_release split: option.splits if_splits)

lemma upload_asset_wf:
  "gh_wf (snd st) \<Longrightarrow> upload_asset status ow rp u path st = (x, st') \<Longrightarrow> gh_wf (snd st')"
  by (auto simp: upload_asset_def add_asset_def Let_def gh_wf_update_release split: prod.splits option.splits if_splits)

lemma upload_all_wf:
  "gh_wf (snd st) \<Longrightarrow> upload_all status ow rp u xs st = (x, st') \<Longrightarrow> gh_wf (snd st')"
proof (induction xs arbitrary: st)
  case (Cons y xs)
  obtain a path where y: "y = (a, path)" by fastforce
  obtain x1 st1 where u: "upload_asset status ow rp u path st = (x1, st1)"
    by (cases "upload_asset status ow rp u path st")
  with Cons.prems(1) have "gh_wf (snd st1)" by (rule upload_asset_wf)
  with Cons u y show ?case by (cases x1) (auto simp: ebind_def)
qed simp

lemma release_at_endpoint_update:
  assumes "distinct (map fst rels)" and "map_of rels t = Some rel" and "gr_upload_url rel' = gr_upload_url rel"
  shows "release_at_endpoint (AList.update t rel' rels) ep = release_at_endpoint rels ep"
  using assms
proof (induction rels)
  case (Cons p rels)
  obtain k r where p: "p = (k, r)" by fastforce
  show ?case
  proof (cases "k = t")
    case True
    with Cons.prems p show ?thesis
      by (cases "gr_upload_url rel") (auto simp: release_at_endpoint_def)
  next
    case False
    with Cons.prems p have "release_at_endpoint (AList.update t rel' rels) ep = release_at_endpoint rels ep"
      by (intro Cons.IH) auto
    with False p show ?thesis
      by (cases "gr_upload_url r") (auto simp: release_at_endpoint_def)
  qed
qed simp

lemma upload_all_appends:
  assumes "\<And>c. status c = None" and "gh_wf gh"
    and "map_of (repo_releases gh (ow, rp)) t = Some rel"
    and "release_at_endpoint (repo_releases gh (ow, rp)) (upload_endpoint u) = Some t"
    and "list_all (\<lambda>(a, p). map_of fs p \<noteq> None) xs"
    and "distinct (map (\<lambda>(a, p). path_name p) xs)"
    and "list_all (\<lambda>(a, p). map_of (gr_assets rel) (path_name p) = None) xs"
  shows "\<exists>gh'. upload_all status ow rp u xs (fs, gh) = (Inr (), fs, gh') \<and> gh_wf gh' \<and>
    map_of (repo_releases gh' (ow, rp)) t = Some (rel\<lparr>gr_assets := gr_assets rel @ uploaded fs xs\<rparr>)"
  using assms(2-7)
proof (induction xs arbitrary: gh rel)
  case Nil
  then show ?case by (simp add: uploaded_def)
next
  case (Cons x xs)
  obtain a p where x: "x = (a, p)" by fastforce
  from Cons.prems(4) x obtain content where c: "map_of fs p = Some content" by auto
  let ?rel1 = "rel\<lparr>gr_assets := gr_assets rel @ [(path_name p, content)]\<rparr>"
  let ?gh1 = "AList.update (ow, rp) (AList.update t ?rel1 (repo_releases gh (ow, rp))) gh"
  have up: "upload_asset status ow rp u p (fs, gh) = (Inr (), fs, ?gh1)"
    using Cons.prems(2,3,6) x c assms(1) by (simp add: upload_asset_def add_asset_def)
  have wf1: "gh_wf ?gh1" using Cons.prems(1) by (rule gh_wf_update_release)
  have m1: "map_of (repo_releases ?gh1 (ow, rp)) t = Some ?rel1" by (simp add: update_conv')
  have e1: "release_at_endpoint (repo_releases ?gh1 (ow, rp)) (upload_endpoint u) = Some t"
    using Cons.prems(1-3) by (simp add: release_at_endpoint_update repo_releases_distinct)
  have fresh: "list_all (\<lambda>(a, p). map_of (gr_assets ?rel1) (path_name p) = None) xs"
    using Cons.prems(5,6) x by (force simp: list_all_iff map_of_append)
  from Cons.IH [OF wf1 m1 e1 _ _ fresh] Cons.prems(4,5) x
  obtain gh' where "upload_all status ow rp u xs (fs, ?gh1) = (Inr (), fs, gh')" "gh_wf gh'"
    "map_of (repo_releases gh' (ow, rp)) t = Some (?rel1\<lparr>gr_assets := gr_assets ?rel1 @ uploaded fs xs\<rparr>)"
    by auto
  with up x c show ?case by (simp add: ebind_def uploaded_def)
qed

lemma release_at_endpoint_append_new:
  assumes "release_at_endpoint rels ep = None" and "gr_upload_url rel = Some u" and "upload_endpoint u = ep"
  shows "release_at_endpoint (rels @ [(t, rel)]) ep = Some t"
proof -
  have "find (\<lambda>(t, rel). map_option upload_endpoint (gr_upload_url rel) = Some ep) (rels @ [(t, rel)]) = Some (t, rel)"
    using assms by (intro find_append_first) (auto simp: release_at_endpoint_def find_None_iff)
  then show ?thesis by (simp add: release_at_endpoint_def)
qed

lemma origin_repo_github:
  assumes "ow \<noteq> []" and "CHR ''/'' \<notin> set ow" and "rp \<noteq> []" and "CHR ''/'' \<notin> set rp" and "CHR ''.'' \<notin> set rp"
    and "\<not> py_space (last (rp @ sfx))" and "sep = CHR '':'' \<or> sep = CHR ''/''"
    and "sfx = [] \<or> hd sfx = CHR ''.'' \<or> hd sfx = CHR ''/''"
    and "pre = ''https://'' \<or> pre = ''git@'' \<or> pre = ''ssh://git@''"
  shows "origin_repo (Some (pre @ ''github.com'' @ sep # ow @ CHR ''/'' # rp @ sfx @ [CHR 0x0A])) = Inr (ow, rp)"
proof -
  note m = origin_match_at_github [OF assms(1-5,7,8)]
  have s: "origin_search (''github.com'' @ sep # ow @ CHR ''/'' # rp @ sfx) = Some (ow, rp)"
    using m by (simp only: append_Cons append_Nil origin_search.simps option.case)
  have last: "\<not> py_space (last (pre @ ''github.com'' @ sep # ow @ CHR ''/'' # rp @ sfx))"
    using assms(3,6) by simp
  have strip: "py_strip ((pre @ ''github.com'' @ sep # ow @ CHR ''/'' # rp @ sfx) @ [CHR 0x0A]) =
      pre @ ''github.com'' @ sep # ow @ CHR ''/'' # rp @ sfx"
    using assms(9) last by (intro py_strip_trailing) (auto simp: py_space_def)
  from assms(9) show ?thesis
  proof (elim disjE)
    assume "pre = ''https://''"
    then show ?thesis using s strip by (simp add: origin_repo_def origin_match_at_def)
  next
    assume "pre = ''git@''"
    then show ?thesis using s strip by (simp add: origin_repo_def origin_match_at_def)
  next
    assume "pre = ''ssh://git@''"
    then show ?thesis using s strip by (simp add: origin_repo_def origin_match_at_def)
  qed
qed

lemma release_at_endpoint_key: "release_at_endpoint rels ep = Some t \<Longrightarrow> \<exists>rel. map_of rels t = Some rel"
proof -
  assume "release_at_endpoint rels ep = Some t"
  then obtain r where "find (\<lambda>(t, rel). map_option upload_endpoint (gr_upload_url rel) = Some ep) rels = Some (t, r)"
    by (auto simp: release_at_endpoint_def)
  then have "(t, r) \<in> set rels" by (blast dest: find_SomeD)
  then show ?thesis by (metis weak_map_of_SomeI)
qed

lemma add_asset_preserves:
  assumes "gh_wf gh" and "add_asset status ow rp ep' n c gh = (x, gh2)"
  shows "gh_wf gh2 \<and> (has_asset_at gh (ow, rp) ep m \<longrightarrow> has_asset_at gh2 (ow, rp) ep m) \<and>
    release_url_at gh2 (ow, rp) t = release_url_at gh (ow, rp) t"
proof (cases "status (Upload_call ep' n) = None \<and> release_at_endpoint (repo_releases gh (ow, rp)) ep' \<noteq> None")
  case False
  then have "gh2 = gh" using assms(2) by (auto simp: add_asset_def split: option.splits)
  with assms(1) show ?thesis by simp
next
  case True
  then obtain t1 where t1: "release_at_endpoint (repo_releases gh (ow, rp)) ep' = Some t1"
    and st: "status (Upload_call ep' n) = None" by auto
  obtain rel1 where r1: "map_of (repo_releases gh (ow, rp)) t1 = Some rel1"
    using release_at_endpoint_key [OF t1] by blast
  let ?rels = "repo_releases gh (ow, rp)"
  let ?rel1' = "rel1\<lparr>gr_assets := gr_assets rel1 @ [(n, c)]\<rparr>"
  show ?thesis
  proof (cases "map_of (gr_assets rel1) n = None")
    case False
    then have "gh2 = gh" using assms(2) st t1 r1 by (simp add: add_asset_def Let_def)
    with assms(1) show ?thesis by simp
  next
    case True
    then have gh2: "gh2 = AList.update (ow, rp) (AList.update t1 ?rel1' ?rels) gh"
      using assms(2) st t1 r1 by (simp add: add_asset_def Let_def)
    have d: "distinct (map fst ?rels)" using assms(1) by (rule repo_releases_distinct)
    have ep: "release_at_endpoint (AList.update t1 ?rel1' ?rels) e = release_at_endpoint ?rels e" for e
      using d r1 by (intro release_at_endpoint_update) simp_all
    have mo: "map_of (AList.update t1 ?rel1' ?rels) = (map_of ?rels)(t1 \<mapsto> ?rel1')"
      by (simp add: update_conv')
    show ?thesis
      using assms(1) r1 by (auto simp: gh2 gh_wf_update_release has_asset_at_def release_url_at_def ep mo
          map_of_append split: option.splits)
  qed
qed


lemma add_asset_Inr:
  assumes "gh_wf gh" and "add_asset status ow rp ep n c gh = (Inr (), gh1)"
  shows "has_asset_at gh1 (ow, rp) ep n"
proof -
  from assms(2) obtain t1 rel1 where st: "status (Upload_call ep n) = None"
    and t1: "release_at_endpoint (repo_releases gh (ow, rp)) ep = Some t1"
    and r1: "map_of (repo_releases gh (ow, rp)) t1 = Some rel1"
    and gh1: "gh1 = AList.update (ow, rp) (AList.update t1 (rel1\<lparr>gr_assets := gr_assets rel1 @ [(n, c)]\<rparr>)
               (repo_releases gh (ow, rp))) gh"
    by (auto simp: add_asset_def Let_def split: option.splits if_splits dest: release_at_endpoint_key)
  have d: "distinct (map fst (repo_releases gh (ow, rp)))" using assms(1) by (rule repo_releases_distinct)
  have "release_at_endpoint (AList.update t1 (rel1\<lparr>gr_assets := gr_assets rel1 @ [(n, c)]\<rparr>)
          (repo_releases gh (ow, rp))) ep = Some t1"
    using d r1 t1 by (simp add: release_at_endpoint_update)
  then show ?thesis by (simp add: gh1 has_asset_at_def update_conv' map_of_append)
qed

lemma upload_asset_preserves:
  assumes "gh_wf (snd st)" and "upload_asset status ow rp u path st = (x, st')"
  shows "fst st' = fst st \<and> gh_wf (snd st') \<and>
    (has_asset_at (snd st) (ow, rp) ep m \<longrightarrow> has_asset_at (snd st') (ow, rp) ep m) \<and>
    release_url_at (snd st') (ow, rp) t = release_url_at (snd st) (ow, rp) t"
proof -
  obtain fs gh where st: "st = (fs, gh)" by (cases st)
  show ?thesis
  proof (cases "map_of fs path")
    case None
    with assms st show ?thesis by (auto simp: upload_asset_def)
  next
    case (Some content)
    obtain r gh' where a: "add_asset status ow rp (upload_endpoint u) (path_name path) content gh = (r, gh')"
      by (cases "add_asset status ow rp (upload_endpoint u) (path_name path) content gh")
    with assms st Some have "st' = (fs, gh')" "x = r" by (auto simp: upload_asset_def)
    with add_asset_preserves [OF _ a] assms(1) st show ?thesis by simp
  qed
qed

lemma upload_all_preserves:
  assumes "gh_wf (snd st)" and "upload_all status ow rp u xs st = (x, st')"
  shows "fst st' = fst st \<and> gh_wf (snd st') \<and>
    (has_asset_at (snd st) (ow, rp) ep m \<longrightarrow> has_asset_at (snd st') (ow, rp) ep m) \<and>
    release_url_at (snd st') (ow, rp) t = release_url_at (snd st) (ow, rp) t"
  using assms
proof (induction xs arbitrary: st)
  case (Cons y xs)
  obtain a path where y: "y = (a, path)" by fastforce
  obtain x1 st1 where u: "upload_asset status ow rp u path st = (x1, st1)"
    by (cases "upload_asset status ow rp u path st")
  note one = upload_asset_preserves [OF Cons.prems(1) u, where ep = ep and m = m and t = t]
  show ?case
  proof (cases x1)
    case (Inl e)
    with Cons.prems(2) u y have "st' = st1" by (simp add: ebind_def)
    with one show ?thesis by simp
  next
    case (Inr v)
    with Cons.prems(2) u y have "upload_all status ow rp u xs st1 = (x, st')" by (simp add: ebind_def)
    with Cons.IH [of st1] one show ?thesis by simp
  qed
qed simp

lemma upload_all_first:
  assumes "\<And>c. status c = None" and "gh_wf gh"
    and "upload_all status ow rp u ((a, p) # rest) (fs, gh) = (Inr (), st')"
  shows "map_of fs p \<noteq> None \<and> has_asset_at (snd st') (ow, rp) (upload_endpoint u) (path_name p)"
proof -
  obtain x1 st1 where u: "upload_asset status ow rp u p (fs, gh) = (x1, st1)"
    by (cases "upload_asset status ow rp u p (fs, gh)")
  with assms(3) obtain v where x1: "x1 = Inr v" and r: "upload_all status ow rp u rest st1 = (Inr (), st')"
    by (cases x1) (auto simp: ebind_def)
  from u x1 obtain content gh1 where c: "map_of fs p = Some content" and st1: "st1 = (fs, gh1)"
    and a: "add_asset status ow rp (upload_endpoint u) (path_name p) content gh = (Inr (), gh1)"
    by (auto simp: upload_asset_def split: option.splits prod.splits)
  have h1: "has_asset_at gh1 (ow, rp) (upload_endpoint u) (path_name p)" by (rule add_asset_Inr [OF assms(2) a])
  have "gh_wf gh1" using add_asset_preserves [OF assms(2) a] by simp
  with upload_all_preserves [OF _ r] st1 h1 c show ?thesis by simp
qed

section \<open>Properties\<close>


text \<open>
  C31 (functional): _origin_repo reads owner and repository from the usual GitHub remote URLs (https://, git@ and ssh://git@ forms, with : or / after the host, with or without .git, as git prints them with a final newline), for an owner without / and a repository name without /, . and trailing whitespace.
\<close>

theorem origin_repo_github_urls:
  assumes "ow \<noteq> []" and "CHR ''/'' \<notin> set ow" and "rp \<noteq> []" and "CHR ''/'' \<notin> set rp" and "CHR ''.'' \<notin> set rp"
    and "\<not> py_space (last rp)" and "sep = CHR '':'' \<or> sep = CHR ''/''"
    and "sfx = [] \<or> sfx = ''.git''"
    and "pre = ''https://'' \<or> pre = ''git@'' \<or> pre = ''ssh://git@''"
  shows "origin_repo (Some (pre @ ''github.com'' @ sep # ow @ CHR ''/'' # rp @ sfx @ [CHR 0x0A])) = Inr (ow, rp)"
proof (rule origin_repo_github [OF assms(1-5) _ assms(7) _ assms(9)])
  show "\<not> py_space (last (rp @ sfx))" using assms(3,6,8) by (auto simp: py_space_def)
  show "sfx = [] \<or> hd sfx = CHR ''.'' \<or> hd sfx = CHR ''/''" using assms(8) by auto
qed

theorem origin_repo_github_urls_witness:
  "''acme'' \<noteq> [] \<and> CHR ''/'' \<notin> set ''acme'' \<and> ''tool'' \<noteq> [] \<and> CHR ''/'' \<notin> set ''tool'' \<and>
   CHR ''.'' \<notin> set ''tool'' \<and> \<not> py_space (last ''tool'') \<and> (CHR '':'' = CHR '':'' \<or> CHR '':'' = CHR ''/'') \<and>
   (''.git'' = [] \<or> ''.git'' = ''.git'') \<and> (''git@'' = ''https://'' \<or> ''git@'' = ''git@'' \<or> ''git@'' = ''ssh://git@'') \<and>
   origin_repo (Some (''git@github.com:acme/tool.git'' @ [CHR 0x0A])) = Inr (''acme'', ''tool'')"
  using origin_repo_github_urls [of "''acme''" "''tool''" "CHR '':''" "''.git''" "''git@''"]
  by (simp add: py_space_def)

text \<open>
  C23 (functional): the repository group [^/.]+ stops at the first dot, so every remote whose repository name contains a dot is read as a different repository: for any owner and any name a.b (a without a dot), the https://, git@ and ssh://git@ URLs of a.b.git give (owner, a).
\<close>

theorem origin_repo_dotted_repo:
  assumes "ow \<noteq> []" and "CHR ''/'' \<notin> set ow" and "a \<noteq> []" and "CHR ''/'' \<notin> set a" and "CHR ''.'' \<notin> set a"
    and "\<not> py_space (last (CHR ''.'' # b))" and "sep = CHR '':'' \<or> sep = CHR ''/''"
    and "pre = ''https://'' \<or> pre = ''git@'' \<or> pre = ''ssh://git@''"
  shows "origin_repo (Some (pre @ ''github.com'' @ sep # ow @ CHR ''/'' # a @ CHR ''.'' # b @ ''.git'' @ [CHR 0x0A])) =
           Inr (ow, a)"
proof -
  have "\<not> py_space (last (a @ CHR ''.'' # b @ ''.git''))" by (simp add: py_space_def)
  from origin_repo_github [OF assms(1-5) this assms(7) _ assms(8)] show ?thesis by simp
qed

theorem origin_repo_dotted_repo_witness:
  "origin_repo (Some (''https://github.com/acme/my.tool.git'' @ [CHR 0x0A])) = Inr (''acme'', ''my'')"
proof -
  have "origin_repo (Some (''https://'' @ ''github.com'' @ CHR ''/'' # ''acme'' @ CHR ''/'' # ''my'' @ CHR ''.'' # ''tool'' @
      ''.git'' @ [CHR 0x0A])) = Inr (''acme'', ''my'')"
    by (rule origin_repo_dotted_repo) (simp_all add: py_space_def)
  then show ?thesis by simp
qed

text \<open>
  The publish step keeps the GitHub service well formed on every path: repositories stay unique, and so do the release tags of each repository.
\<close>

theorem upload_release_wf:
  assumes "gh_wf (snd st)" and "upload_release status ow rp pc s rn bd tg st = (x, st')"
  shows "gh_wf (snd st')"
proof -
  obtain fs gh where st: "st = (fs, gh)" by (cases st)
  show ?thesis
  proof (cases "get_release_by_tag status ow rp (release_tag pc s) gh")
    case (Inl e)
    with assms st show ?thesis by (auto simp: upload_release_def Let_def)
  next
    case (Inr existing)
    obtain created gh1 where c: "(case existing of Some rel \<Rightarrow> (Inr rel, gh)
        | None \<Rightarrow> create_release status ow rp (release_tag pc s) tg rn bd gh) = (created, gh1)"
      by (cases "case existing of Some rel \<Rightarrow> (Inr rel, gh)
        | None \<Rightarrow> create_release status ow rp (release_tag pc s) tg rn bd gh")
    from assms(1) st c have wf1: "gh_wf gh1"
      by (cases existing) (auto dest: create_release_wf)
    from assms(2) st Inr c
    have "(case created of Inl e \<Rightarrow> (Inl e, fs, gh1)
        | Inr rel \<Rightarrow> (case gr_upload_url rel of None \<Rightarrow> (Inl No_upload_url, fs, gh1)
            | Some u \<Rightarrow> if u = [] then (Inl No_upload_url, fs, gh1)
                else upload_all status ow rp u (assets s) (fs, gh1))) = (x, st')"
      by (simp add: upload_release_def Let_def)
    with wf1 show ?thesis
      by (auto split: sum.splits option.splits if_splits dest: upload_all_wf [rotated])
  qed
qed

text \<open>
  C26 (functional): when the tag {name}-v{version} has no release and no API call fails, _upload_release creates it with the given target, name and body, and uploads every package of the state under its base name with the file's contents, in the order of the state.
\<close>

theorem upload_release_new:
  assumes "\<And>c. status c = None" and "gh_wf gh"
    and "map_of (repo_releases gh (ow, rp)) (release_tag pc s) = None"
    and "release_at_endpoint (repo_releases gh (ow, rp))
           (''https://uploads.github.com/repos/'' @ ow @ ''/'' @ rp @ ''/releases/'' @ release_tag pc s @ ''/assets'') = None"
    and "CHR ''{'' \<notin> set (ow @ rp @ release_tag pc s)"
    and "list_all (\<lambda>(a, p). map_of fs p \<noteq> None) (assets s)"
    and "distinct (map (\<lambda>(a, p). path_name p) (assets s))"
  shows "\<exists>gh'. upload_release status ow rp pc s rn bd tg (fs, gh) = (Inr (), fs, gh') \<and> gh_wf gh' \<and>
    map_of (repo_releases gh' (ow, rp)) (release_tag pc s) =
      Some \<lparr>gr_target = tg, gr_name = rn, gr_body = bd,
            gr_upload_url = Some (''https://uploads.github.com/repos/'' @ ow @ ''/'' @ rp @ ''/releases/'' @
                                  release_tag pc s @ ''/assets{?name,label}''),
            gr_assets = uploaded fs (assets s)\<rparr>"
proof -
  let ?tag = "release_tag pc s"
  let ?ep = "''https://uploads.github.com/repos/'' @ ow @ ''/'' @ rp @ ''/releases/'' @ ?tag @ ''/assets''"
  let ?u = "?ep @ ''{?name,label}''"
  let ?rel0 = "\<lparr>gr_target = tg, gr_name = rn, gr_body = bd, gr_upload_url = Some ?u, gr_assets = []\<rparr>"
  let ?gh1 = "AList.update (ow, rp) (AList.update ?tag ?rel0 (repo_releases gh (ow, rp))) gh"
  have ep: "upload_endpoint ?u = ?ep"
    using assms(5) unfolding upload_endpoint_def by (intro takeWhile_stop) auto
  have get: "get_release_by_tag status ow rp ?tag gh = Inr None"
    using assms(1,3) by (simp add: get_release_by_tag_def)
  have cr: "create_release status ow rp ?tag tg rn bd gh = (Inr ?rel0, ?gh1)"
    using assms(1,3) by (simp add: create_release_def Let_def)
  have wf1: "gh_wf ?gh1" using assms(2) by (rule gh_wf_update_release)
  have m1: "map_of (repo_releases ?gh1 (ow, rp)) ?tag = Some ?rel0" by (simp add: update_conv')
  have "AList.update ?tag ?rel0 (repo_releases gh (ow, rp)) = repo_releases gh (ow, rp) @ [(?tag, ?rel0)]"
    using assms(3) by (intro update_new_key) (simp add: map_of_eq_None_iff)
  then have e1: "release_at_endpoint (repo_releases ?gh1 (ow, rp)) (upload_endpoint ?u) = Some ?tag"
    using assms(4) ep by (simp add: release_at_endpoint_append_new)
  have fr: "list_all (\<lambda>(a, p). map_of (gr_assets ?rel0) (path_name p) = None) (assets s)"
    by (simp add: list_all_iff split_beta)
  from upload_all_appends [where status = status, OF assms(1) wf1 m1 e1 assms(6,7) fr]
  obtain gh' where up: "upload_all status ow rp ?u (assets s) (fs, ?gh1) = (Inr (), fs, gh')" and "gh_wf gh'"
    and "map_of (repo_releases gh' (ow, rp)) ?tag = Some (?rel0\<lparr>gr_assets := gr_assets ?rel0 @ uploaded fs (assets s)\<rparr>)"
    by blast
  moreover have "upload_release status ow rp pc s rn bd tg (fs, gh) = upload_all status ow rp ?u (assets s) (fs, ?gh1)"
    using get cr by (simp add: upload_release_def Let_def)
  ultimately show ?thesis by auto
qed

theorem upload_release_new_witness:
  "gh_wf [] \<and> map_of (repo_releases [] (''me'', ''plugins'')) (release_tag example_plugin example_state) = None \<and>
   release_at_endpoint (repo_releases [] (''me'', ''plugins''))
     (''https://uploads.github.com/repos/'' @ ''me'' @ ''/'' @ ''plugins'' @ ''/releases/'' @
      release_tag example_plugin example_state @ ''/assets'') = None \<and>
   CHR ''{'' \<notin> set (''me'' @ ''plugins'' @ release_tag example_plugin example_state) \<and>
   list_all (\<lambda>(a, p). map_of example_files p \<noteq> None) (assets example_state) \<and>
   distinct (map (\<lambda>(a, p). path_name p) (assets example_state)) \<and>
   (\<exists>gh'. upload_release (\<lambda>c. None) ''me'' ''plugins'' example_plugin example_state ''foo 2.1.0'' ''notes'' ''main''
       (example_files, []) = (Inr (), example_files, gh') \<and> gh_wf gh' \<and>
     map_of (repo_releases gh' (''me'', ''plugins'')) ''foo-v2.1.0'' =
       Some \<lparr>gr_target = ''main'', gr_name = ''foo 2.1.0'', gr_body = ''notes'',
             gr_upload_url = Some ''https://uploads.github.com/repos/me/plugins/releases/foo-v2.1.0/assets{?name,label}'',
             gr_assets = [(''foo-2.1.0-x64.mxt64'', Bytes ''PKG'')]\<rparr>)"
proof -
  have h: "gh_wf []" "map_of (repo_releases [] (''me'', ''plugins'')) (release_tag example_plugin example_state) = None"
    "release_at_endpoint (repo_releases [] (''me'', ''plugins''))
     (''https://uploads.github.com/repos/'' @ ''me'' @ ''/'' @ ''plugins'' @ ''/releases/'' @
      release_tag example_plugin example_state @ ''/assets'') = None"
    "CHR ''{'' \<notin> set (''me'' @ ''plugins'' @ release_tag example_plugin example_state)"
    "list_all (\<lambda>(a, p). map_of example_files p \<noteq> None) (assets example_state)"
    "distinct (map (\<lambda>(a, p). path_name p) (assets example_state))"
    by (simp_all add: gh_wf_def repo_releases_def release_at_endpoint_def release_tag_def example_plugin_def
        example_state_def example_files_def)
  have u: "uploaded example_files (assets example_state) = [(''foo-2.1.0-x64.mxt64'', Bytes ''PKG'')]"
    by (simp add: uploaded_def example_state_def example_files_def path_simps)
  have t: "release_tag example_plugin example_state = ''foo-v2.1.0''"
    by (simp add: release_tag_def example_plugin_def example_state_def)
  show ?thesis
    using upload_release_new [where status = "\<lambda>c. None", OF _ h, of "''foo 2.1.0''" "''notes''" "''main''"] h u t
    by simp
qed

text \<open>
  C35 (functional): _upload_release reuses an existing release but uploads every package
  again. After any successful _upload_release of a state with at least one package, running it
  again for the same state, whatever the name, body and target, fails with GitHub's 422 at the
  first package and changes neither files nor service. So a forced republish of a published
  version exits 1.
\<close>

theorem upload_release_repeat_conflict:
  assumes "gh_wf (snd st)" and "upload_release (\<lambda>c. None) ow rp pc s rn bd tg st = (Inr (), st')"
    and "assets s \<noteq> []"
  shows "upload_release (\<lambda>c. None) ow rp pc s rn' bd' tg' st' = (Inl (GitHub_api_error 422), st')"
proof -
  obtain fs gh where st: "st = (fs, gh)" by (cases st)
  obtain a p rest where as: "assets s = (a, p) # rest" using assms(3) by (cases "assets s") auto
  let ?tag = "release_tag pc s"
  have "\<exists>(rel :: gh_release) gh1. gh_wf gh1 \<and> release_url_at gh1 (ow, rp) ?tag = gr_upload_url rel \<and>
    (case gr_upload_url rel of None \<Rightarrow> (Inl No_upload_url, fs, gh1)
       | Some u \<Rightarrow> if u = [] then (Inl No_upload_url, fs, gh1)
                  else upload_all (\<lambda>c. None) ow rp u (assets s) (fs, gh1)) = (Inr (), st')"
  proof (cases "map_of (repo_releases gh (ow, rp)) ?tag")
    case None
    obtain r gh1 where cr: "create_release (\<lambda>c. None) ow rp ?tag tg rn bd gh = (r, gh1)"
      by (cases "create_release (\<lambda>c. None) ow rp ?tag tg rn bd gh")
    with None obtain rel where r: "r = Inr rel"
      and gh1: "gh1 = AList.update (ow, rp) (AList.update ?tag rel (repo_releases gh (ow, rp))) gh"
      by (auto simp: create_release_def Let_def)
    have "gh_wf gh1" using create_release_wf [OF _ cr] assms(1) st by simp
    moreover have "release_url_at gh1 (ow, rp) ?tag = gr_upload_url rel"
      by (simp add: gh1 release_url_at_def update_conv')
    moreover have "(case gr_upload_url rel of None \<Rightarrow> (Inl No_upload_url, fs, gh1)
          | Some u \<Rightarrow> if u = [] then (Inl No_upload_url, fs, gh1)
                     else upload_all (\<lambda>c. None) ow rp u (assets s) (fs, gh1)) = (Inr (), st')"
      using assms(2) st None cr r by (simp add: upload_release_def Let_def get_release_by_tag_def)
    ultimately show ?thesis by blast
  next
    case (Some rel)
    have "release_url_at gh (ow, rp) ?tag = gr_upload_url rel" using Some by (simp add: release_url_at_def)
    moreover have "(case gr_upload_url rel of None \<Rightarrow> (Inl No_upload_url, fs, gh)
          | Some u \<Rightarrow> if u = [] then (Inl No_upload_url, fs, gh)
                     else upload_all (\<lambda>c. None) ow rp u (assets s) (fs, gh)) = (Inr (), st')"
      using assms(2) st Some by (simp add: upload_release_def Let_def get_release_by_tag_def)
    ultimately show ?thesis using assms(1) st by auto
  qed
  then obtain rel :: gh_release and gh1 where
    wf1: "gh_wf gh1" and url: "release_url_at gh1 (ow, rp) ?tag = gr_upload_url rel" and
    up: "(case gr_upload_url rel of None \<Rightarrow> (Inl No_upload_url, fs, gh1)
          | Some u \<Rightarrow> if u = [] then (Inl No_upload_url, fs, gh1)
                     else upload_all (\<lambda>c. None) ow rp u (assets s) (fs, gh1)) = (Inr (), st')"
    by blast
  from up obtain u where u: "gr_upload_url rel = Some u" "u \<noteq> []"
    and ua: "upload_all (\<lambda>c. None) ow rp u ((a, p) # rest) (fs, gh1) = (Inr (), st')"
    using as by (auto split: option.splits if_splits)
  have first: "map_of fs p \<noteq> None" "has_asset_at (snd st') (ow, rp) (upload_endpoint u) (path_name p)"
    using upload_all_first [OF _ wf1 ua] by simp_all
  have pres: "fst st' = fs" "gh_wf (snd st')" "release_url_at (snd st') (ow, rp) ?tag = Some u"
    using upload_all_preserves [OF _ ua, where t = ?tag] wf1 url u by simp_all
  obtain gh' where st': "st' = (fs, gh')" using pres(1) by (cases st') simp
  from pres(3) st' obtain relT where relT: "map_of (repo_releases gh' (ow, rp)) ?tag = Some relT"
    and uT: "gr_upload_url relT = Some u"
    by (auto simp: release_url_at_def split: option.splits)
  from first(2) st' obtain t0 r0 where
    t0: "release_at_endpoint (repo_releases gh' (ow, rp)) (upload_endpoint u) = Some t0" and
    r0: "map_of (repo_releases gh' (ow, rp)) t0 = Some r0" and
    n0: "map_of (gr_assets r0) (path_name p) \<noteq> None"
    by (auto simp: has_asset_at_def split: option.splits)
  from first(1) obtain content where c: "map_of fs p = Some content" by auto
  show ?thesis
    using st' relT uT u(2) as c t0 r0 n0
    by (simp add: upload_release_def Let_def get_release_by_tag_def upload_asset_def add_asset_def ebind_def)
qed

theorem upload_release_repeat_conflict_witness:
  "gh_wf (snd (example_files, [])) \<and>
   upload_release (\<lambda>c. None) ''me'' ''plugins'' example_plugin example_state ''foo 2.1.0'' ''notes'' ''main''
     (example_files, []) =
     (Inr (), snd (upload_release (\<lambda>c. None) ''me'' ''plugins'' example_plugin example_state ''foo 2.1.0'' ''notes''
                   ''main'' (example_files, []))) \<and>
   assets example_state \<noteq> [] \<and>
   upload_release (\<lambda>c. None) ''me'' ''plugins'' example_plugin example_state ''x'' ''y'' ''z''
     (snd (upload_release (\<lambda>c. None) ''me'' ''plugins'' example_plugin example_state ''foo 2.1.0'' ''notes''
             ''main'' (example_files, []))) =
   (Inl (GitHub_api_error 422),
    snd (upload_release (\<lambda>c. None) ''me'' ''plugins'' example_plugin example_state ''foo 2.1.0'' ''notes''
           ''main'' (example_files, [])))"
proof -
  have w: "gh_wf (snd (example_files, []))" by (simp add: gh_wf_def)
  have r: "upload_release (\<lambda>c. None) ''me'' ''plugins'' example_plugin example_state ''foo 2.1.0'' ''notes'' ''main''
     (example_files, []) =
     (Inr (), snd (upload_release (\<lambda>c. None) ''me'' ''plugins'' example_plugin example_state ''foo 2.1.0'' ''notes''
                   ''main'' (example_files, [])))" by code_simp
  have n: "assets example_state \<noteq> []" by (simp add: example_state_def)
  show ?thesis using upload_release_repeat_conflict [OF w r n, of "''x''" "''y''" "''z''"] w r n by simp
qed

end
