(* ===== verification/Config.thy ===== *)
theory Config
  imports State
begin

text \<open>
  \<^verbatim>\<open>config_loader.py\<close>: \<open>load_plugins_config\<close> reads the JSON document at the
  configuration path and builds a dictionary of \<open>PluginConfig\<close> by plugin name;
  \<open>_load_source\<close> checks the required keys of a source, loads its asset patterns
  (\<open>_load_asset_patterns\<close>) and only then refuses a source type other than
  \<open>github\<close>. A missing file and a missing key raise \<open>ConfigurationError\<close>, which
  \<open>main\<close> catches; a document that is not JSON and a JSON value of the wrong shape
  raise other exceptions, which it does not.

  The loader works on the decoded document (\<open>json.loads\<close> keeps the last of duplicate
  keys: \<open>py_object\<close> of \<open>State\<close>). Python's operators are followed on every JSON
  shape: \<open>k in item\<close> is key membership on an object, element membership on an array,
  substring on a string and a \<open>TypeError\<close> on a number, boolean or null; iterating an
  object yields its keys and iterating a string its characters. Where the code
  stores a value as a string field without looking at it, the model requires a JSON
  string and raises \<open>Type_error\<close> otherwise (Python would carry the value on); an
  optional field that is \<open>null\<close> is absent. The default release body is Cyrillic
  text, kept as its UTF-8 bytes.
\<close>

section \<open>Definitions\<close>

definition default_release_name :: string where
  "default_release_name = ''{name} {version}''"

definition default_release_body :: string where
  "default_release_body =
     [CHR 0xD0, CHR 0x90, CHR 0xD0, CHR 0xB2, CHR 0xD1, CHR 0x82, CHR 0xD0, CHR 0xBE, CHR 0xD0, CHR 0xBC,
      CHR 0xD0, CHR 0xB0, CHR 0xD1, CHR 0x82, CHR 0xD0, CHR 0xB8, CHR 0xD1, CHR 0x87, CHR 0xD0, CHR 0xB5,
      CHR 0xD1, CHR 0x81, CHR 0xD0, CHR 0xBA, CHR 0xD0, CHR 0xB8] @ '' '' @
     [CHR 0xD1, CHR 0x81, CHR 0xD0, CHR 0xBE, CHR 0xD0, CHR 0xB7, CHR 0xD0, CHR 0xB4, CHR 0xD0, CHR 0xB0,
      CHR 0xD0, CHR 0xBD, CHR 0xD0, CHR 0xBD, CHR 0xD1, CHR 0x8B, CHR 0xD0, CHR 0xB9] @ '' '' @
     [CHR 0xD1, CHR 0x80, CHR 0xD0, CHR 0xB5, CHR 0xD0, CHR 0xBB, CHR 0xD0, CHR 0xB8, CHR 0xD0, CHR 0xB7] @ '' '' @
     [CHR 0xD0, CHR 0xB4, CHR 0xD0, CHR 0xBB, CHR 0xD1, CHR 0x8F] @ '' {name}.'' @
     [CHR 0x0A, CHR 0xD0, CHR 0x92, CHR 0xD0, CHR 0xB5, CHR 0xD1, CHR 0x80, CHR 0xD1, CHR 0x81, CHR 0xD0,
      CHR 0xB8, CHR 0xD1, CHR 0x8F] @ '' '' @
     [CHR 0xD0, CHR 0xB8, CHR 0xD1, CHR 0x81, CHR 0xD1, CHR 0x85, CHR 0xD0, CHR 0xBE, CHR 0xD0, CHR 0xB4,
      CHR 0xD0, CHR 0xBD, CHR 0xD0, CHR 0xBE, CHR 0xD0, CHR 0xB3, CHR 0xD0, CHR 0xBE] @ '' '' @
     [CHR 0xD0, CHR 0xBF, CHR 0xD1, CHR 0x80, CHR 0xD0, CHR 0xBE, CHR 0xD0, CHR 0xB5, CHR 0xD0, CHR 0xBA,
      CHR 0xD1, CHR 0x82, CHR 0xD0, CHR 0xB0] @ '': {version}.''"

subsection \<open>Python operators on JSON values\<close>

fun has_infix :: "string \<Rightarrow> string \<Rightarrow> bool" where
  "has_infix k [] = (k = [])"
| "has_infix k (c # cs) = (startswith (c # cs) k \<or> has_infix k cs)"

text \<open>\<open>k in item\<close>.\<close>

fun py_in :: "string \<Rightarrow> json \<Rightarrow> bool result" where
  "py_in k (JObj kv) = Inr (map_of kv k \<noteq> None)"
| "py_in k (JArr xs) = Inr (JStr k \<in> set xs)"
| "py_in k (JStr s) = Inr (has_infix k s)"
| "py_in k _ = Inl (Type_error k)"

text \<open>\<open>for x in j\<close>.\<close>

fun py_iter :: "json \<Rightarrow> json list result" where
  "py_iter (JArr xs) = Inr xs"
| "py_iter (JObj kv) = Inr (map (JStr \<circ> fst) (py_object kv))"
| "py_iter (JStr s) = Inr (map (\<lambda>c. JStr [c]) s)"
| "py_iter _ = Inl (Type_error ''iter'')"

definition json_str :: "string \<Rightarrow> json \<Rightarrow> string result" where
  "json_str k j = (case j of JStr s \<Rightarrow> Inr s | _ \<Rightarrow> Inl (Type_error k))"

text \<open>\<open>d[k]\<close> of a value stored as a string, after the code has checked that \<open>k in d\<close>.\<close>

definition get_req :: "(string \<times> json) list \<Rightarrow> string \<Rightarrow> string result" where
  "get_req d k = (case map_of d k of None \<Rightarrow> Inl (Key_error k) | Some j \<Rightarrow> json_str k j)"

text \<open>\<open>d.get(k, default)\<close>.\<close>

definition get_default :: "(string \<times> json) list \<Rightarrow> string \<Rightarrow> string \<Rightarrow> string result" where
  "get_default d k dflt = (case map_of d k of None \<Rightarrow> Inr dflt | Some j \<Rightarrow> json_str k j)"

text \<open>\<open>d.get(k)\<close> of an optional string.\<close>

definition get_opt :: "(string \<times> json) list \<Rightarrow> string \<Rightarrow> string option result" where
  "get_opt d k =
     (case map_of d k of None \<Rightarrow> Inr None | Some JNull \<Rightarrow> Inr None | Some j \<Rightarrow> map_sum id Some (json_str k j))"

text \<open>The dictionary of an object, and the \<open>AttributeError\<close> of \<open>.get\<close> or \<open>.keys\<close> on another value.\<close>

definition as_dict :: "string \<Rightarrow> json \<Rightarrow> (string \<times> json) list result" where
  "as_dict what j = (case j of JObj kv \<Rightarrow> Inr (py_object kv) | _ \<Rightarrow> Inl (Type_error what))"

subsection \<open>The loader\<close>

text \<open>\<open>_load_asset_patterns\<close>, one item.\<close>

definition load_asset_pattern :: "json \<Rightarrow> asset_pattern result" where
  "load_asset_pattern item =
     sbind (py_in ''arch'' item) (\<lambda>has_arch. sbind (py_in ''pattern'' item) (\<lambda>has_pattern.
       if \<not> has_arch \<or> \<not> has_pattern
       then Inl (Configuration_error ''arch, pattern'')
       else sbind (as_dict ''asset_patterns'' item) (\<lambda>d.
              sbind (get_req d ''arch'') (\<lambda>a. sbind (get_req d ''pattern'') (\<lambda>pat.
              sbind (get_opt d ''rename_to'') (\<lambda>rn. sbind (get_opt d ''archive_member'') (\<lambda>am.
              Inr \<lparr>arch = a, pattern = pat, rename_to = rn, archive_member = am\<rparr>)))))))"

text \<open>The keys of \<open>{"type", "owner", "repo"}\<close> missing from a source, \<open>sorted\<close>.\<close>

definition missing_source_keys :: "(string \<times> json) list \<Rightarrow> string list" where
  "missing_source_keys d = filter (\<lambda>k. map_of d k = None) [''owner'', ''repo'', ''type'']"

definition load_source :: "json \<Rightarrow> plugin_source result" where
  "load_source raw =
     sbind (as_dict ''source'' raw) (\<lambda>d.
       if missing_source_keys d \<noteq> [] then Inl (Configuration_error (join_with '', '' (missing_source_keys d)))
       else
         sbind (case map_of d ''asset_patterns'' of None \<Rightarrow> Inr [] | Some j \<Rightarrow> py_iter j) (\<lambda>items.
         sbind (traverse load_asset_pattern items) (\<lambda>pats.
         if map_of d ''type'' \<noteq> Some (JStr ''github'') then Inl (Configuration_error ''type'')
         else
           sbind (get_req d ''owner'') (\<lambda>ow. sbind (get_req d ''repo'') (\<lambda>rp.
           sbind (get_opt d ''release_branch'') (\<lambda>rb. sbind (get_default d ''tag_prefix'' []) (\<lambda>tp.
           Inr \<lparr>source_type = ''github'', owner = ow, repo = rp, release_branch = rb, tag_prefix = tp,
                asset_patterns = pats\<rparr>)))))))"

text \<open>One item of \<open>raw["plugins"]\<close>, and the loop that fills the dictionary.\<close>

definition load_plugin :: "json \<Rightarrow> plugin_config result" where
  "load_plugin item =
     sbind (py_in ''name'' item) (\<lambda>has_name. sbind (py_in ''branch'' item) (\<lambda>has_branch.
     sbind (py_in ''source'' item) (\<lambda>has_source.
       if \<not> has_name \<or> \<not> has_branch \<or> \<not> has_source
       then Inl (Configuration_error ''name, branch, source'')
       else sbind (as_dict ''plugins'' item) (\<lambda>d.
              sbind (load_source (the (map_of d ''source''))) (\<lambda>src.
              sbind (get_req d ''name'') (\<lambda>nm. sbind (get_req d ''branch'') (\<lambda>br.
              sbind (get_default d ''release_name_template'' default_release_name) (\<lambda>rnt.
              sbind (get_default d ''release_body_template'' default_release_body) (\<lambda>rbt.
              sbind (get_default d ''plugin_description'' []) (\<lambda>desc.
              sbind (get_default d ''binary_subdir'' ''bin'') (\<lambda>sub.
              Inr \<lparr>name = nm, branch = br, source = src, release_name_template = rnt,
                   release_body_template = rbt, plugin_description = desc, binary_subdir = sub\<rparr>)))))))))))"

fun load_plugins :: "json list \<Rightarrow> (string \<times> plugin_config) list \<Rightarrow> (string \<times> plugin_config) list result" where
  "load_plugins [] acc = Inr acc"
| "load_plugins (item # items) acc =
     sbind (load_plugin item) (\<lambda>pc. load_plugins items (dict_set acc (name pc) pc))"

definition load_plugins_config :: "string \<Rightarrow> fs \<Rightarrow> (string \<times> plugin_config) list result" where
  "load_plugins_config path fs =
     (if \<not> fs_exists fs path then Inl (Configuration_error path)
      else case map_of fs path of
             None \<Rightarrow> Inl (OS_error path)
           | Some (Json_doc raw) \<Rightarrow>
               sbind (as_dict ''config'' raw) (\<lambda>d.
               sbind (case map_of d ''plugins'' of None \<Rightarrow> Inr [] | Some j \<Rightarrow> py_iter j) (\<lambda>items.
               load_plugins items []))
           | Some _ \<Rightarrow> Inl (Json_decode_error path))"

subsection \<open>The document of a configuration, and examples\<close>

text \<open>
  The JSON document that describes a list of plugin configurations, every field
  written out (an absent optional field as \<open>null\<close>).
\<close>

definition opt_json :: "string option \<Rightarrow> json" where
  "opt_json v = (case v of None \<Rightarrow> JNull | Some s \<Rightarrow> JStr s)"

definition pattern_json :: "asset_pattern \<Rightarrow> json" where
  "pattern_json ap = JObj [(''arch'', JStr (arch ap)), (''pattern'', JStr (pattern ap)),
     (''rename_to'', opt_json (rename_to ap)), (''archive_member'', opt_json (archive_member ap))]"

definition source_json :: "plugin_source \<Rightarrow> json" where
  "source_json src = JObj [(''type'', JStr (source_type src)), (''owner'', JStr (owner src)),
     (''repo'', JStr (repo src)), (''release_branch'', opt_json (release_branch src)),
     (''tag_prefix'', JStr (tag_prefix src)), (''asset_patterns'', JArr (map pattern_json (asset_patterns src)))]"

definition plugin_json :: "plugin_config \<Rightarrow> json" where
  "plugin_json pc = JObj [(''name'', JStr (name pc)), (''branch'', JStr (branch pc)),
     (''source'', source_json (source pc)), (''release_name_template'', JStr (release_name_template pc)),
     (''release_body_template'', JStr (release_body_template pc)),
     (''plugin_description'', JStr (plugin_description pc)), (''binary_subdir'', JStr (binary_subdir pc))]"

definition config_json :: "plugin_config list \<Rightarrow> json" where
  "config_json pcs = JObj [(''plugins'', JArr (map plugin_json pcs))]"

text \<open>The dictionary \<open>plugins\<close> after \<open>plugins[config.name] = config\<close> for each configuration.\<close>

definition plugin_table :: "plugin_config list \<Rightarrow> (string \<times> plugin_config) list \<Rightarrow> (string \<times> plugin_config) list" where
  "plugin_table pcs acc = fold (\<lambda>pc d. dict_set d (name pc) pc) pcs acc"

definition example_entry :: "string \<Rightarrow> string \<Rightarrow> plugin_config" where
  "example_entry n desc =
     \<lparr>name = n, branch = ''main'',
      source = \<lparr>source_type = ''github'', owner = ''acme'', repo = ''tool'', release_branch = None, tag_prefix = [],
                asset_patterns = [\<lparr>arch = ''x64'', pattern = ''linux'', rename_to = None, archive_member = None\<rparr>]\<rparr>,
      release_name_template = default_release_name, release_body_template = ''{name}'', plugin_description = desc,
      binary_subdir = ''bin''\<rparr>"

section \<open>Lemmas\<close>


lemma load_plugins_config_Inr_file:
  "load_plugins_config p fs = Inr c \<Longrightarrow> map_of fs p \<noteq> None"
  by (auto simp: load_plugins_config_def split: if_splits option.splits)

lemma load_plugins_config_frame:
  assumes "map_of fs' p = map_of fs p" and "map_of fs p \<noteq> None"
  shows "load_plugins_config p fs' = load_plugins_config p fs"
  using assms map_of_fs_exists [of fs p] map_of_fs_exists [of fs' p]
  by (simp add: load_plugins_config_def)

lemma load_plugins_traverse:
  "load_plugins items acc = map_sum id (\<lambda>pcs. plugin_table pcs acc) (traverse load_plugin items)"
proof (induction items arbitrary: acc)
  case Nil
  then show ?case by (simp add: plugin_table_def)
next
  case (Cons item items)
  then show ?case
    by (cases "load_plugin item"; cases "traverse load_plugin items") (simp_all add: plugin_table_def)
qed

lemma get_opt_json: "map_of d k = Some (opt_json v) \<Longrightarrow> get_opt d k = Inr v"
  by (cases v) (simp_all add: get_opt_def opt_json_def json_str_def)

lemma load_asset_pattern_json: "load_asset_pattern (pattern_json ap) = Inr ap"
proof -
  have d: "py_object [(''arch'', JStr (arch ap)), (''pattern'', JStr (pattern ap)),
     (''rename_to'', opt_json (rename_to ap)), (''archive_member'', opt_json (archive_member ap))] =
     [(''arch'', JStr (arch ap)), (''pattern'', JStr (pattern ap)),
     (''rename_to'', opt_json (rename_to ap)), (''archive_member'', opt_json (archive_member ap))]"
    by (rule py_object_distinct) simp
  show ?thesis
    by (simp add: load_asset_pattern_def pattern_json_def as_dict_def d get_req_def json_str_def get_opt_json)
qed

lemma traverse_load_asset_patterns: "traverse load_asset_pattern (map pattern_json aps) = Inr aps"
  by (induction aps) (simp_all add: load_asset_pattern_json)

lemma load_source_json:
  assumes "source_type src = ''github''"
  shows "load_source (source_json src) = Inr src"
proof -
  let ?kv = "[(''type'', JStr ''github''), (''owner'', JStr (owner src)),
     (''repo'', JStr (repo src)), (''release_branch'', opt_json (release_branch src)),
     (''tag_prefix'', JStr (tag_prefix src)), (''asset_patterns'', JArr (map pattern_json (asset_patterns src)))]"
  have d: "py_object ?kv = ?kv" by (rule py_object_distinct) simp
  have sj: "source_json src = JObj ?kv" using assms by (simp add: source_json_def)
  show ?thesis
    using assms
    by (simp only: sj) (simp add: load_source_def as_dict_def d missing_source_keys_def get_req_def get_default_def
        json_str_def get_opt_json traverse_load_asset_patterns)
qed

lemma load_plugin_json:
  assumes "source_type (source pc) = ''github''"
  shows "load_plugin (plugin_json pc) = Inr pc"
proof -
  let ?kv = "[(''name'', JStr (name pc)), (''branch'', JStr (branch pc)),
     (''source'', source_json (source pc)), (''release_name_template'', JStr (release_name_template pc)),
     (''release_body_template'', JStr (release_body_template pc)),
     (''plugin_description'', JStr (plugin_description pc)), (''binary_subdir'', JStr (binary_subdir pc))]"
  have d: "py_object ?kv = ?kv" by (rule py_object_distinct) simp
  show ?thesis
    using assms
    by (simp add: load_plugin_def plugin_json_def as_dict_def d get_req_def get_default_def json_str_def
        load_source_json)
qed

lemma traverse_load_plugins_json:
  "list_all (\<lambda>pc. source_type (source pc) = ''github'') pcs \<Longrightarrow> traverse load_plugin (map plugin_json pcs) = Inr pcs"
  by (induction pcs) (simp_all add: load_plugin_json)

lemma load_plugins_config_json:
  assumes "list_all (\<lambda>pc. source_type (source pc) = ''github'') pcs"
    and "map_of fs path = Some (Json_doc (config_json pcs))"
  shows "load_plugins_config path fs = Inr (plugin_table pcs [])"
proof -
  have d: "py_object [(''plugins'', JArr (map plugin_json pcs))] = [(''plugins'', JArr (map plugin_json pcs))]"
    by (rule py_object_distinct) simp
  from assms(2) have "fs_exists fs path" by (intro map_of_fs_exists) simp
  with assms show ?thesis
    by (simp add: load_plugins_config_def config_json_def as_dict_def d load_plugins_traverse
        traverse_load_plugins_json)
qed

lemma plugin_table_distinct:
  "distinct (map name pcs) \<Longrightarrow> set (map name pcs) \<inter> set (map fst acc) = {} \<Longrightarrow>
   plugin_table pcs acc = acc @ map (\<lambda>pc. (name pc, pc)) pcs"
proof (induction pcs arbitrary: acc)
  case (Cons pc pcs)
  have "dict_set acc (name pc) pc = acc @ [(name pc, pc)]"
    using Cons.prems(2) by (intro update_new_key) auto
  moreover have "plugin_table pcs (acc @ [(name pc, pc)]) = (acc @ [(name pc, pc)]) @ map (\<lambda>pc. (name pc, pc)) pcs"
    using Cons.prems by (intro Cons.IH) auto
  ultimately show ?case by (simp add: plugin_table_def)
qed (simp add: plugin_table_def)

section \<open>Properties\<close>

text \<open>
  C27 (roundtrip): a configuration document written from a list of plugin configurations with distinct names and the github source type is loaded back by load_plugins_config as exactly those configurations, keyed by name, in order.
\<close>

theorem load_plugins_config_roundtrip:
  assumes "list_all (\<lambda>pc. source_type (source pc) = ''github'') pcs" and "distinct (map name pcs)"
    and "map_of fs path = Some (Json_doc (config_json pcs))"
  shows "load_plugins_config path fs = Inr (map (\<lambda>pc. (name pc, pc)) pcs)"
  using load_plugins_config_json [OF assms(1,3)] plugin_table_distinct [OF assms(2), of "[]"] by simp

theorem load_plugins_config_roundtrip_witness:
  "list_all (\<lambda>pc. source_type (source pc) = ''github'') [example_entry ''foo'' [], example_entry ''bar'' []] \<and>
   distinct (map name [example_entry ''foo'' [], example_entry ''bar'' []]) \<and>
   map_of [(''data/plugins.json'', Json_doc (config_json [example_entry ''foo'' [], example_entry ''bar'' []]))]
     ''data/plugins.json'' = Some (Json_doc (config_json [example_entry ''foo'' [], example_entry ''bar'' []])) \<and>
   load_plugins_config ''data/plugins.json''
     [(''data/plugins.json'', Json_doc (config_json [example_entry ''foo'' [], example_entry ''bar'' []]))]
   = Inr [(''foo'', example_entry ''foo'' []), (''bar'', example_entry ''bar'' [])]"
  using load_plugins_config_roundtrip [of "[example_entry ''foo'' [], example_entry ''bar'' []]"
      "[(''data/plugins.json'', Json_doc (config_json [example_entry ''foo'' [], example_entry ''bar'' []]))]"
      "''data/plugins.json''"]
  by (simp add: example_entry_def)

text \<open>
  C28 (functional): two plugin entries with the same name are not rejected: the table keeps one entry under that name, holding the later configuration.
\<close>

theorem load_plugins_config_duplicate_names:
  assumes "source_type (source pc1) = ''github''" and "source_type (source pc2) = ''github''"
    and "name pc1 = name pc2"
    and "map_of fs path = Some (Json_doc (config_json [pc1, pc2]))"
  shows "load_plugins_config path fs = Inr [(name pc2, pc2)]"
  using load_plugins_config_json [of "[pc1, pc2]", OF _ assms(4)] assms(1-3)
  by (simp add: plugin_table_def)

theorem load_plugins_config_duplicate_names_witness:
  "source_type (source (example_entry ''foo'' ''one'')) = ''github'' \<and>
   source_type (source (example_entry ''foo'' ''two'')) = ''github'' \<and>
   name (example_entry ''foo'' ''one'') = name (example_entry ''foo'' ''two'') \<and>
   map_of [(''p.json'', Json_doc (config_json [example_entry ''foo'' ''one'', example_entry ''foo'' ''two'']))] ''p.json''
     = Some (Json_doc (config_json [example_entry ''foo'' ''one'', example_entry ''foo'' ''two''])) \<and>
   load_plugins_config ''p.json''
     [(''p.json'', Json_doc (config_json [example_entry ''foo'' ''one'', example_entry ''foo'' ''two'']))]
   = Inr [(''foo'', example_entry ''foo'' ''two'')]"
  using load_plugins_config_duplicate_names [of "example_entry ''foo'' ''one''" "example_entry ''foo'' ''two''"
      "[(''p.json'', Json_doc (config_json [example_entry ''foo'' ''one'', example_entry ''foo'' ''two'']))]" "''p.json''"]
  by (simp add: example_entry_def)

text \<open>
  C29 (error): the plugin loop fails with e exactly when some entry fails with e after all earlier entries loaded, so one malformed entry makes the whole configuration unusable, whichever plugin the run asks for.
\<close>

theorem load_plugins_errors:
  "load_plugins items acc = Inl e \<longleftrightarrow>
   (\<exists>pre item post. items = pre @ item # post \<and> (\<forall>y \<in> set pre. \<exists>pc. load_plugin y = Inr pc) \<and>
      load_plugin item = Inl e)"
proof -
  have "load_plugins items acc = Inl e \<longleftrightarrow> traverse load_plugin items = Inl e"
    by (cases "traverse load_plugin items") (simp_all add: load_plugins_traverse)
  then show ?thesis by (simp add: traverse_Inl_iff)
qed

theorem load_plugins_errors_witness:
  "load_plugins [plugin_json (example_entry ''foo'' []), JObj [(''name'', JStr ''bar''), (''branch'', JStr ''main'')]] []
     = Inl (Configuration_error ''name, branch, source'') \<and>
   [plugin_json (example_entry ''foo'' []), JObj [(''name'', JStr ''bar''), (''branch'', JStr ''main'')]] =
     [plugin_json (example_entry ''foo'' [])] @ JObj [(''name'', JStr ''bar''), (''branch'', JStr ''main'')] # [] \<and>
   load_plugin (plugin_json (example_entry ''foo'' [])) = Inr (example_entry ''foo'' []) \<and>
   load_plugin (JObj [(''name'', JStr ''bar''), (''branch'', JStr ''main'')]) = Inl (Configuration_error ''name, branch, source'')"
proof -
  have g: "load_plugin (plugin_json (example_entry ''foo'' [])) = Inr (example_entry ''foo'' [])"
    by (rule load_plugin_json) (simp add: example_entry_def)
  have b: "load_plugin (JObj [(''name'', JStr ''bar''), (''branch'', JStr ''main'')]) = Inl (Configuration_error ''name, branch, source'')"
    by (simp add: load_plugin_def)
  have "load_plugins [plugin_json (example_entry ''foo'' []), JObj [(''name'', JStr ''bar''), (''branch'', JStr ''main'')]] []
     = Inl (Configuration_error ''name, branch, source'')"
    using load_plugins_errors [of "[plugin_json (example_entry ''foo'' []), JObj [(''name'', JStr ''bar''), (''branch'', JStr ''main'')]]"
        "[]" "Configuration_error ''name, branch, source''"] g b
    by (metis append_Cons append_Nil empty_iff list.set(1) set_ConsD)
  with g b show ?thesis by simp
qed

text \<open>
  C30 (functional): a source object with type github, an owner and a repository but no asset_patterns key is accepted, for every owner and repository, with an empty pattern list (and no release branch, no tag prefix).
\<close>

theorem load_source_without_patterns:
  "load_source (JObj [(''type'', JStr ''github''), (''owner'', JStr ow), (''repo'', JStr rp)]) =
   Inr \<lparr>source_type = ''github'', owner = ow, repo = rp, release_branch = None, tag_prefix = [],
        asset_patterns = []\<rparr>"
proof -
  have d: "py_object [(''type'', JStr ''github''), (''owner'', JStr ow), (''repo'', JStr rp)] =
      [(''type'', JStr ''github''), (''owner'', JStr ow), (''repo'', JStr rp)]"
    by (rule py_object_distinct) simp
  show ?thesis
    by (simp add: load_source_def as_dict_def d missing_source_keys_def get_req_def get_opt_def
        get_default_def json_str_def)
qed

end
