(* ===== verification/Pipeline.thy ===== *)
theory Pipeline
  imports Publisher Config Regex
begin

text \<open>
  The orchestrator of \<^verbatim>\<open>plugin_release.py\<close>: \<open>_download_asset\<close>,
  \<open>_archive_assets\<close> and \<open>main\<close>. The world of a run is the local file store and
  the GitHub service; what the run asks of its surroundings (the current git branch,
  the \<open>origin\<close> URL, the release listing of the upstream repository, the answers of
  download URLs and the failures of GitHub API calls) is an environment \<open>env\<close>.

  \<open>main\<close> returns an exit status (\<open>Inr c\<close>) or lets an exception escape (\<open>Inl e\<close>:
  the interpreter prints a traceback and exits with status 1). It catches
  \<open>ConfigurationError\<close> from the loader, \<open>PluginReleaseError\<close> from the branch
  check and the matcher, \<open>PluginReleaseError\<close> and \<open>GitHubAPIError\<close> from the
  resolver and the publish step, and nothing from the packaging pass, whose scratch
  directory \<open>.tmp/{name}-{version}\<close> is removed by a \<open>finally\<close> block.
\<close>

section \<open>Definitions\<close>

datatype fetch_result = Fetched blob | Http_error int | Url_error

text \<open>
  The environment of a run: the standard output of the two git commands (\<open>None\<close>
  when the command exits with an error), the listing \<open>GET repos/{owner}/{repo}/releases\<close>
  answers, what a download URL answers, and which GitHub calls fail with which status.
\<close>

record env =
  env_branch :: "string option"
  env_origin :: "string option"
  env_releases :: releases_api
  env_fetch :: "string \<Rightarrow> fetch_result"
  env_status :: "gh_call \<Rightarrow> int option"

record cli_args =
  arg_plugin :: string
  arg_config :: string
  arg_output_dir :: string
  arg_state_dir :: string
  arg_publish :: bool
  arg_force :: bool
  arg_ignore_branch :: bool

type_synonym world = "fs \<times> gh_service"

text \<open>A computation on the file store, run in the world.\<close>

definition on_files :: "(error, fs, 'a) exn_st \<Rightarrow> (error, world, 'a) exn_st" where
  "on_files m w = (let (r, fs') = m (fst w) in (r, fs', snd w))"

fun is_configuration_error :: "error \<Rightarrow> bool" where
  "is_configuration_error (Configuration_error _) = True"
| "is_configuration_error _ = False"

text \<open>
  \<open>_current_branch\<close>: the output of \<open>git rev-parse --abbrev-ref HEAD\<close> (\<open>None\<close>
  when the command fails), stripped; and \<open>_ensure_branch\<close>.
\<close>

definition current_branch :: "string option \<Rightarrow> string result" where
  "current_branch git_output = (case git_output of None \<Rightarrow> Inl Branch_unknown | Some out \<Rightarrow> Inr (py_strip out))"

definition ensure_branch :: "string option \<Rightarrow> string \<Rightarrow> unit result" where
  "ensure_branch git_output expected =
     sbind (current_branch git_output) (\<lambda>b. if b \<noteq> expected then Inl (Wrong_branch expected b) else Inr ())"

text \<open>\<open>_download_asset\<close>.\<close>

definition download_asset :: "(string \<Rightarrow> fetch_result) \<Rightarrow> asset \<Rightarrow> string \<Rightarrow> (error, fs, string) exn_st" where
  "download_asset fetch a destination =
     (case browser_download_url a of
        None \<Rightarrow> ethrow No_download_url
      | Some url \<Rightarrow>
          if url = [] then ethrow No_download_url
          else ebind (fs_mkdir (path_parent destination)) (\<lambda>_.
                 case fetch url of
                   Http_error code \<Rightarrow> ethrow (Download_failed url code)
                 | Url_error \<Rightarrow> ethrow (Network_error url)
                 | Fetched b \<Rightarrow> ebind (fs_write destination b) (\<lambda>_. ereturn destination)))"

text \<open>The loop of \<open>_archive_assets\<close> over the patterns, filling \<open>built_assets\<close>.\<close>

fun archive_loop ::
  "'re regex_engine \<Rightarrow> (string \<Rightarrow> fetch_result) \<Rightarrow> plugin_config \<Rightarrow> string \<Rightarrow> (string \<times> asset) list \<Rightarrow>
   string \<Rightarrow> string \<Rightarrow> string option \<Rightarrow> asset_pattern list \<Rightarrow> (string \<times> string) list \<Rightarrow>
   (error, fs, (string \<times> string) list) exn_st" where
  "archive_loop R fetch pc v matched temp_dir output_dir url [] built = ereturn built"
| "archive_loop R fetch pc v matched temp_dir output_dir url (p # ps) built =
     (case map_of matched (arch p) of
        None \<Rightarrow> ethrow (Key_error (arch p))
      | Some a \<Rightarrow>
          ebind (download_asset fetch a (path_div temp_dir (asset_name a))) (\<lambda>_.
          ebind (prepare_binary R (path_div temp_dir (asset_name a)) p temp_dir) (\<lambda>prepared.
          ebind (build output_dir pc p v prepared url) (\<lambda>archive_path.
          archive_loop R fetch pc v matched temp_dir output_dir url ps (dict_set built (arch p) archive_path)))))"

definition archive_assets ::
  "'re regex_engine \<Rightarrow> (string \<Rightarrow> fetch_result) \<Rightarrow> plugin_config \<Rightarrow> string \<Rightarrow> asset_pattern list \<Rightarrow>
   (string \<times> asset) list \<Rightarrow> string \<Rightarrow> string \<Rightarrow> string option \<Rightarrow> (error, fs, release_state) exn_st" where
  "archive_assets R fetch pc v patterns matched temp_dir output_dir url =
     ebind (package_builder_init output_dir) (\<lambda>_.
     ebind (archive_loop R fetch pc v matched temp_dir output_dir url patterns []) (\<lambda>built.
     ereturn \<lparr>plugin = name pc, version = v, assets = built\<rparr>))"

text \<open>
  The scratch directory of \<open>main\<close>: \<open>shutil.rmtree(temp_dir)\<close> when it exists
  (which raises when \<open>temp_dir\<close> is a file), then \<open>mkdir\<close>.
\<close>

definition temp_dir_of :: "plugin_config \<Rightarrow> string \<Rightarrow> string" where
  "temp_dir_of pc v = path_div ''.tmp'' (name pc @ ''-'' @ v)"

definition fresh_temp_dir :: "string \<Rightarrow> (error, fs, unit) exn_st" where
  "fresh_temp_dir d fs =
     (if fs_exists fs d then
        (if map_of fs d \<noteq> None then (Inl (OS_error d), fs) else fs_mkdir d (fs_rmtree d fs))
      else fs_mkdir d fs)"

text \<open>The packaging pass: \<open>_archive_assets\<close> inside \<open>try ... finally rmtree\<close>.\<close>

definition package_release ::
  "'re regex_engine \<Rightarrow> (string \<Rightarrow> fetch_result) \<Rightarrow> plugin_config \<Rightarrow> string \<Rightarrow> (string \<times> asset) list \<Rightarrow>
   string \<Rightarrow> string option \<Rightarrow> (error, fs, release_state) exn_st" where
  "package_release R fetch pc v matched output_dir url =
     (let d = temp_dir_of pc v
      in ebind (fresh_temp_dir d) (\<lambda>_ fs.
           (let (r, fs') = archive_assets R fetch pc v (asset_patterns (source pc)) matched d output_dir url fs
            in (r, fs_rmtree d fs'))))"

text \<open>The keyword arguments of the two \<open>str.format\<close> calls on the release templates.\<close>

definition release_kwargs :: "plugin_config \<Rightarrow> string \<Rightarrow> (string \<times> string) list" where
  "release_kwargs pc v = [(''name'', name pc), (''version'', v)]"

text \<open>The publish branch of \<open>main\<close>, after the state is saved.\<close>

definition publish_step :: "env \<Rightarrow> plugin_config \<Rightarrow> string \<Rightarrow> release_state \<Rightarrow> (error, world, int) exn_st" where
  "publish_step E pc v s w =
     (case origin_repo (env_origin E) of
        Inl e \<Rightarrow> (Inr 1, w)
      | Inr (ow, rp) \<Rightarrow>
          (let kw = release_kwargs pc v
           in case py_format kw (release_name_template pc) of
                Inl e \<Rightarrow> (Inl e, w)
              | Inr rname \<Rightarrow>
                  (case py_format kw (release_body_template pc) of
                     Inl e \<Rightarrow> (Inl e, w)
                   | Inr body \<Rightarrow>
                       (case upload_release (env_status E) ow rp pc s rname body (branch pc) w of
                          (Inl e, w') \<Rightarrow>
                            if is_plugin_release_error e \<or> is_github_api_error e then (Inr 1, w') else (Inl e, w')
                        | (Inr _, w') \<Rightarrow> (Inr 0, w')))))"

definition state_path_of :: "cli_args \<Rightarrow> plugin_config \<Rightarrow> string" where
  "state_path_of args pc = path_div (arg_state_dir args) (name pc @ ''.json'')"

text \<open>\<open>previous_state and previous_state.version == version\<close>.\<close>

definition already_processed :: "stored_state option \<Rightarrow> string \<Rightarrow> bool" where
  "already_processed prev v = (case prev of None \<Rightarrow> False | Some p \<Rightarrow> stored_version p = JStr v)"

text \<open>\<open>main\<close>, from the match of the assets on.\<close>

definition main_tail ::
  "'re regex_engine \<Rightarrow> env \<Rightarrow> cli_args \<Rightarrow> plugin_config \<Rightarrow> release \<Rightarrow> string \<Rightarrow> (error, world, int) exn_st" where
  "main_tail R E args pc rel v w =
     (case match_assets R (asset_patterns (source pc)) rel of
        Inl e \<Rightarrow> if is_plugin_release_error e then (Inr 1, w) else (Inl e, w)
      | Inr matched \<Rightarrow>
          ebind (on_files (package_release R (env_fetch E) pc v matched (arg_output_dir args) (html_url rel))) (\<lambda>s.
          ebind (on_files (save_state (state_path_of args pc) s)) (\<lambda>_.
          if arg_publish args then publish_step E pc v s else ereturn 0)) w)"

definition main ::
  "'re regex_engine \<Rightarrow> env \<Rightarrow> cli_args \<Rightarrow> (error, world, int) exn_st" where
  "main R E args w =
     (case load_plugins_config (arg_config args) (fst w) of
        Inl e \<Rightarrow> if is_configuration_error e then (Inr 1, w) else (Inl e, w)
      | Inr config \<Rightarrow>
          (case map_of config (arg_plugin args) of
             None \<Rightarrow> (Inr 1, w)
           | Some pc \<Rightarrow>
               if \<not> arg_ignore_branch args \<and> ensure_branch (env_branch E) (branch pc) \<noteq> Inr () then (Inr 1, w)
               else
                 (case latest_release (env_releases E) pc of
                    Inl e \<Rightarrow> if is_plugin_release_error e \<or> is_github_api_error e then (Inr 1, w) else (Inl e, w)
                  | Inr (rel, v) \<Rightarrow>
                      (case load_state (state_path_of args pc) (fst w) of
                         Inl e \<Rightarrow> (Inl e, w)
                       | Inr prev \<Rightarrow>
                           if already_processed prev v \<and> \<not> arg_force args then (Inr 0, w)
                           else main_tail R E args pc rel v w))))"

subsection \<open>The end-to-end scenario of the spec\<close>

text \<open>
  Plugin \<open>foo\<close> on branch \<open>main\<close> with one pattern \<open>x64\<close> /
  \<open>linux-x64\.tar\.gz$\<close>; upstream \<open>acme/foo\<close> has one release \<open>v2.1.0\<close>
  on \<open>main\<close> whose asset downloads as a tar archive holding \<open>foo-bin\<close>.
\<close>

definition e2e_pattern :: string where
  "e2e_pattern = ''linux-x64'' @ [CHR 0x5C] @ ''.tar'' @ [CHR 0x5C] @ ''.gz$''"

definition e2e_config :: json where
  "e2e_config = JObj [(''plugins'', JArr [JObj
     [(''name'', JStr ''foo''), (''branch'', JStr ''main''),
      (''source'', JObj [(''type'', JStr ''github''), (''owner'', JStr ''acme''), (''repo'', JStr ''foo''),
                        (''release_branch'', JStr ''main''), (''tag_prefix'', JStr ''v''),
                        (''asset_patterns'', JArr [JObj [(''arch'', JStr ''x64''), (''pattern'', JStr e2e_pattern)]])])]])]"

definition e2e_asset :: asset where
  "e2e_asset = \<lparr>asset_name = ''foo-linux-x64.tar.gz'',
                browser_download_url = Some ''https://example.org/foo-linux-x64.tar.gz''\<rparr>"

definition e2e_release :: release where
  "e2e_release = \<lparr>tag_name = ''v2.1.0'', target_commitish = Some ''main'', draft = False, prerelease = False,
                  release_assets = [e2e_asset], html_url = Some ''https://github.com/acme/foo/releases/v2.1.0''\<rparr>"

definition e2e_env :: env where
  "e2e_env = \<lparr>env_branch = Some (''main'' @ [CHR 0x0A]), env_origin = Some (''git@github.com:me/plugins.git'' @ [CHR 0x0A]),
              env_releases = (\<lambda>ow rp. Inr (Some [e2e_release])),
              env_fetch = (\<lambda>u. Fetched (Tar_file [(''foo-bin'', Tar_regular, Bytes ''ELF'')])),
              env_status = (\<lambda>c. None)\<rparr>"

definition e2e_args :: cli_args where
  "e2e_args = \<lparr>arg_plugin = ''foo'', arg_config = ''data/plugins.json'', arg_output_dir = ''dist'',
               arg_state_dir = ''state'', arg_publish = False, arg_force = False, arg_ignore_branch = False\<rparr>"

definition e2e_world :: world where
  "e2e_world = ([(''data/plugins.json'', Json_doc e2e_config)], [])"

definition e2e_package :: blob where
  "e2e_package = Zip_file
     [(''bin/foo-bin'', Bytes ''ELF''),
      (''plugin.json'', Json_doc (JObj [(''name'', JStr ''foo''), (''version'', JStr ''2.1.0''),
         (''arch'', JStr ''x64''), (''description'', JStr []),
         (''source_release'', JStr ''https://github.com/acme/foo/releases/v2.1.0'')]))]"

definition e2e_state :: release_state where
  "e2e_state = \<lparr>plugin = ''foo'', version = ''2.1.0'', assets = [(''x64'', ''dist/foo-2.1.0-x64.mxt64'')]\<rparr>"

definition e2e_world_after :: world where
  "e2e_world_after =
     ([(''data/plugins.json'', Json_doc e2e_config), (''dist/foo-2.1.0-x64.mxt64'', e2e_package),
       (''state/foo.json'', Json_doc (state_json e2e_state))], [])"

definition e2e_plugin :: plugin_config where
  "e2e_plugin =
     \<lparr>name = ''foo'', branch = ''main'',
      source = \<lparr>source_type = ''github'', owner = ''acme'', repo = ''foo'', release_branch = Some ''main'',
                tag_prefix = ''v'',
                asset_patterns = [\<lparr>arch = ''x64'', pattern = e2e_pattern, rename_to = None, archive_member = None\<rparr>]\<rparr>,
      release_name_template = default_release_name, release_body_template = default_release_body,
      plugin_description = [], binary_subdir = ''bin''\<rparr>"

text \<open>The package path of each architecture of the patterns, as \<open>PackageBuilder.build\<close> names it.\<close>

definition package_paths :: "string \<Rightarrow> plugin_config \<Rightarrow> string \<Rightarrow> asset_pattern list \<Rightarrow> (string \<times> string) list" where
  "package_paths out pc v ps = map (\<lambda>p. (arch p, path_div out (resolve_archive_name pc v (arch p)))) ps"

text \<open>The scenario with \<open>--publish\<close>, and an environment in which creating a release fails.\<close>

definition e2e_publish_args :: cli_args where
  "e2e_publish_args = e2e_args\<lparr>arg_publish := True\<rparr>"

definition e2e_env_create_fails :: env where
  "e2e_env_create_fails = e2e_env\<lparr>env_status := (\<lambda>c. case c of Create_release_call _ \<Rightarrow> Some 500 | _ \<Rightarrow> None)\<rparr>"

section \<open>Lemmas\<close>



lemma on_files_apply: "on_files m (fs, gh) = (fst (m fs), snd (m fs), gh)"
  by (simp add: on_files_def split_def Let_def)

lemma publish_step_files: "publish_step E pc v s w = (r, w') \<Longrightarrow> fst w' = fst w"
  by (auto simp: publish_step_def Let_def split: sum.splits prod.splits if_splits
      dest: upload_release_files)

lemma archive_assets_Inr:
  "archive_assets R fetch pc v ps matched d out url fs = (Inr s, fs') \<Longrightarrow> version s = v \<and> plugin s = name pc"
  by (auto simp: archive_assets_def ebind_def split: prod.splits sum.splits)

lemma package_release_Inr:
  "package_release R fetch pc v matched out url fs = (Inr s, fs') \<Longrightarrow> version s = v \<and> plugin s = name pc"
  by (auto simp: package_release_def ebind_def Let_def split: prod.splits sum.splits dest: archive_assets_Inr)

lemma main_tail_exit0:
  assumes "main_tail R E args pc rel v w = (Inr 0, w')"
  shows "\<exists>s. version s = v \<and> map_of (fst w') (state_path_of args pc) = Some (Json_doc (state_json s))"
proof (cases "match_assets R (asset_patterns (source pc)) rel")
  case (Inl e)
  with assms show ?thesis by (simp add: main_tail_def split: if_splits)
next
  case (Inr matched)
  obtain fs gh where w: "w = (fs, gh)" by (cases w)
  obtain r1 fs1 where pk: "package_release R (env_fetch E) pc v matched (arg_output_dir args) (html_url rel) fs = (r1, fs1)"
    by (cases "package_release R (env_fetch E) pc v matched (arg_output_dir args) (html_url rel) fs")
  show ?thesis
  proof (cases r1)
    case (Inl e)
    with assms Inr w pk show ?thesis by (simp add: main_tail_def on_files_apply ebind_def)
  next
    case (Inr s)
    with pk have sv: "version s = v" by (blast dest: package_release_Inr)
    obtain r2 fs2 where sv2: "save_state (state_path_of args pc) s fs1 = (r2, fs2)"
      by (cases "save_state (state_path_of args pc) s fs1")
    show ?thesis
    proof (cases r2)
      case (Inl e)
      with assms \<open>r1 = Inr s\<close> \<open>match_assets R (asset_patterns (source pc)) rel = Inr matched\<close> w pk sv2
      show ?thesis by (simp add: main_tail_def on_files_apply ebind_def)
    next
      case (Inr u)
      with sv2 have fs2: "fs2 = AList.update (state_path_of args pc) (Json_doc (state_json s)) fs1"
        by (cases u) (simp add: save_state_Inr)
      from assms \<open>r1 = Inr s\<close> \<open>match_assets R (asset_patterns (source pc)) rel = Inr matched\<close> w pk sv2 Inr
      have "(if arg_publish args then publish_step E pc v s else ereturn 0) (fs2, gh) = (Inr 0, w')"
        by (simp add: main_tail_def on_files_apply ebind_def)
      then have "fst w' = fs2"
        by (auto split: if_splits dest: publish_step_files)
      with fs2 sv show ?thesis by (auto simp: update_conv')
    qed
  qed
qed

lemma main_skip:
  assumes "load_plugins_config (arg_config args) (fst w) = Inr config"
    and "map_of config (arg_plugin args) = Some pc"
    and "arg_ignore_branch args \<or> ensure_branch (env_branch E) (branch pc) = Inr ()"
    and "latest_release (env_releases E) pc = Inr (rel, v)"
    and "load_state (state_path_of args pc) (fst w) = Inr prev"
    and "already_processed prev v" and "\<not> arg_force args"
  shows "main R E args w = (Inr 0, w)"
  using assms by (auto simp: main_def)

lemma main_exit0_cases:
  assumes "main R E args w = (Inr 0, w')"
  obtains config pc rel v prev where
    "load_plugins_config (arg_config args) (fst w) = Inr config"
    "map_of config (arg_plugin args) = Some pc"
    "arg_ignore_branch args \<or> ensure_branch (env_branch E) (branch pc) = Inr ()"
    "latest_release (env_releases E) pc = Inr (rel, v)"
    "load_state (state_path_of args pc) (fst w) = Inr prev"
    "(already_processed prev v \<and> \<not> arg_force args \<and> w' = w) \<or> main_tail R E args pc rel v w = (Inr 0, w')"
  using assms
  by (auto simp: main_def split: sum.splits option.splits if_splits prod.splits)

lemma fresh_temp_dir_Inl:
  "fresh_temp_dir d fs = (Inl e, fs') \<Longrightarrow> map_of fs d = None \<Longrightarrow> \<not> fs_exists fs' d"
  by (auto simp: fresh_temp_dir_def fs_rmtree_not_exists split: if_splits dest: fs_mkdir_state)

lemma build_Inr_path:
  "build out pc p v b url fs = (Inr ap, fs') \<Longrightarrow> ap = path_div out (resolve_archive_name pc v (arch p))"
  by (auto simp: build_def Let_def ebind_Inr_iff)

lemma archive_loop_Inr:
  assumes "distinct (map arch ps)" and "set (map arch ps) \<inter> set (map fst built) = {}"
    and "archive_loop R fetch pc v matched d out url ps built fs = (Inr built', fs')"
  shows "built' = built @ package_paths out pc v ps"
  using assms
proof (induction ps arbitrary: built fs)
  case Nil
  then show ?case by (simp add: package_paths_def)
next
  case (Cons p ps)
  from Cons.prems(3) obtain a where a: "map_of matched (arch p) = Some a"
    by (cases "map_of matched (arch p)") simp_all
  with Cons.prems(3) obtain fs1 fs2 b ap fs3 where
    "build out pc p v b url fs2 = (Inr ap, fs3)"
    and rest: "archive_loop R fetch pc v matched d out url ps (dict_set built (arch p) ap) fs3 = (Inr built', fs')"
    by (auto simp: ebind_Inr_iff)
  then have ap: "ap = path_div out (resolve_archive_name pc v (arch p))" by (blast dest: build_Inr_path)
  have new: "dict_set built (arch p) ap = built @ [(arch p, ap)]"
    using Cons.prems(2) by (intro update_new_key) auto
  have "built' = (built @ [(arch p, ap)]) @ package_paths out pc v ps"
    using Cons.prems(1,2) rest new by (intro Cons.IH) auto
  with ap show ?case by (simp add: package_paths_def)
qed

lemma publish_step_exit: "publish_step E pc v s w = (Inr c, w') \<Longrightarrow> c = 0 \<or> c = 1"
  by (auto simp: publish_step_def Let_def split: sum.splits prod.splits if_splits)

lemma main_tail_exit: "main_tail R E args pc rel v w = (Inr c, w') \<Longrightarrow> c = 0 \<or> c = 1"
  by (auto simp: main_tail_def ebind_Inr_iff split: sum.splits if_splits prod.splits dest: publish_step_exit)

lemma main_exit0_stable:
  assumes "main R E args w = (Inr 0, w')" and "\<not> arg_force args"
    and "map_of (fst w') (arg_config args) = map_of (fst w) (arg_config args)"
  shows "main R E args w' = (Inr 0, w')"
proof -
  obtain config pc rel v prev where
    cfg: "load_plugins_config (arg_config args) (fst w) = Inr config" and
    pc: "map_of config (arg_plugin args) = Some pc" and
    br: "arg_ignore_branch args \<or> ensure_branch (env_branch E) (branch pc) = Inr ()" and
    rl: "latest_release (env_releases E) pc = Inr (rel, v)" and
    ld: "load_state (state_path_of args pc) (fst w) = Inr prev" and
    run: "(already_processed prev v \<and> \<not> arg_force args \<and> w' = w) \<or> main_tail R E args pc rel v w = (Inr 0, w')"
    using assms(1) by (rule main_exit0_cases)
  have cfg': "load_plugins_config (arg_config args) (fst w') = Inr config"
    using load_plugins_config_frame [OF assms(3) load_plugins_config_Inr_file [OF cfg]] cfg by simp
  from run show ?thesis
  proof
    assume "already_processed prev v \<and> \<not> arg_force args \<and> w' = w"
    with cfg pc br rl ld show ?thesis by (auto intro: main_skip)
  next
    assume "main_tail R E args pc rel v w = (Inr 0, w')"
    then obtain s where "version s = v"
      and "map_of (fst w') (state_path_of args pc) = Some (Json_doc (state_json s))"
      by (blast dest: main_tail_exit0)
    then obtain st where "load_state (state_path_of args pc) (fst w') = Inr (Some st)"
      and "stored_version st = JStr v"
      by (blast dest: load_state_saved_version)
    then show ?thesis
      using main_skip [OF cfg' pc br rl, where prev = "Some st" and R = R] assms(2)
      by (simp add: already_processed_def)
  qed
qed

lemma main_tail_publish:
  "fst (snd (main_tail R E (args\<lparr>arg_publish := True\<rparr>) pc rel v w)) =
     fst (snd (main_tail R E (args\<lparr>arg_publish := False\<rparr>) pc rel v w)) \<and>
   (main_tail R E (args\<lparr>arg_publish := True\<rparr>) pc rel v w = main_tail R E (args\<lparr>arg_publish := False\<rparr>) pc rel v w \<or>
    fst (main_tail R E (args\<lparr>arg_publish := False\<rparr>) pc rel v w) = Inr 0)"
proof (cases "match_assets R (asset_patterns (source pc)) rel")
  case (Inl e)
  then show ?thesis by (simp add: main_tail_def)
next
  case (Inr matched)
  obtain fs gh where w: "w = (fs, gh)" by (cases w)
  obtain r1 fs1 where pk: "package_release R (env_fetch E) pc v matched (arg_output_dir args) (html_url rel) fs = (r1, fs1)"
    by (cases "package_release R (env_fetch E) pc v matched (arg_output_dir args) (html_url rel) fs")
  show ?thesis
  proof (cases r1)
    case (Inl e)
    with Inr w pk show ?thesis by (simp add: main_tail_def on_files_apply ebind_def state_path_of_def)
  next
    case (Inr s)
    obtain r2 fs2 where sv: "save_state (state_path_of args pc) s fs1 = (r2, fs2)"
      by (cases "save_state (state_path_of args pc) s fs1")
    obtain r3 w3 where ps: "publish_step E pc v s (fs2, gh) = (r3, w3)" by (cases "publish_step E pc v s (fs2, gh)")
    then have "fst w3 = fs2" by (auto dest: publish_step_files)
    with \<open>r1 = Inr s\<close> \<open>match_assets R (asset_patterns (source pc)) rel = Inr matched\<close> w pk sv ps
    show ?thesis by (cases r2) (auto simp: main_tail_def on_files_apply ebind_def state_path_of_def)
  qed
qed

section \<open>Properties\<close>

text \<open>
  C1 (functional, postcondition): every run of main that exits 0 ends with the state file of the
  plugin recording the version that _latest_release resolved from the listing, whether the run
  packaged it or skipped it as already processed: exit status 0 means the latest eligible
  upstream version is the processed one.
\<close>

theorem main_exit0_records_version:
  assumes "main R E args w = (Inr 0, w')"
  shows "\<exists>config pc rel v st. load_plugins_config (arg_config args) (fst w) = Inr config \<and>
    map_of config (arg_plugin args) = Some pc \<and> latest_release (env_releases E) pc = Inr (rel, v) \<and>
    load_state (state_path_of args pc) (fst w') = Inr (Some st) \<and> stored_version st = JStr v"
proof -
  obtain config pc rel v prev where
    cfg: "load_plugins_config (arg_config args) (fst w) = Inr config" and
    pc: "map_of config (arg_plugin args) = Some pc" and
    rl: "latest_release (env_releases E) pc = Inr (rel, v)" and
    ld: "load_state (state_path_of args pc) (fst w) = Inr prev" and
    run: "(already_processed prev v \<and> \<not> arg_force args \<and> w' = w) \<or> main_tail R E args pc rel v w = (Inr 0, w')"
    using assms by (rule main_exit0_cases)
  from run obtain st where "load_state (state_path_of args pc) (fst w') = Inr (Some st)" "stored_version st = JStr v"
  proof
    assume "already_processed prev v \<and> \<not> arg_force args \<and> w' = w"
    with ld that show ?thesis by (cases prev) (auto simp: already_processed_def)
  next
    assume "main_tail R E args pc rel v w = (Inr 0, w')"
    then obtain s where "version s = v"
      and "map_of (fst w') (state_path_of args pc) = Some (Json_doc (state_json s))"
      by (blast dest: main_tail_exit0)
    with that show ?thesis by (blast dest: load_state_saved_version)
  qed
  with cfg pc rl show ?thesis by blast
qed

theorem main_exit0_records_version_witness:
  "main fragment_engine e2e_env e2e_args e2e_world = (Inr 0, e2e_world_after) \<and>
   (\<exists>config pc rel v st. load_plugins_config (arg_config e2e_args) (fst e2e_world) = Inr config \<and>
    map_of config (arg_plugin e2e_args) = Some pc \<and> latest_release (env_releases e2e_env) pc = Inr (rel, v) \<and>
    load_state (state_path_of e2e_args pc) (fst e2e_world_after) = Inr (Some st) \<and> stored_version st = JStr v)"
proof -
  have run: "main fragment_engine e2e_env e2e_args e2e_world = (Inr 0, e2e_world_after)" by code_simp
  show ?thesis using main_exit0_records_version [OF run] run by simp
qed


text \<open>
  C2 (invariant, idempotence): a run that exits 0 without force, and did not overwrite its own configuration file, leaves a world in which the same run (same environment, same arguments) again exits 0 and changes nothing: no packaging, no state write, no publish.
\<close>

theorem main_idempotent:
  assumes "main R E args w = (Inr 0, w')" and "\<not> arg_force args"
    and "map_of (fst w') (arg_config args) = map_of (fst w) (arg_config args)"
  shows "main R E args w' = (Inr 0, w')"
  using assms by (rule main_exit0_stable)

theorem main_idempotent_witness:
  "main fragment_engine e2e_env e2e_args e2e_world = (Inr 0, e2e_world_after) \<and> \<not> arg_force e2e_args \<and>
   map_of (fst e2e_world_after) (arg_config e2e_args) = map_of (fst e2e_world) (arg_config e2e_args) \<and>
   main fragment_engine e2e_env e2e_args e2e_world_after = (Inr 0, e2e_world_after)"
proof -
  have run: "main fragment_engine e2e_env e2e_args e2e_world = (Inr 0, e2e_world_after)" by code_simp
  have nf: "\<not> arg_force e2e_args" by (simp add: e2e_args_def)
  have cf: "map_of (fst e2e_world_after) (arg_config e2e_args) = map_of (fst e2e_world) (arg_config e2e_args)"
    by (simp add: e2e_world_after_def e2e_world_def e2e_args_def)
  show ?thesis using main_idempotent [OF run nf cf] run nf cf by simp
qed

text \<open>
  C3 (safety, cleanup): the packaging pass removes its scratch directory .tmp/{name}-{version} on every exit path, whether the download, extraction or build fails or succeeds, provided that path is not a regular file (then rmtree raises before the try block).
\<close>

theorem package_release_cleanup:
  assumes "map_of fs (temp_dir_of pc v) = None"
    and "package_release R fetch pc v matched out url fs = (r, fs')"
  shows "\<not> fs_exists fs' (temp_dir_of pc v)"
proof -
  obtain r0 fs0 where t: "fresh_temp_dir (temp_dir_of pc v) fs = (r0, fs0)"
    by (cases "fresh_temp_dir (temp_dir_of pc v) fs")
  show ?thesis
  proof (cases r0)
    case (Inl e)
    with t assms(2) have "fs' = fs0" by (simp add: package_release_def ebind_def Let_def)
    with Inl t assms(1) show ?thesis by (blast dest: fresh_temp_dir_Inl)
  next
    case (Inr u)
    with t assms(2) obtain fs1 where "fs' = fs_rmtree (temp_dir_of pc v) fs1"
      by (auto simp: package_release_def ebind_def Let_def split: prod.splits)
    then show ?thesis by (simp add: fs_rmtree_not_exists)
  qed
qed

theorem package_release_cleanup_witness:
  "map_of [(''.tmp/foo-2.1.0/stale'', Bytes ''old'')] (temp_dir_of e2e_plugin ''2.1.0'') = None \<and>
   package_release fragment_engine (\<lambda>u. Http_error 404) e2e_plugin ''2.1.0'' [(''x64'', e2e_asset)] ''dist'' None
     [(''.tmp/foo-2.1.0/stale'', Bytes ''old'')]
   = (Inl (Download_failed ''https://example.org/foo-linux-x64.tar.gz'' 404), []) \<and>
   \<not> fs_exists [] (temp_dir_of e2e_plugin ''2.1.0'')"
proof -
  have t: "map_of [(''.tmp/foo-2.1.0/stale'', Bytes ''old'')] (temp_dir_of e2e_plugin ''2.1.0'') = None"
    by code_simp
  have p: "package_release fragment_engine (\<lambda>u. Http_error 404) e2e_plugin ''2.1.0'' [(''x64'', e2e_asset)] ''dist'' None
     [(''.tmp/foo-2.1.0/stale'', Bytes ''old'')]
   = (Inl (Download_failed ''https://example.org/foo-linux-x64.tar.gz'' 404), [])"
    by code_simp
  show ?thesis using package_release_cleanup [OF t p] t p by simp
qed

text \<open>
  C9 (error): an exception of the packaging pass, a PluginReleaseError such as a failed download included, is not caught by main: it escapes with the files as the pass left them, no state written and nothing published.
\<close>

theorem main_packaging_error_uncaught:
  assumes "load_plugins_config (arg_config args) (fst w) = Inr config"
    and "map_of config (arg_plugin args) = Some pc"
    and "arg_ignore_branch args \<or> ensure_branch (env_branch E) (branch pc) = Inr ()"
    and "latest_release (env_releases E) pc = Inr (rel, v)"
    and "load_state (state_path_of args pc) (fst w) = Inr prev"
    and "\<not> (already_processed prev v \<and> \<not> arg_force args)"
    and "match_assets R (asset_patterns (source pc)) rel = Inr matched"
    and "package_release R (env_fetch E) pc v matched (arg_output_dir args) (html_url rel) (fst w) = (Inl e, fs')"
  shows "main R E args w = (Inl e, fs', snd w)"
  using assms by (cases w) (simp add: main_def main_tail_def on_files_apply ebind_def)

theorem main_packaging_error_uncaught_witness:
  "main fragment_engine (e2e_env\<lparr>env_fetch := \<lambda>u. Http_error 404\<rparr>) e2e_args e2e_world
     = (Inl (Download_failed ''https://example.org/foo-linux-x64.tar.gz'' 404), fst e2e_world, []) \<and>
   is_plugin_release_error (Download_failed ''https://example.org/foo-linux-x64.tar.gz'' 404)"
proof -
  let ?E = "e2e_env\<lparr>env_fetch := \<lambda>u. Http_error 404\<rparr>"
  have c: "load_plugins_config (arg_config e2e_args) (fst e2e_world) = Inr [(''foo'', e2e_plugin)]" by code_simp
  have p: "map_of [(''foo'', e2e_plugin)] (arg_plugin e2e_args) = Some e2e_plugin" by code_simp
  have b: "arg_ignore_branch e2e_args \<or> ensure_branch (env_branch ?E) (branch e2e_plugin) = Inr ()" by code_simp
  have r: "latest_release (env_releases ?E) e2e_plugin = Inr (e2e_release, ''2.1.0'')" by code_simp
  have l: "load_state (state_path_of e2e_args e2e_plugin) (fst e2e_world) = Inr None" by code_simp
  have n: "\<not> (already_processed None ''2.1.0'' \<and> \<not> arg_force e2e_args)" by code_simp
  have m: "match_assets fragment_engine (asset_patterns (source e2e_plugin)) e2e_release = Inr [(''x64'', e2e_asset)]"
    by code_simp
  have k: "package_release fragment_engine (env_fetch ?E) e2e_plugin ''2.1.0'' [(''x64'', e2e_asset)]
      (arg_output_dir e2e_args) (html_url e2e_release) (fst e2e_world)
    = (Inl (Download_failed ''https://example.org/foo-linux-x64.tar.gz'' 404), fst e2e_world)"
    by code_simp
  show ?thesis using main_packaging_error_uncaught [OF c p b r l n m k] by (simp add: e2e_world_def)
qed

text \<open>
  C33 (type): with distinct architectures, a successful _archive_assets returns the ReleaseState of the plugin name and version whose assets map each configured architecture, in the order of the patterns, to the path of its package under the output directory.
\<close>

theorem archive_assets_state:
  assumes "distinct (map arch ps)"
    and "archive_assets R fetch pc v ps matched d out url fs = (Inr s, fs')"
  shows "s = \<lparr>plugin = name pc, version = v, assets = package_paths out pc v ps\<rparr>"
proof -
  from assms(2) obtain built fs1 where
    loop: "archive_loop R fetch pc v matched d out url ps [] fs1 = (Inr built, fs')"
    and s: "s = \<lparr>plugin = name pc, version = v, assets = built\<rparr>"
    by (auto simp: archive_assets_def ebind_Inr_iff)
  have "built = [] @ package_paths out pc v ps"
    using loop by (intro archive_loop_Inr [OF assms(1)]) simp_all
  with s show ?thesis by simp
qed

theorem archive_assets_state_witness:
  "distinct (map arch (asset_patterns (source e2e_plugin))) \<and>
   archive_assets fragment_engine (\<lambda>u. Fetched (Bytes ''ELF'')) e2e_plugin ''2.1.0'' (asset_patterns (source e2e_plugin))
     [(''x64'', e2e_asset)] ''.tmp/foo-2.1.0'' ''dist'' None [] =
   (Inr \<lparr>plugin = ''foo'', version = ''2.1.0'', assets = [(''x64'', ''dist/foo-2.1.0-x64.mxt64'')]\<rparr>,
    snd (archive_assets fragment_engine (\<lambda>u. Fetched (Bytes ''ELF'')) e2e_plugin ''2.1.0''
      (asset_patterns (source e2e_plugin)) [(''x64'', e2e_asset)] ''.tmp/foo-2.1.0'' ''dist'' None []))"
proof -
  have d: "distinct (map arch (asset_patterns (source e2e_plugin)))" by (simp add: e2e_plugin_def)
  have r: "archive_assets fragment_engine (\<lambda>u. Fetched (Bytes ''ELF'')) e2e_plugin ''2.1.0'' (asset_patterns (source e2e_plugin))
     [(''x64'', e2e_asset)] ''.tmp/foo-2.1.0'' ''dist'' None [] =
   (Inr \<lparr>plugin = ''foo'', version = ''2.1.0'', assets = [(''x64'', ''dist/foo-2.1.0-x64.mxt64'')]\<rparr>,
    snd (archive_assets fragment_engine (\<lambda>u. Fetched (Bytes ''ELF'')) e2e_plugin ''2.1.0''
      (asset_patterns (source e2e_plugin)) [(''x64'', e2e_asset)] ''.tmp/foo-2.1.0'' ''dist'' None []))"
    by code_simp
  have "\<lparr>plugin = ''foo'', version = ''2.1.0'', assets = [(''x64'', ''dist/foo-2.1.0-x64.mxt64'')]\<rparr> =
      \<lparr>plugin = name e2e_plugin, version = ''2.1.0'', assets = package_paths ''dist'' e2e_plugin ''2.1.0'' (asset_patterns (source e2e_plugin))\<rparr>"
    by (rule archive_assets_state [OF d r])
  with d r show ?thesis by simp
qed

text \<open>
  When main returns, its exit status is 0 or 1.
\<close>

theorem main_exit_status: "main R E args w = (Inr c, w') \<Longrightarrow> c = 0 \<or> c = 1"
  by (auto simp: main_def split: sum.splits option.splits if_splits prod.splits dest: main_tail_exit)

theorem main_exit_status_witness:
  "main fragment_engine e2e_env_create_fails e2e_publish_args e2e_world =
     (Inr 1, snd (main fragment_engine e2e_env_create_fails e2e_publish_args e2e_world)) \<and> ((1::int) = 0 \<or> (1::int) = 1)"
proof -
  have r: "main fragment_engine e2e_env_create_fails e2e_publish_args e2e_world =
     (Inr 1, snd (main fragment_engine e2e_env_create_fails e2e_publish_args e2e_world))" by code_simp
  show ?thesis using main_exit_status [OF r] r by simp
qed

text \<open>
  C34 (functional, relational): --publish only adds the publish step after the state is saved.
  For every world, environment and command line, the run with --publish leaves the same files
  as the run without it; and the two runs have the same outcome and the same GitHub service
  unless the run without --publish exits 0, so a failed publish (exit 1, or an exception of
  the template formatting) happens after the packages and the state were written.
\<close>

theorem main_publish_only_adds:
  "fst (snd (main R E (args\<lparr>arg_publish := True\<rparr>) w)) = fst (snd (main R E (args\<lparr>arg_publish := False\<rparr>) w)) \<and>
   (main R E (args\<lparr>arg_publish := True\<rparr>) w = main R E (args\<lparr>arg_publish := False\<rparr>) w \<or>
    fst (main R E (args\<lparr>arg_publish := False\<rparr>) w) = Inr 0)"
  by (simp add: main_def main_tail_publish state_path_of_def split: sum.split option.split prod.split)

text \<open>
  C24 (functional, error): the release name and body are formatted with the keywords
  name = plugin name and version = resolved version: placeholders {name} and {version}, in
  either order and between any brace-free text, are replaced by them, and any other placeholder
  raises a format error.
\<close>

theorem release_kwargs_format:
  assumes "CHR ''{'' \<notin> set (pre @ mid @ post)" and "CHR ''}'' \<notin> set (pre @ mid @ post)"
    and "\<not> list_ex (\<lambda>c. c \<in> set ''{}[.!:'') f" and "f \<notin> {''name'', ''version''}"
  shows "py_format (release_kwargs pc v) (pre @ ''{name}'' @ mid @ ''{version}'' @ post) = Inr (pre @ name pc @ mid @ v @ post) \<and>
    py_format (release_kwargs pc v) (pre @ ''{version}'' @ mid @ ''{name}'' @ post) = Inr (pre @ v @ mid @ name pc @ post) \<and>
    py_format (release_kwargs pc v) (pre @ CHR ''{'' # f @ CHR ''}'' # mid) = Inl (Format_error f)"
proof -
  let ?kw = "release_kwargs pc v"
  have pre: "py_format ?kw (pre @ rest) = map_sum id ((@) pre) (py_format ?kw rest)" for rest
    using assms(1,2) by (intro py_format_text) auto
  have mid: "py_format ?kw (mid @ rest) = map_sum id ((@) mid) (py_format ?kw rest)" for rest
    using assms(1,2) by (intro py_format_text) auto
  have post: "py_format ?kw post = Inr post"
    using assms(1,2) py_format_text [of post ?kw "[]"] by (simp add: py_format.simps(1))
  have n: "py_format ?kw (CHR ''{'' # ''name'' @ CHR ''}'' # rest) = map_sum id ((@) (name pc)) (py_format ?kw rest)" for rest
    by (rule py_format_known_field) (simp_all add: release_kwargs_def)
  have v: "py_format ?kw (CHR ''{'' # ''version'' @ CHR ''}'' # rest) = map_sum id ((@) v) (py_format ?kw rest)" for rest
    by (rule py_format_known_field) (simp_all add: release_kwargs_def)
  have f: "py_format ?kw (CHR ''{'' # f @ CHR ''}'' # mid) = Inl (Format_error f)"
  proof (rule py_format_unknown_field)
    show "map_of ?kw f = None" using assms(4) by (simp add: release_kwargs_def)
    show "CHR ''}'' \<notin> set f" using assms(3) by (auto simp: list_ex_iff)
    show "f = [] \<or> hd f \<noteq> CHR ''{''" using assms(3) by (cases f) auto
  qed
  have nm: "''{name}'' @ rest = CHR ''{'' # ''name'' @ CHR ''}'' # rest"
    and vn: "''{version}'' @ rest = CHR ''{'' # ''version'' @ CHR ''}'' # rest" for rest
    by simp_all
  show ?thesis
    by (simp only: nm vn pre n mid v post f map_sum.simps id_apply append_assoc)
qed

theorem release_kwargs_format_witness:
  "CHR ''{'' \<notin> set ([] @ '' '' @ []) \<and> CHR ''}'' \<notin> set ([] @ '' '' @ []) \<and>
   \<not> list_ex (\<lambda>c. c \<in> set ''{}[.!:'') ''tag'' \<and> ''tag'' \<notin> {''name'', ''version''} \<and>
   py_format (release_kwargs e2e_plugin ''2.1.0'') default_release_name = Inr ''foo 2.1.0'' \<and>
   py_format (release_kwargs e2e_plugin ''2.1.0'') ''{tag} '' = Inl (Format_error ''tag'')"
proof -
  have nm: "name e2e_plugin = ''foo''" by (simp add: e2e_plugin_def)
  show ?thesis
    using release_kwargs_format [where pre = "[]" and mid = "'' ''" and post = "[]" and f = "''tag''"
        and pc = e2e_plugin and v = "''2.1.0''"] nm
    by (simp add: default_release_name_def)
qed

end
