(* ===== verification/Reruns.thy ===== *)
theory Reruns
  imports Pipeline
begin

text \<open>
  Reruns of \<^verbatim>\<open>plugin_release.py\<close>. The spec makes the rerun the retry mechanism:
  no call is retried inside a run, and a run that fails is run again later. A
  schedule is a list of environments, one per invocation of \<open>main\<close> with the same
  command line; each run starts from the world the previous one left. The lemmas show
  that reruns eventually process a version after outages of the release listing, and
  that without \<open>--publish\<close> no run and no schedule changes the GitHub service.
\<close>

section \<open>Definitions\<close>

fun run_seq :: "'re regex_engine \<Rightarrow> cli_args \<Rightarrow> env list \<Rightarrow> world \<Rightarrow> (error + int) list \<times> world" where
  "run_seq R args [] w = ([], w)"
| "run_seq R args (E # Es) w =
     (let (r, w') = main R E args w; (rs, w'') = run_seq R args Es w' in (r # rs, w''))"

text \<open>The environment \<open>E\<close> during an outage of the release listing with status \<open>c\<close>.\<close>

definition listing_down :: "env \<Rightarrow> int \<Rightarrow> env" where
  "listing_down E c = E\<lparr>env_releases := (\<lambda>ow rp. Inl (GitHub_api_error c))\<rparr>"

section \<open>Lemmas\<close>

lemma run_seq_append:
  "run_seq R args (Es @ Fs) w =
     (let (rs, w') = run_seq R args Es w; (qs, w'') = run_seq R args Fs w' in (rs @ qs, w''))"
  by (induction Es arbitrary: w) (auto simp: Let_def split: prod.splits)

text \<open>A run during an outage of the listing exits 1 and changes nothing.\<close>

lemma main_listing_down:
  assumes "main R E args w = (Inr 0, w')"
  shows "main R (listing_down E c) args w = (Inr 1, w)"
proof -
  obtain config pc rel v prev where
    cfg: "load_plugins_config (arg_config args) (fst w) = Inr config" and
    pc: "map_of config (arg_plugin args) = Some pc" and
    br: "arg_ignore_branch args \<or> ensure_branch (env_branch E) (branch pc) = Inr ()"
    using assms by (rule main_exit0_cases)
  with br show ?thesis
    by (auto simp: main_def listing_down_def latest_release_def)
qed

lemma run_seq_outages:
  assumes "main R E args w = (Inr 0, w')"
  shows "run_seq R args (map (listing_down E) cs) w = (replicate (length cs) (Inr 1), w)"
  by (induction cs) (simp_all add: main_listing_down [OF assms])

lemma run_seq_stable:
  assumes "main R E args w = (Inr 0, w)"
  shows "run_seq R args (replicate k E) w = (replicate k (Inr 0), w)"
  by (induction k) (simp_all add: assms)

lemma on_files_service: "on_files m w = (r, w') \<Longrightarrow> snd w' = snd w"
  by (auto simp: on_files_def split: prod.splits)

lemma main_tail_service:
  "\<not> arg_publish args \<Longrightarrow> main_tail R E args pc rel v w = (r, w') \<Longrightarrow> snd w' = snd w"
  by (auto simp: main_tail_def ebind_def split: sum.splits prod.splits if_splits dest!: on_files_service)

lemma main_service: "\<not> arg_publish args \<Longrightarrow> main R E args w = (r, w') \<Longrightarrow> snd w' = snd w"
  by (auto simp: main_def split: sum.splits option.splits if_splits dest: main_tail_service)

section \<open>Properties\<close>

text \<open>
  C12 (liveness): rerunning is the retry mechanism. If a run exits 0 in environment E (without force, leaving its configuration file alone), then any number of earlier runs during an outage of the release listing each exit 1 and change nothing, the first run in E then reaches the world that run produces, and every later run in E exits 0 and stays there.
\<close>

theorem reruns_reach_processed:
  assumes "main R E args w = (Inr 0, w')" and "\<not> arg_force args"
    and "map_of (fst w') (arg_config args) = map_of (fst w) (arg_config args)"
  shows "run_seq R args (map (listing_down E) cs @ replicate (Suc k) E) w =
           (replicate (length cs) (Inr 1) @ replicate (Suc k) (Inr 0), w')"
proof -
  have stable: "main R E args w' = (Inr 0, w')" by (rule main_exit0_stable [OF assms])
  show ?thesis
    by (simp add: run_seq_append run_seq_outages [OF assms(1)] assms(1) run_seq_stable [OF stable])
qed

theorem reruns_reach_processed_witness:
  "main fragment_engine e2e_env e2e_args e2e_world = (Inr 0, e2e_world_after) \<and> \<not> arg_force e2e_args \<and>
   map_of (fst e2e_world_after) (arg_config e2e_args) = map_of (fst e2e_world) (arg_config e2e_args) \<and>
   run_seq fragment_engine e2e_args (map (listing_down e2e_env) [503, 502] @ replicate 2 e2e_env) e2e_world =
     ([Inr 1, Inr 1, Inr 0, Inr 0], e2e_world_after)"
proof -
  have run: "main fragment_engine e2e_env e2e_args e2e_world = (Inr 0, e2e_world_after)" by code_simp
  have nf: "\<not> arg_force e2e_args" by (simp add: e2e_args_def)
  have cf: "map_of (fst e2e_world_after) (arg_config e2e_args) = map_of (fst e2e_world) (arg_config e2e_args)"
    by (simp add: e2e_world_after_def e2e_world_def e2e_args_def)
  have "run_seq fragment_engine e2e_args (map (listing_down e2e_env) [503, 502] @ replicate (Suc 1) e2e_env) e2e_world =
     (replicate (length [503::int, 502]) (Inr 1) @ replicate (Suc 1) (Inr 0), e2e_world_after)"
    by (rule reruns_reach_processed [OF run nf cf])
  then show ?thesis using run nf cf by (simp add: numeral_2_eq_2)
qed

text \<open>
  C25 (safety, frame): without --publish, no run of main and no schedule of reruns changes the
  GitHub service, whatever the environments and outcomes: the service is touched only by the
  publish step, which main reaches only when args.publish is set.
\<close>

theorem run_seq_service_frame:
  "\<not> arg_publish args \<Longrightarrow> run_seq R args Es w = (rs, w') \<Longrightarrow> snd w' = snd w"
proof (induction Es arbitrary: w rs)
  case (Cons E Es)
  obtain r w1 where m: "main R E args w = (r, w1)" by (cases "main R E args w")
  have "snd w1 = snd w" using main_service [OF Cons.prems(1) m] .
  with Cons.prems m show ?case by (auto split: prod.splits dest: Cons.IH)
qed simp

theorem run_seq_service_frame_witness:
  "\<not> arg_publish e2e_args \<and>
   snd (snd (run_seq fragment_engine e2e_args [e2e_env_create_fails, e2e_env] e2e_world)) = snd e2e_world"
proof -
  have np: "\<not> arg_publish e2e_args" by (simp add: e2e_args_def)
  show ?thesis
    using run_seq_service_frame [OF np, of fragment_engine "[e2e_env_create_fails, e2e_env]"] np
    by (metis prod.collapse)
qed

end
