(* ===== verification/Client.thy ===== *)
theory Client
  imports Publisher Config
begin

text \<open>
  \<^verbatim>\<open>github_api.py\<close>, the part the release listing goes through: \<open>GitHubAPI\<close>
  builds its headers (\<open>_build_headers\<close>), sends a request (\<open>_request\<close>), turns an
  \<open>HTTPError\<close> into \<open>GitHubAPIError(status)\<close> and decodes the body: JSON when the
  content type says so or the payload starts with \<open>{\<close>, otherwise \<open>{"raw": payload}\<close>.
  \<open>list_releases\<close> is the \<open>GET repos/{owner}/{repo}/releases\<close> request with
  \<open>per_page=30\<close>. Then \<open>_latest_release\<close> of \<^verbatim>\<open>plugin_release.py\<close> at the level
  of the JSON values it reads: \<open>release.get(...)\<close> with Python truthiness and
  comparison, and \<open>tag.startswith\<close>, which raises on a tag that is not a string.

  The transport is a function from the request (method, path or raw URL, query
  parameters, body, headers) to an answer; the URL string built by \<open>urljoin\<close> and
  \<open>urlencode\<close> is not modelled, a request is identified by its API path. A payload is a
  blob: a JSON document, or bytes that are not JSON text. The \<open>raw\<close> field keeps
  bytes as a string and any other payload as \<open>null\<close>. The methods are the literals
  \<open>GET\<close> and \<open>POST\<close>, on which \<open>method.upper()\<close> is the identity.
\<close>

section \<open>Definitions\<close>

subsection \<open>Requests\<close>

datatype http_answer = Http_ok string blob | Http_status int

record api_request =
  rq_method :: string
  rq_target :: string
  rq_raw_url :: bool
  rq_params :: "(string \<times> string) list"
  rq_data :: "blob option"
  rq_headers :: "(string \<times> string) list"

text \<open>
  The service a request reaches, with its state: the answer and the new state. Every
  \<open>urlopen\<close> of the client is one application of the session.
\<close>

type_synonym 's session = "api_request \<Rightarrow> 's \<Rightarrow> http_answer \<times> 's"

text \<open>\<open>_build_headers\<close>: the fixed headers, the token if it is non-empty, then \<open>extra\<close>.\<close>

definition build_headers :: "string option \<Rightarrow> (string \<times> string) list \<Rightarrow> (string \<times> string) list" where
  "build_headers token extra =
     fold (\<lambda>(k, v) d. dict_set d k v) extra
       ([(''Accept'', ''application/vnd.github+json''), (''User-Agent'', ''mobaxterm-plugin-updater'')] @
        (case token of Some t \<Rightarrow> if t \<noteq> [] then [(''Authorization'', ''Bearer '' @ t)] else [] | None \<Rightarrow> []))"

text \<open>\<open>payload.startswith(b"{")\<close>: JSON text starts with a brace exactly when it is an object.\<close>

fun payload_starts_brace :: "blob \<Rightarrow> bool" where
  "payload_starts_brace (Json_doc (JObj _)) = True"
| "payload_starts_brace (Bytes s) = startswith s ''{''"
| "payload_starts_brace _ = False"

fun raw_json :: "blob \<Rightarrow> json" where
  "raw_json (Bytes s) = JStr s"
| "raw_json _ = JNull"

definition decode_payload :: "string \<Rightarrow> blob \<Rightarrow> json result" where
  "decode_payload content_type payload =
     (if startswith content_type ''application/json'' \<or> payload_starts_brace payload then
        (case payload of Json_doc j \<Rightarrow> Inr j | _ \<Rightarrow> Inl (Json_decode_error content_type))
      else Inr (JObj [(''raw'', raw_json payload)]))"

text \<open>\<open>GitHubAPI._request\<close>.\<close>

definition api_request_do ::
  "'s session \<Rightarrow> string option \<Rightarrow> string \<Rightarrow> string \<Rightarrow> (string \<times> string) list \<Rightarrow> blob option \<Rightarrow>
   (string \<times> string) list \<Rightarrow> bool \<Rightarrow> (error, 's, json) exn_st" where
  "api_request_do srv token method path params data extra raw_url s =
     (case srv \<lparr>rq_method = method,
                rq_target = (if raw_url then path else dropWhile (\<lambda>c. c = CHR ''/'') path),
                rq_raw_url = raw_url, rq_params = params, rq_data = data,
                rq_headers = build_headers token extra\<rparr> s of
        (Http_status code, s') \<Rightarrow> (Inl (GitHub_api_error code), s')
      | (Http_ok content_type payload, s') \<Rightarrow> (decode_payload content_type payload, s'))"

definition list_releases_request :: "string option \<Rightarrow> string \<Rightarrow> string \<Rightarrow> api_request" where
  "list_releases_request token ow rp =
     \<lparr>rq_method = ''GET'', rq_target = ''repos/'' @ ow @ ''/'' @ rp @ ''/releases'', rq_raw_url = False,
      rq_params = [(''per_page'', ''30'')], rq_data = None, rq_headers = build_headers token []\<rparr>"

definition list_releases :: "'s session \<Rightarrow> string option \<Rightarrow> string \<Rightarrow> string \<Rightarrow> (error, 's, json) exn_st" where
  "list_releases srv token ow rp =
     api_request_do srv token ''GET'' (''repos/'' @ ow @ ''/'' @ rp @ ''/releases'') [(''per_page'', ''30'')] None [] False"

text \<open>
  \<open>get_release_by_tag\<close>: \<open>GitHubAPIError\<close> with status 404 is the not-found answer
  \<open>None\<close>; every other exception propagates.
\<close>

definition api_get_release_by_tag ::
  "'s session \<Rightarrow> string option \<Rightarrow> string \<Rightarrow> string \<Rightarrow> string \<Rightarrow> (error, 's, json option) exn_st" where
  "api_get_release_by_tag srv token ow rp tag s =
     (case api_request_do srv token ''GET'' (''repos/'' @ ow @ ''/'' @ rp @ ''/releases/tags/'' @ tag) [] None [] False s of
        (Inl (GitHub_api_error st), s') \<Rightarrow>
          if st = 404 then (Inr None, s') else (Inl (GitHub_api_error st), s')
      | (Inl e, s') \<Rightarrow> (Inl e, s')
      | (Inr j, s') \<Rightarrow> (Inr (Some j), s'))"

text \<open>The payload of \<open>create_release\<close>, sent as JSON text.\<close>

definition release_payload :: "string \<Rightarrow> string \<Rightarrow> string \<Rightarrow> string \<Rightarrow> bool \<Rightarrow> bool \<Rightarrow> json" where
  "release_payload tag target rname body drft pre =
     JObj [(''tag_name'', JStr tag), (''target_commitish'', JStr target), (''name'', JStr rname),
           (''body'', JStr body), (''draft'', JBool drft), (''prerelease'', JBool pre)]"

definition api_create_release ::
  "'s session \<Rightarrow> string option \<Rightarrow> string \<Rightarrow> string \<Rightarrow> string \<Rightarrow> string \<Rightarrow> string \<Rightarrow> string \<Rightarrow> bool \<Rightarrow> bool \<Rightarrow>
   (error, 's, json) exn_st" where
  "api_create_release srv token ow rp tag target rname body drft pre =
     api_request_do srv token ''POST'' (''repos/'' @ ow @ ''/'' @ rp @ ''/releases'') [] 
       (Some (Json_doc (release_payload tag target rname body drft pre))) [] False"

text \<open>
  \<open>upload_asset\<close>: \<open>FileNotFoundError\<close> when the path does not exist, the read of the
  file (which fails on a directory), then the raw \<open>POST\<close> to the upload endpoint with
  the file's base name as parameter.
\<close>

definition api_upload_asset ::
  "'s session \<Rightarrow> string option \<Rightarrow> fs \<Rightarrow> string \<Rightarrow> string \<Rightarrow> string \<Rightarrow> (error, 's, json) exn_st" where
  "api_upload_asset srv token files upload_url asset_path content_type s =
     (if \<not> fs_exists files asset_path then (Inl (OS_error asset_path), s)
      else
        (let upload_ep = upload_endpoint upload_url; params = [(''name'', path_name asset_path)]
         in case map_of files asset_path of
              None \<Rightarrow> (Inl (OS_error asset_path), s)
            | Some payload \<Rightarrow>
                api_request_do srv token ''POST'' upload_ep params (Some payload) [(''Content-Type'', content_type)] True s))"

subsection \<open>The release scan on JSON values\<close>

text \<open>Python truthiness of a JSON value.\<close>

fun py_truthy :: "json \<Rightarrow> bool" where
  "py_truthy JNull = False"
| "py_truthy (JBool b) = b"
| "py_truthy (JNum n) = (n \<noteq> 0)"
| "py_truthy (JStr s) = (s \<noteq> [])"
| "py_truthy (JArr xs) = (xs \<noteq> [])"
| "py_truthy (JObj kv) = (kv \<noteq> [])"

definition dict_get :: "(string \<times> json) list \<Rightarrow> string \<Rightarrow> json" where
  "dict_get d k = (case map_of d k of None \<Rightarrow> JNull | Some v \<Rightarrow> v)"

text \<open>
  The loop of \<open>_latest_release\<close> over the listing. A release that is not an object
  raises on \<open>.get\<close>; with a prefix, a tag that is not a string raises on
  \<open>startswith\<close>. Without a prefix Python returns the tag, whatever its type, as the
  version; the model requires a string there too.
\<close>

fun scan_releases_json :: "plugin_source \<Rightarrow> json list \<Rightarrow> (json \<times> string) result" where
  "scan_releases_json src [] = Inl No_eligible_release"
| "scan_releases_json src (j # js) =
     (case j of
        JObj kv \<Rightarrow>
          (let d = py_object kv
           in if py_truthy (dict_get d ''draft'') \<or> py_truthy (dict_get d ''prerelease'') then scan_releases_json src js
              else if branch_required src \<and> map_of d ''target_commitish'' \<noteq> map_option JStr (release_branch src)
              then scan_releases_json src js
              else
                (case (case map_of d ''tag_name'' of None \<Rightarrow> JStr [] | Some t \<Rightarrow> t) of
                   JStr tag \<Rightarrow>
                     if tag_prefix src \<noteq> [] \<and> \<not> startswith tag (tag_prefix src) then scan_releases_json src js
                     else Inr (j, if tag_prefix src \<noteq> [] then drop (length (tag_prefix src)) tag else tag)
                 | _ \<Rightarrow> Inl (Type_error ''tag_name'')))
      | _ \<Rightarrow> Inl (Type_error ''release''))"

text \<open>\<open>_latest_release\<close> with \<open>api.list_releases\<close>, on the JSON values.\<close>

definition latest_release_json ::
  "'s session \<Rightarrow> string option \<Rightarrow> plugin_config \<Rightarrow> (error, 's, json \<times> string) exn_st" where
  "latest_release_json srv token pc =
     ebind (list_releases srv token (owner (source pc)) (repo (source pc))) (\<lambda>releases.
       elift (case releases of
                JArr js \<Rightarrow> scan_releases_json (source pc) js
              | _ \<Rightarrow> Inl Unexpected_releases_response))"

subsection \<open>The publish step on the client\<close>

text \<open>The loop of \<open>_upload_release\<close> over the built packages.\<close>

fun upload_all_api ::
  "'s session \<Rightarrow> string option \<Rightarrow> fs \<Rightarrow> string \<Rightarrow> (string \<times> string) list \<Rightarrow> (error, 's, unit) exn_st" where
  "upload_all_api srv token files u [] = ereturn ()"
| "upload_all_api srv token files u ((a, path) # rest) =
     ebind (api_upload_asset srv token files u path ''application/zip'') (\<lambda>_. upload_all_api srv token files u rest)"

text \<open>
  \<open>_upload_release\<close> on the client: an existing release is reused when the answer is
  truthy; \<open>release.get("upload_url")\<close> raises on an answer that is not an object, and
  \<open>upload_url.split\<close> on an upload URL that is not a string.
\<close>

definition upload_release_api ::
  "'s session \<Rightarrow> string option \<Rightarrow> fs \<Rightarrow> string \<Rightarrow> string \<Rightarrow> plugin_config \<Rightarrow> release_state \<Rightarrow>
   string \<Rightarrow> string \<Rightarrow> string \<Rightarrow> (error, 's, unit) exn_st" where
  "upload_release_api srv token files ow rp pc st rname body target =
     (let tag = release_tag pc st
      in ebind (api_get_release_by_tag srv token ow rp tag) (\<lambda>existing.
         ebind (case existing of
                  Some rel \<Rightarrow> if py_truthy rel then ereturn rel
                              else api_create_release srv token ow rp tag target rname body False False
                | None \<Rightarrow> api_create_release srv token ow rp tag target rname body False False) (\<lambda>release.
         case release of
           JObj kv \<Rightarrow>
             (let upload_url = dict_get (py_object kv) ''upload_url''
              in if \<not> py_truthy upload_url then ethrow No_upload_url
                 else (case upload_url of
                         JStr u \<Rightarrow> upload_all_api srv token files u (assets st)
                       | _ \<Rightarrow> ethrow (Type_error ''upload_url'')))
         | _ \<Rightarrow> ethrow (Type_error ''release''))))"

subsection \<open>The typed releases as JSON\<close>

definition asset_json :: "asset \<Rightarrow> json" where
  "asset_json a = JObj [(''name'', JStr (asset_name a)), (''browser_download_url'', opt_json (browser_download_url a))]"

definition release_json :: "release \<Rightarrow> json" where
  "release_json r =
     JObj [(''tag_name'', JStr (tag_name r)), (''target_commitish'', opt_json (target_commitish r)),
           (''draft'', JBool (draft r)), (''prerelease'', JBool (prerelease r)),
           (''assets'', JArr (map asset_json (release_assets r))), (''html_url'', opt_json (html_url r))]"

text \<open>A listing answer for the examples of \<open>Resolver\<close>.\<close>

definition example_listing_answer :: http_answer where
  "example_listing_answer = Http_ok ''application/json; charset=utf-8'' (Json_doc (JArr (map release_json example_listing)))"

section \<open>Lemmas\<close>


lemma release_json_dict:
  "py_object [(''tag_name'', JStr (tag_name r)), (''target_commitish'', opt_json (target_commitish r)),
           (''draft'', JBool (draft r)), (''prerelease'', JBool (prerelease r)),
           (''assets'', JArr (map asset_json (release_assets r))), (''html_url'', opt_json (html_url r))] =
   [(''tag_name'', JStr (tag_name r)), (''target_commitish'', opt_json (target_commitish r)),
           (''draft'', JBool (draft r)), (''prerelease'', JBool (prerelease r)),
           (''assets'', JArr (map asset_json (release_assets r))), (''html_url'', opt_json (html_url r))]"
  by (rule py_object_distinct) simp

lemma opt_json_eq_JStr: "opt_json v = JStr b \<longleftrightarrow> v = Some b"
  by (cases v) (simp_all add: opt_json_def)

lemma scan_releases_json_typed:
  "scan_releases_json src (map release_json rs) = map_sum id (\<lambda>(r, v). (release_json r, v)) (scan_releases src rs)"
proof (induction rs)
  case (Cons r rs)
  have br: "branch_required src \<Longrightarrow> (Some (opt_json (target_commitish r)) \<noteq> map_option JStr (release_branch src)) =
      (target_commitish r \<noteq> release_branch src)"
    by (cases "release_branch src") (auto simp: branch_required_def opt_json_eq_JStr)
  show ?case
    using Cons br
    by (cases "scan_releases src rs")
       (auto simp: release_json_def release_json_dict dict_get_def Let_def)
qed simp

lemma list_releases_answer:
  "list_releases srv token ow rp s =
     (case srv (list_releases_request token ow rp) s of
        (Http_status code, s') \<Rightarrow> (Inl (GitHub_api_error code), s')
      | (Http_ok ct payload, s') \<Rightarrow> (decode_payload ct payload, s'))"
  by (simp add: list_releases_def api_request_do_def list_releases_request_def)

section \<open>Properties\<close>

text \<open>
  C36 (refinement): _latest_release run on what list_releases answers (a JSON list of releases, served as application/json) computes what the typed resolver latest_release computes on those releases: the same release, as its JSON value, and the same version; or the same error.
\<close>

theorem latest_release_json_refines:
  assumes "srv (list_releases_request token (owner (source pc)) (repo (source pc))) s =
             (Http_ok ct (Json_doc (JArr (map release_json rs))), s')"
    and "startswith ct ''application/json''"
  shows "latest_release_json srv token pc s =
           (map_sum id (\<lambda>(r, v). (release_json r, v)) (latest_release (\<lambda>ow rp. Inr (Some rs)) pc), s')"
  using assms
  by (simp add: latest_release_json_def list_releases_answer decode_payload_def latest_release_def
      scan_releases_json_typed ebind_def elift_def)

theorem latest_release_json_refines_witness:
  "(\<lambda>rq u. (example_listing_answer, u)) (list_releases_request None (owner (source example_config)) (repo (source example_config))) () =
     (Http_ok ''application/json; charset=utf-8'' (Json_doc (JArr (map release_json example_listing))), ()) \<and>
   startswith ''application/json; charset=utf-8'' ''application/json'' \<and>
   latest_release_json (\<lambda>rq u. (example_listing_answer, u)) None example_config () =
     (Inr (release_json (example_release ''release-3.0'' ''main'' False), ''3.0''), ())"
proof -
  have a: "(\<lambda>rq u. (example_listing_answer, u)) (list_releases_request None (owner (source example_config)) (repo (source example_config))) () =
     (Http_ok ''application/json; charset=utf-8'' (Json_doc (JArr (map release_json example_listing))), ())"
    by (simp add: example_listing_answer_def)
  have c: "startswith ''application/json; charset=utf-8'' ''application/json''" by (simp add: startswith_def)
  have l: "latest_release (\<lambda>ow rp. Inr (Some example_listing)) example_config =
      Inr (example_release ''release-3.0'' ''main'' False, ''3.0'')"
    by code_simp
  show ?thesis
    using latest_release_json_refines [where srv = "\<lambda>rq u. (example_listing_answer, u)" and s = "()" and s' = "()", OF a c] a c l
    by simp
qed

text \<open>
  C32 (error): when the listing request fails with an HTTP status, _latest_release raises GitHubAPIError with that status; when it answers a JSON object (such as GitHub's error message) or a list not declared application/json (read as {"raw": ...}), it raises the unexpected-response error.
\<close>

theorem latest_release_json_bad_listing:
  assumes "srv (list_releases_request token (owner (source pc)) (repo (source pc))) s = (a, s')"
  shows "(a = Http_status c \<longrightarrow> latest_release_json srv token pc s = (Inl (GitHub_api_error c), s')) \<and>
         (a = Http_ok ct (Json_doc (JObj kv)) \<longrightarrow> latest_release_json srv token pc s = (Inl Unexpected_releases_response, s')) \<and>
         (a = Http_ok ct (Json_doc (JArr js)) \<longrightarrow> \<not> startswith ct ''application/json'' \<longrightarrow>
            latest_release_json srv token pc s = (Inl Unexpected_releases_response, s'))"
  using assms
  by (simp add: latest_release_json_def list_releases_answer decode_payload_def ebind_def elift_def)

theorem latest_release_json_bad_listing_witness:
  "(\<lambda>rq u. (Http_status 403, u)) (list_releases_request None (owner (source example_config)) (repo (source example_config))) () =
     (Http_status 403, ()) \<and>
   latest_release_json (\<lambda>rq u. (Http_status 403, u)) None example_config () = (Inl (GitHub_api_error 403), ()) \<and>
   latest_release_json (\<lambda>rq u. (Http_ok ''application/json'' (Json_doc (JObj [(''message'', JStr ''Not Found'')])), u)) None
     example_config () = (Inl Unexpected_releases_response, ())"
proof -
  have e: "latest_release_json (\<lambda>rq u. (Http_status 403, u)) None example_config () = (Inl (GitHub_api_error 403), ())"
    using latest_release_json_bad_listing [of "\<lambda>rq u. (Http_status 403, u)" None example_config "()" "Http_status 403" "()" 403] by simp
  have o: "latest_release_json (\<lambda>rq u. (Http_ok ''application/json'' (Json_doc (JObj [(''message'', JStr ''Not Found'')])), u)) None
     example_config () = (Inl Unexpected_releases_response, ())"
    using latest_release_json_bad_listing [of "\<lambda>rq u. (Http_ok ''application/json'' (Json_doc (JObj [(''message'', JStr ''Not Found'')])), u)"
        None example_config "()" "Http_ok ''application/json'' (Json_doc (JObj [(''message'', JStr ''Not Found'')]))" "()" _
        "''application/json''" "[(''message'', JStr ''Not Found'')]"] by simp
  with e show ?thesis by simp
qed

end
