(* ===== verification/Service.thy ===== *)
theory Service
  imports Client
begin

text \<open>
  The GitHub service behind the client. \<open>gh_session status ow rp\<close> answers the
  requests of \<^verbatim>\<open>github_api.py\<close> for the repository \<open>ow/rp\<close> on the service model of
  \<open>Publisher\<close>: a release is fetched by tag, created from the JSON payload, and given
  an asset at its upload endpoint, by the service operations \<open>get_release_by_tag\<close>,
  \<open>create_release\<close> and \<open>add_asset\<close>; their failures are HTTP statuses, their results
  JSON documents served as \<open>application/json\<close>. The lemmas show that the HTTP client
  composed with this service computes what the service-level model computes: the
  publish step of \<open>Pipeline\<close>, written on the service model, is what the client code does.
\<close>

section \<open>Definitions\<close>

definition asset_entry_json :: "string \<times> blob \<Rightarrow> json" where
  "asset_entry_json a = JObj [(''name'', JStr (fst a))]"

definition gh_release_json :: "string \<Rightarrow> gh_release \<Rightarrow> json" where
  "gh_release_json tag rel =
     JObj [(''tag_name'', JStr tag), (''target_commitish'', JStr (gr_target rel)), (''name'', JStr (gr_name rel)),
           (''body'', JStr (gr_body rel)), (''upload_url'', opt_json (gr_upload_url rel)),
           (''assets'', JArr (map asset_entry_json (gr_assets rel)))]"

definition gh_answer :: "json \<Rightarrow> http_answer" where
  "gh_answer j = Http_ok ''application/json; charset=utf-8'' (Json_doc j)"

fun error_answer :: "error \<Rightarrow> http_answer" where
  "error_answer (GitHub_api_error c) = Http_status c"
| "error_answer _ = Http_status 500"

definition str_field :: "(string \<times> json) list \<Rightarrow> string \<Rightarrow> string option" where
  "str_field kv k = (case map_of kv k of Some (JStr v) \<Rightarrow> Some v | _ \<Rightarrow> None)"

definition releases_path :: "string \<Rightarrow> string \<Rightarrow> string" where
  "releases_path ow rp = ''repos/'' @ ow @ ''/'' @ rp @ ''/releases''"

definition tags_path :: "string \<Rightarrow> string \<Rightarrow> string" where
  "tags_path ow rp = ''repos/'' @ ow @ ''/'' @ rp @ ''/releases/tags/''"

definition gh_session :: "(gh_call \<Rightarrow> int option) \<Rightarrow> string \<Rightarrow> string \<Rightarrow> gh_service session" where
  "gh_session status ow rp rq gh =
     (if rq_method rq = ''GET'' \<and> \<not> rq_raw_url rq \<and> startswith (rq_target rq) (tags_path ow rp) then
           (let tag = drop (length (tags_path ow rp)) (rq_target rq)
            in case get_release_by_tag status ow rp tag gh of
                 Inl e \<Rightarrow> (error_answer e, gh)
               | Inr None \<Rightarrow> (Http_status 404, gh)
               | Inr (Some rel) \<Rightarrow> (gh_answer (gh_release_json tag rel), gh))
         else if rq_method rq = ''POST'' \<and> \<not> rq_raw_url rq \<and> rq_target rq = releases_path ow rp then
           (case rq_data rq of
              Some (Json_doc (JObj kv)) \<Rightarrow>
                (case (str_field kv ''tag_name'', str_field kv ''target_commitish'', str_field kv ''name'',
                       str_field kv ''body'') of
                   (Some tag, Some target, Some rname, Some body) \<Rightarrow>
                     (case create_release status ow rp tag target rname body gh of
                        (Inl e, gh') \<Rightarrow> (error_answer e, gh')
                      | (Inr rel, gh') \<Rightarrow> (gh_answer (gh_release_json tag rel), gh'))
                 | _ \<Rightarrow> (Http_status 422, gh))
            | _ \<Rightarrow> (Http_status 400, gh))
         else if rq_method rq = ''POST'' \<and> rq_raw_url rq then
           (case (map_of (rq_params rq) ''name'', rq_data rq) of
              (Some n, Some content) \<Rightarrow>
                (case add_asset status ow rp (rq_target rq) n content gh of
                   (Inl e, gh') \<Rightarrow> (error_answer e, gh')
                 | (Inr _, gh') \<Rightarrow> (gh_answer (asset_entry_json (n, content)), gh'))
            | _ \<Rightarrow> (Http_status 422, gh))
         else (Http_status 404, gh))"

section \<open>Lemmas\<close>

lemma client_paths:
  "dropWhile (\<lambda>c. c = CHR ''/'') (''repos/'' @ ow @ ''/'' @ rp @ ''/releases/tags/'' @ tag) = tags_path ow rp @ tag"
  "dropWhile (\<lambda>c. c = CHR ''/'') (''repos/'' @ ow @ ''/'' @ rp @ ''/releases'') = releases_path ow rp"
  by (simp_all add: tags_path_def releases_path_def)

lemma gh_answer_decode [simp]: "decode_payload ''application/json; charset=utf-8'' (Json_doc j) = Inr j"
  by (simp add: decode_payload_def startswith_def)

lemma create_release_api_error:
  "create_release status ow rp tag tg rn bd gh = (Inl e, gh') \<Longrightarrow> is_github_api_error e"
  by (auto simp: create_release_def Let_def split: option.splits if_splits)

lemma add_asset_api_error:
  "add_asset status ow rp ep n c gh = (Inl e, gh') \<Longrightarrow> is_github_api_error e"
  by (auto simp: add_asset_def Let_def split: option.splits if_splits)

lemma get_release_by_tag_api_error:
  "get_release_by_tag status ow rp tag gh = Inl e \<Longrightarrow> is_github_api_error e \<and> e \<noteq> GitHub_api_error 404"
  by (auto simp: get_release_by_tag_def split: option.splits if_splits)

lemma api_error_cases: "is_github_api_error e \<Longrightarrow> \<exists>c. e = GitHub_api_error c"
  by (cases e) simp_all

lemma api_get_release_by_tag_gh:
  "api_get_release_by_tag (gh_session status ow rp) token ow rp tag gh =
     (map_sum id (map_option (gh_release_json tag)) (get_release_by_tag status ow rp tag gh), gh)"
proof (cases "get_release_by_tag status ow rp tag gh")
  case (Inl e)
  then obtain c where "e = GitHub_api_error c" "c \<noteq> 404"
    by (blast dest: get_release_by_tag_api_error api_error_cases)
  with Inl show ?thesis
    unfolding api_get_release_by_tag_def api_request_do_def if_False client_paths
    by (simp add: gh_session_def)
next
  case (Inr r)
  then show ?thesis
    unfolding api_get_release_by_tag_def api_request_do_def if_False client_paths
    by (cases r) (simp_all add: gh_session_def gh_answer_def)
qed

lemma api_create_release_gh:
  "api_create_release (gh_session status ow rp) token ow rp tag tg rn bd drft pre gh =
     (case create_release status ow rp tag tg rn bd gh of (r, gh') \<Rightarrow> (map_sum id (gh_release_json tag) r, gh'))"
proof (cases "create_release status ow rp tag tg rn bd gh")
  case (Pair r gh')
  show ?thesis
  proof (cases r)
    case (Inl e)
    with Pair obtain c where "e = GitHub_api_error c"
      by (blast dest: create_release_api_error api_error_cases)
    with Pair Inl show ?thesis
      unfolding api_create_release_def api_request_do_def if_False client_paths
      by (simp add: gh_session_def release_payload_def str_field_def)
  next
    case (Inr rel)
    with Pair show ?thesis
      unfolding api_create_release_def api_request_do_def if_False client_paths
      by (simp add: gh_session_def release_payload_def str_field_def gh_answer_def)
  qed
qed

lemma api_upload_asset_gh:
  "api_upload_asset (gh_session status ow rp) token files u path ct gh =
     (case upload_asset status ow rp u path (files, gh) of
        (r, files', gh') \<Rightarrow> (map_sum id (\<lambda>_. asset_entry_json (path_name path, the (map_of files path))) r, gh'))"
proof (cases "map_of files path")
  case None
  then show ?thesis
    by (simp add: api_upload_asset_def upload_asset_def)
next
  case (Some c)
  then have ex: "fs_exists files path" by (simp add: map_of_fs_exists)
  show ?thesis
  proof (cases "add_asset status ow rp (upload_endpoint u) (path_name path) c gh")
    case (Pair r gh')
    show ?thesis
    proof (cases r)
      case (Inl e)
      with Pair obtain k where "e = GitHub_api_error k"
        by (blast dest: add_asset_api_error api_error_cases)
      with Some ex Pair Inl show ?thesis
        by (simp add: api_upload_asset_def upload_asset_def api_request_do_def gh_session_def)
    next
      case (Inr x)
      with Some ex Pair show ?thesis
        by (simp add: api_upload_asset_def upload_asset_def api_request_do_def gh_session_def gh_answer_def)
    qed
  qed
qed

lemma upload_all_api_gh:
  "upload_all_api (gh_session status ow rp) token files u xs gh =
     (case upload_all status ow rp u xs (files, gh) of (r, files', gh') \<Rightarrow> (r, gh'))"
proof (induction xs arbitrary: gh)
  case (Cons x xs)
  obtain a path where x: "x = (a, path)" by fastforce
  obtain r st1 where u: "upload_asset status ow rp u path (files, gh) = (r, st1)"
    by (cases "upload_asset status ow rp u path (files, gh)")
  have f1: "fst st1 = files" using upload_asset_files [OF u] by simp
  then obtain gh1 where st1: "st1 = (files, gh1)" by (cases st1) simp
  show ?case
    using Cons.IH [of gh1] u st1 x api_upload_asset_gh [of status ow rp token files u path "''application/zip''" gh]
    by (cases r) (simp_all add: ebind_def)
qed simp

lemma gh_release_json_fields:
  "gh_release_json tag rel = JObj kv \<Longrightarrow>
     py_truthy (JObj kv) \<and> dict_get (py_object kv) ''upload_url'' = opt_json (gr_upload_url rel)"
proof -
  assume "gh_release_json tag rel = JObj kv"
  then have kv: "kv = [(''tag_name'', JStr tag), (''target_commitish'', JStr (gr_target rel)), (''name'', JStr (gr_name rel)),
           (''body'', JStr (gr_body rel)), (''upload_url'', opt_json (gr_upload_url rel)),
           (''assets'', JArr (map asset_entry_json (gr_assets rel)))]"
    by (simp add: gh_release_json_def)
  have "py_object kv = kv" unfolding kv by (rule py_object_distinct) simp
  then show ?thesis by (simp add: kv dict_get_def)
qed

text \<open>What \<open>_upload_release\<close> does once it holds the answer describing release \<open>rel\<close>.\<close>

lemma upload_from_release_json:
  "(case (case gh_release_json tag rel of
            JObj kv \<Rightarrow>
              (let upload_url = dict_get (py_object kv) ''upload_url''
               in if \<not> py_truthy upload_url then ethrow No_upload_url
                  else (case upload_url of
                          JStr u \<Rightarrow> upload_all_api (gh_session status ow rp) token files u xs
                        | _ \<Rightarrow> ethrow (Type_error ''upload_url'')))
          | _ \<Rightarrow> ethrow (Type_error ''release'')) ghc of (r, gh') \<Rightarrow> (r, files, gh')) =
   (case gr_upload_url rel of
      None \<Rightarrow> (Inl No_upload_url, files, ghc)
    | Some u \<Rightarrow> if u = [] then (Inl No_upload_url, files, ghc)
              else upload_all status ow rp u xs (files, ghc))"
proof -
  obtain kv where kv: "gh_release_json tag rel = JObj kv" by (simp add: gh_release_json_def)
  from gh_release_json_fields [OF kv]
  have d: "dict_get (py_object kv) ''upload_url'' = opt_json (gr_upload_url rel)" by simp
  show ?thesis
  proof (cases "gr_upload_url rel")
    case (Some u)
    obtain r st' where ua: "upload_all status ow rp u xs (files, ghc) = (r, st')"
      by (cases "upload_all status ow rp u xs (files, ghc)")
    have "fst st' = files" using upload_all_files [OF ua] by simp
    with Some kv d ua show ?thesis
      by (cases st') (simp add: opt_json_def ethrow_def Let_def upload_all_api_gh)
  qed (simp add: kv d opt_json_def ethrow_def)
qed

text \<open>How \<open>_upload_release\<close> on the client obtains the release it uploads to.\<close>

lemma obtain_release_gh:
  "ebind (api_get_release_by_tag (gh_session status ow rp) token ow rp tag) (\<lambda>existing.
     ebind (case existing of
              Some rel \<Rightarrow> if py_truthy rel then ereturn rel
                          else api_create_release (gh_session status ow rp) token ow rp tag target rname body False False
            | None \<Rightarrow> api_create_release (gh_session status ow rp) token ow rp tag target rname body False False) K) gh =
   (case get_release_by_tag status ow rp tag gh of
      Inl e \<Rightarrow> (Inl e, gh)
    | Inr (Some rel) \<Rightarrow> K (gh_release_json tag rel) gh
    | Inr None \<Rightarrow>
        (case create_release status ow rp tag target rname body gh of
           (Inl e, gh1) \<Rightarrow> (Inl e, gh1)
         | (Inr rel, gh1) \<Rightarrow> K (gh_release_json tag rel) gh1))"
proof -
  have t: "py_truthy (gh_release_json tag rel)" for rel
    using gh_release_json_fields [of tag rel] by (simp add: gh_release_json_def)
  show ?thesis
    by (auto simp: ebind_def api_get_release_by_tag_gh api_create_release_gh t
        split: sum.splits option.splits prod.splits)
qed

section \<open>Properties\<close>

text \<open>
  C11 (refinement): the publish step written on the service model is what the client code does: _upload_release run by GitHubAPI (get_release_by_tag, create_release, upload_asset through _request) against the GitHub service gh_session gives the same outcome, the same service state and the same files as upload_release on the service model, on every path, errors included.
\<close>

theorem upload_release_api_refines:
  "upload_release status ow rp pc st rname body target (files, gh) =
     (case upload_release_api (gh_session status ow rp) token files ow rp pc st rname body target gh of
        (r, gh') \<Rightarrow> (r, files, gh'))"
proof -
  let ?tag = "release_tag pc st"
  note cont = upload_from_release_json [where tag = ?tag and xs = "assets st" and token = token, unfolded Let_def]
  note defs = upload_release_def upload_release_api_def Let_def obtain_release_gh
  obtain cr gh1 where cr: "create_release status ow rp ?tag target rname body gh = (cr, gh1)"
    by (cases "create_release status ow rp ?tag target rname body gh")
  show ?thesis
    using cont cr by (cases "get_release_by_tag status ow rp ?tag gh"; cases cr) (auto simp: defs split: option.splits)
qed

end
