(* ===== verification/Frame.thy ===== *)
theory Frame
  imports Pipeline
begin

text \<open>
  What a run of \<open>main\<close> may change in the file store. \<open>in_dir d q\<close> holds when the
  path \<open>q\<close>, as \<open>pathlib\<close> parses it, lies in the directory \<open>d\<close> (its components
  extend those of \<open>d\<close>). \<open>writes_within S m\<close> says that the computation \<open>m\<close> changes
  only files whose path satisfies \<open>S\<close>. Each operation that writes gets such a lemma
  (\<open>_download_asset\<close>: its destination; extraction: \<open>workdir/extracted\<close>;
  \<open>PackageBuilder.build\<close>: the package path; \<open>save_state\<close>: the state file; the
  scratch-directory handling: the scratch directory), and the lemmas compose along
  \<open>_archive_assets\<close>, the packaging pass and \<open>main\<close>.
\<close>

section \<open>Definitions\<close>

definition in_dir :: "string \<Rightarrow> string \<Rightarrow> bool" where
  "in_dir d q \<longleftrightarrow> fst (path_of q) = fst (path_of d) \<and> (\<exists>r. snd (path_of q) = snd (path_of d) @ r)"

definition only_changes :: "(string \<Rightarrow> bool) \<Rightarrow> fs \<Rightarrow> fs \<Rightarrow> bool" where
  "only_changes S fs fs' \<longleftrightarrow> (\<forall>p. map_of fs' p \<noteq> map_of fs p \<longrightarrow> S p)"

definition writes_within :: "(string \<Rightarrow> bool) \<Rightarrow> (error, fs, 'a) exn_st \<Rightarrow> bool" where
  "writes_within S m \<longleftrightarrow> (\<forall>fs r fs'. m fs = (r, fs') \<longrightarrow> only_changes S fs fs')"

text \<open>The package paths of the patterns \<open>ps\<close>, as \<open>PackageBuilder.build\<close> names them.\<close>

definition package_set :: "string \<Rightarrow> plugin_config \<Rightarrow> string \<Rightarrow> asset_pattern list \<Rightarrow> string \<Rightarrow> bool" where
  "package_set out pc v ps q \<longleftrightarrow> (\<exists>p \<in> set ps. q = path_div out (resolve_archive_name pc v (arch p)))"

section \<open>Lemmas\<close>

lemma in_dir_path_div: "\<not> fst (path_of y) \<Longrightarrow> in_dir d (path_div d y)"
  by (simp add: in_dir_def path_div_relative)

lemma in_dir_trans: "in_dir d e \<Longrightarrow> in_dir e q \<Longrightarrow> in_dir d q"
  by (auto simp: in_dir_def)

lemma in_dir_refl [simp]: "in_dir d d"
  by (simp add: in_dir_def)

lemma under_in_dir: "d \<noteq> [] \<Longrightarrow> (q = d \<or> under d q) \<Longrightarrow> in_dir d q"
  by (auto simp: in_dir_def under_def startswith_iff path_of_def split_on_append_sep_gen)

lemma only_changes_refl [simp]: "only_changes S fs fs"
  by (simp add: only_changes_def)

lemma only_changes_trans: "only_changes S a b \<Longrightarrow> only_changes S b c \<Longrightarrow> only_changes S a c"
  unfolding only_changes_def by metis

lemma only_changes_mono: "only_changes S a b \<Longrightarrow> (\<And>p. S p \<Longrightarrow> S' p) \<Longrightarrow> only_changes S' a b"
  by (auto simp: only_changes_def)

lemma writes_withinD: "writes_within S m \<Longrightarrow> m fs = (r, fs') \<Longrightarrow> only_changes S fs fs'"
  by (simp add: writes_within_def)

lemma writes_within_mono: "writes_within S m \<Longrightarrow> (\<And>p. S p \<Longrightarrow> S' p) \<Longrightarrow> writes_within S' m"
  unfolding writes_within_def by (meson only_changes_mono)

lemma writes_within_return [simp]: "writes_within S (ereturn a)"
  and writes_within_throw [simp]: "writes_within S (ethrow e)"
  and writes_within_lift [simp]: "writes_within S (elift r)"
  and writes_within_mkdir [simp]: "writes_within S (fs_mkdir d)"
  and writes_within_read [simp]: "writes_within S (fs_read p)"
  by (auto simp: writes_within_def ethrow_def elift_def dest: fs_mkdir_state fs_read_state)

lemma writes_within_write: "writes_within (\<lambda>q. q = p) (fs_write p b)"
  by (auto simp: writes_within_def only_changes_def fs_write_def split: if_splits)

lemma writes_within_ebind:
  "writes_within S m \<Longrightarrow> (\<And>a. writes_within S (f a)) \<Longrightarrow> writes_within S (ebind m f)"
  unfolding writes_within_def ebind_def by (auto split: prod.splits sum.splits) (metis only_changes_trans)

lemma only_changes_rmtree: "only_changes (\<lambda>q. q = d \<or> under d q) fs (fs_rmtree d fs)"
  unfolding only_changes_def by (metis fs_rmtree_other)

lemma writes_within_fresh_temp_dir: "writes_within (\<lambda>q. q = d \<or> under d q) (fresh_temp_dir d)"
  by (auto simp: writes_within_def fresh_temp_dir_def only_changes_rmtree split: if_splits dest!: fs_mkdir_state)

lemma writes_within_download: "writes_within (\<lambda>q. q = dest) (download_asset fetch a dest)"
  by (auto simp: download_asset_def split: option.splits fetch_result.splits
      intro!: writes_within_ebind writes_within_write)

lemma writes_within_copy_out: "writes_within (in_dir ed) (copy_out ed t b)"
  unfolding copy_out_def Let_def
  by (intro writes_within_ebind writes_within_mono [OF writes_within_write]) (simp_all add: in_dir_path_div path_name_relative)

lemma writes_within_extract: "writes_within (in_dir (path_div wd ''extracted'')) (extract_from_archive R ap p wd)"
proof -
  have z: "writes_within (in_dir ed) (extract_zip R mrx ap ed es)" for mrx ed es
    unfolding extract_zip_def
    by (intro writes_within_ebind) (auto split: option.splits intro: writes_within_copy_out)
  have t: "writes_within (in_dir ed) (extract_tar R mrx ap ed es)" for mrx ed es
    unfolding extract_tar_def
    by (intro writes_within_ebind) (auto split: option.splits prod.splits tar_kind.splits intro: writes_within_copy_out)
  show ?thesis
    unfolding extract_from_archive_def Let_def
    apply (intro writes_within_ebind writes_within_lift writes_within_mkdir)
    using z t by (auto simp: writes_within_def split: option.splits blob.splits)
qed

lemma writes_within_prepare: "writes_within (in_dir (path_div wd ''extracted'')) (prepare_binary R bp p wd)"
  unfolding prepare_binary_def
  using writes_within_extract [of wd R bp p] by (auto simp: writes_within_def)

lemma writes_within_build:
  "writes_within (\<lambda>q. q = path_div out (resolve_archive_name pc v (arch p))) (build out pc p v bp url)"
  unfolding build_def Let_def
  by (intro writes_within_ebind writes_within_write writes_within_read writes_within_return)

lemma writes_within_archive_loop:
  assumes "\<forall>x \<in> set matched. take 1 (asset_name (snd x)) \<noteq> ''/''"
  shows "writes_within (\<lambda>q. in_dir d q \<or> package_set out pc v ps q) (archive_loop R fetch pc v matched d out url ps built)"
proof (induction ps arbitrary: built)
  case (Cons p ps)
  let ?S = "\<lambda>q. in_dir d q \<or> package_set out pc v (p # ps) q"
  have ext: "in_dir d (path_div d ''extracted'')" by (simp add: in_dir_path_div path_of_relative)
  show ?case
  proof (cases "map_of matched (arch p)")
    case (Some a)
    have "take 1 (asset_name a) \<noteq> ''/''" using assms map_of_SomeD [OF Some] by fastforce
    then have dl: "in_dir d (path_div d (asset_name a))" by (simp add: in_dir_path_div path_of_relative)
    have w1: "writes_within ?S (download_asset fetch a (path_div d (asset_name a)))"
      by (rule writes_within_mono [OF writes_within_download]) (simp add: dl)
    have w2: "writes_within ?S (prepare_binary R (path_div d (asset_name a)) p d)"
      by (rule writes_within_mono [OF writes_within_prepare]) (blast intro: in_dir_trans [OF ext])
    have w3: "writes_within ?S (build out pc p v bp url)" for bp
      by (rule writes_within_mono [OF writes_within_build]) (simp add: package_set_def)
    have w4: "writes_within ?S (archive_loop R fetch pc v matched d out url ps b)" for b
      by (rule writes_within_mono [OF Cons.IH]) (auto simp: package_set_def)
    show ?thesis
      using Some by (simp add: writes_within_ebind w1 w2 w3 w4)
  qed (simp add: writes_within_def)
qed simp

lemma temp_dir_nonempty: "temp_dir_of pc v \<noteq> []"
  by (simp add: temp_dir_of_def path_div_def Let_def path_str_nonempty)

lemma only_changes_package_release:
  assumes "\<forall>x \<in> set matched. take 1 (asset_name (snd x)) \<noteq> ''/''"
    and "package_release R fetch pc v matched out url fs = (r, fs')"
  shows "only_changes (\<lambda>q. in_dir (temp_dir_of pc v) q \<or> package_set out pc v (asset_patterns (source pc)) q) fs fs'"
proof -
  let ?d = "temp_dir_of pc v"
  let ?S = "\<lambda>q. in_dir ?d q \<or> package_set out pc v (asset_patterns (source pc)) q"
  have t: "?d = [] \<Longrightarrow> False" by (simp add: temp_dir_nonempty)
  have tree: "q = ?d \<or> under ?d q \<Longrightarrow> ?S q" for q using under_in_dir [OF temp_dir_nonempty] by blast
  have aa: "writes_within ?S (archive_assets R fetch pc v (asset_patterns (source pc)) matched ?d out url)"
    unfolding archive_assets_def
    by (intro writes_within_ebind writes_within_mkdir writes_within_return)
       (simp add: package_builder_init_def, rule writes_within_archive_loop [OF assms(1)])
  have inner: "writes_within ?S (\<lambda>fs. let (r, fs') = archive_assets R fetch pc v (asset_patterns (source pc)) matched ?d out url fs
                                    in (r, fs_rmtree ?d fs'))"
    unfolding writes_within_def
  proof (intro allI impI)
    fix fs0 r0 fs1
    assume "(let (r, fs') = archive_assets R fetch pc v (asset_patterns (source pc)) matched ?d out url fs0
             in (r, fs_rmtree ?d fs')) = (r0, fs1)"
    then obtain fsa where a: "archive_assets R fetch pc v (asset_patterns (source pc)) matched ?d out url fs0 = (r0, fsa)"
      and f1: "fs1 = fs_rmtree ?d fsa"
      by (auto split: prod.splits)
    have "only_changes ?S fs0 fsa" using writes_withinD [OF aa a] .
    moreover have "only_changes ?S fsa fs1"
      unfolding f1 by (rule only_changes_mono [OF only_changes_rmtree tree])
    ultimately show "only_changes ?S fs0 fs1" by (rule only_changes_trans)
  qed
  have "writes_within ?S (package_release R fetch pc v matched out url)"
    unfolding package_release_def Let_def
    by (intro writes_within_ebind writes_within_mono [OF writes_within_fresh_temp_dir] inner [unfolded Let_def])
       (rule tree)
  from writes_withinD [OF this assms(2)] show ?thesis .
qed

lemma writes_within_save_state: "writes_within (\<lambda>q. q = path) (save_state path s)"
  unfolding save_state_def by (intro writes_within_ebind writes_within_mkdir writes_within_write)

lemma match_loop_values: "match_loop R as ps acc = Inr d \<Longrightarrow> x \<in> set d \<Longrightarrow> x \<in> set acc \<or> snd x \<in> set as"
proof (induction ps arbitrary: acc)
  case (Cons p ps)
  then obtain a where a: "pattern_match R as p = Inr a"
    and d: "match_loop R as ps (dict_set acc (arch p) a) = Inr d"
    by (auto split: sum.splits)
  have "a \<in> set as" using a by (auto simp: pattern_match_Inr dest: find_SomeD)
  with Cons.IH [OF d Cons.prems(2)] show ?case by (auto dest: set_update_memD)
qed simp

lemma main_tail_stagesE:
  assumes "main_tail R E args pc rel v w = (r, w')"
  obtains (unchanged) "w' = w"
  | (packaged) matched r1 fs1 where "match_assets R (asset_patterns (source pc)) rel = Inr matched"
      "package_release R (env_fetch E) pc v matched (arg_output_dir args) (html_url rel) (fst w) = (r1, fs1)"
      "fst w' = fs1"
  | (saved) matched s fs1 r2 fs2 where "match_assets R (asset_patterns (source pc)) rel = Inr matched"
      "package_release R (env_fetch E) pc v matched (arg_output_dir args) (html_url rel) (fst w) = (Inr s, fs1)"
      "save_state (state_path_of args pc) s fs1 = (r2, fs2)" "fst w' = fs2"
  using assms
  by (auto simp: main_tail_def ebind_def on_files_def split: sum.splits prod.splits if_splits
      dest: publish_step_files)

lemma matched_names:
  "match_assets R ps rel = Inr matched \<Longrightarrow> \<forall>a \<in> set (release_assets rel). take 1 (asset_name a) \<noteq> ''/'' \<Longrightarrow>
   \<forall>x \<in> set matched. take 1 (asset_name (snd x)) \<noteq> ''/''"
  using match_loop_values [of R "release_assets rel" ps "[]" matched] by (auto simp: match_assets_def)

lemma main_tail_only_changes:
  assumes names: "\<forall>a \<in> set (release_assets rel). take 1 (asset_name a) \<noteq> ''/''"
    and run: "main_tail R E args pc rel v w = (r, w')"
  shows "only_changes (\<lambda>q. q = state_path_of args pc \<or> package_set (arg_output_dir args) pc v (asset_patterns (source pc)) q \<or>
           in_dir (temp_dir_of pc v) q) (fst w) (fst w')"
    (is "only_changes ?S _ _")
  using run
proof (cases rule: main_tail_stagesE)
  case (packaged matched r1 fs1)
  then show ?thesis
    using only_changes_package_release [OF matched_names [OF packaged(1) names] packaged(2)]
    by (auto intro: only_changes_mono)
next
  case (saved matched s fs1 r2 fs2)
  have c1: "only_changes ?S (fst w) fs1"
    using only_changes_package_release [OF matched_names [OF saved(1) names] saved(2)]
    by (auto intro: only_changes_mono)
  have c2: "only_changes ?S fs1 fs2"
    using writes_withinD [OF writes_within_save_state saved(3)] by (auto intro: only_changes_mono)
  from c1 c2 saved(4) show ?thesis by (auto intro: only_changes_trans)
qed simp

lemma main_only_changes:
  assumes cfg: "load_plugins_config (arg_config args) (fst w) = Inr config"
    and pc: "map_of config (arg_plugin args) = Some pc"
    and rl: "latest_release (env_releases E) pc = Inr (rel, v)"
    and names: "\<forall>a \<in> set (release_assets rel). take 1 (asset_name a) \<noteq> ''/''"
    and run: "main R E args w = (r, w')"
  shows "only_changes (\<lambda>q. q = state_path_of args pc \<or> package_set (arg_output_dir args) pc v (asset_patterns (source pc)) q \<or>
           in_dir (temp_dir_of pc v) q) (fst w) (fst w')"
proof -
  have "w' = w \<or> main_tail R E args pc rel v w = (r, w')"
    using run cfg pc rl by (auto simp: main_def split: if_splits sum.splits)
  then show ?thesis
    by (elim disjE) (simp_all add: main_tail_only_changes [OF names])
qed

section \<open>Properties\<close>

text \<open>
  C21 (safety): a run of main changes only the state file of the plugin, the package paths {output_dir}/{name}-{version}-{arch}{extension} of the resolved version, and files inside its scratch directory .tmp/{name}-{version} (stale files there are removed), provided the upstream asset names are not absolute paths; the configuration and every other file are left alone, on every path of the run, errors included.
\<close>

theorem main_changes_within:
  assumes "load_plugins_config (arg_config args) (fst w) = Inr config"
    and "map_of config (arg_plugin args) = Some pc"
    and "latest_release (env_releases E) pc = Inr (rel, v)"
    and "\<forall>a \<in> set (release_assets rel). take 1 (asset_name a) \<noteq> ''/''"
    and "main R E args w = (r, w')"
    and "map_of (fst w') p \<noteq> map_of (fst w) p"
  shows "p = state_path_of args pc \<or>
         (\<exists>q \<in> set (asset_patterns (source pc)). p = path_div (arg_output_dir args) (resolve_archive_name pc v (arch q))) \<or>
         in_dir (temp_dir_of pc v) p"
  using main_only_changes [OF assms(1-5)] assms(6) by (auto simp: only_changes_def package_set_def)

theorem main_changes_within_witness:
  "map_of (fst (snd (main fragment_engine e2e_env e2e_args
      ([(''data/plugins.json'', Json_doc e2e_config), (''.tmp/foo-2.1.0/stale'', Bytes ''old'')], [])))) ''.tmp/foo-2.1.0/stale'' = None \<and>
   in_dir (temp_dir_of e2e_plugin ''2.1.0'') ''.tmp/foo-2.1.0/stale''"
proof -
  let ?w = "([(''data/plugins.json'', Json_doc e2e_config), (''.tmp/foo-2.1.0/stale'', Bytes ''old'')], [] :: gh_service)"
  have c: "load_plugins_config (arg_config e2e_args) (fst ?w) = Inr [(''foo'', e2e_plugin)]" by code_simp
  have p: "map_of [(''foo'', e2e_plugin)] (arg_plugin e2e_args) = Some e2e_plugin" by code_simp
  have l: "latest_release (env_releases e2e_env) e2e_plugin = Inr (e2e_release, ''2.1.0'')" by code_simp
  have n: "\<forall>a \<in> set (release_assets e2e_release). take 1 (asset_name a) \<noteq> ''/''"
    by (simp add: e2e_release_def e2e_asset_def)
  have gone: "map_of (fst (snd (main fragment_engine e2e_env e2e_args ?w))) ''.tmp/foo-2.1.0/stale'' = None" by code_simp
  have ch: "map_of (fst (snd (main fragment_engine e2e_env e2e_args ?w))) ''.tmp/foo-2.1.0/stale'' \<noteq>
      map_of (fst ?w) ''.tmp/foo-2.1.0/stale''" using gone by simp
  have ns: "''.tmp/foo-2.1.0/stale'' \<noteq> state_path_of e2e_args e2e_plugin" by code_simp
  have np: "\<not> (\<exists>q \<in> set (asset_patterns (source e2e_plugin)).
      ''.tmp/foo-2.1.0/stale'' = path_div (arg_output_dir e2e_args) (resolve_archive_name e2e_plugin ''2.1.0'' (arch q)))"
    by code_simp
  from main_changes_within [OF c p l n prod.collapse [symmetric] ch] ns np gone show ?thesis by blast
qed

end
