(* ===== verification/Cli.thy ===== *)
theory Cli
  imports Pipeline
begin

text \<open>
  The command line of \<^verbatim>\<open>plugin_release.py\<close>: \<open>parse_args\<close> (lines 244-258), the
  first line of \<open>main(argv)\<close>, which parses \<open>argv or sys.argv[1:]\<close>, and the script
  entry \<open>sys.exit(main())\<close>. \<open>parse_args\<close> builds an \<open>argparse.ArgumentParser\<close> and
  calls \<open>parser.parse_args(argv)\<close>; the definitions below follow the algorithm of
  CPython 3.11's \<^verbatim>\<open>argparse\<close> for this parser: every argument string is first
  classified (\<open>_parse_optional\<close>, \<open>_get_option_tuples\<close>: exact option strings,
  \<open>--opt=value\<close>, unique prefixes, negative numbers, the separator \<open>--\<close>), then the
  strings are consumed left to right (\<open>consume_optional\<close>, \<open>take_action\<close>), and finally
  the required option and the unrecognized strings are checked. An \<open>Inl c\<close> result is
  \<open>SystemExit(c)\<close>: status 2 for every \<open>parser.error\<close>, status 0 for the help action.
\<close>

section \<open>Definitions\<close>

datatype str_dest = Dest_plugin | Dest_config | Dest_output_dir | Dest_state_dir

datatype flag_dest = Dest_publish | Dest_force | Dest_ignore_branch | Dest_verbose

datatype opt_action = Help_action | Store_action str_dest | Store_true_action flag_dest

record namespace =
  ns_plugin :: "string option"
  ns_config :: string
  ns_output_dir :: string
  ns_state_dir :: string
  ns_publish :: bool
  ns_force :: bool
  ns_ignore_branch :: bool
  ns_verbose :: bool

definition option_string_actions :: "(string \<times> opt_action) list" where
  "option_string_actions =
     [(''-h'', Help_action), (''--help'', Help_action),
      (''--plugin'', Store_action Dest_plugin), (''--config'', Store_action Dest_config),
      (''--output-dir'', Store_action Dest_output_dir), (''--state-dir'', Store_action Dest_state_dir),
      (''--publish'', Store_true_action Dest_publish), (''--force'', Store_true_action Dest_force),
      (''--ignore-branch'', Store_true_action Dest_ignore_branch),
      (''--verbose'', Store_true_action Dest_verbose)]"

definition default_namespace :: namespace where
  "default_namespace =
     \<lparr>ns_plugin = None, ns_config = ''data/plugins.json'', ns_output_dir = ''dist'',
      ns_state_dir = ''state'', ns_publish = False, ns_force = False, ns_ignore_branch = False,
      ns_verbose = False\<rparr>"

fun nargs :: "opt_action \<Rightarrow> nat" where
  "nargs (Store_action _) = 1"
| "nargs _ = 0"

datatype arg_kind = Arg_A | Arg_sep | Arg_unknown | Arg_opt opt_action string "(string \<times> string) option"

definition is_digit :: "char \<Rightarrow> bool" where
  "is_digit c \<longleftrightarrow> c \<in> set ''0123456789''"

definition negative_number_body :: "string \<Rightarrow> bool" where
  "negative_number_body s \<longleftrightarrow>
     (case s of
        CHR ''-'' # r \<Rightarrow>
          (r \<noteq> [] \<and> list_all is_digit r) \<or>
          (case dropWhile is_digit r of CHR ''.'' # d \<Rightarrow> d \<noteq> [] \<and> list_all is_digit d | _ \<Rightarrow> False)
      | _ \<Rightarrow> False)"

definition negative_number_like :: "string \<Rightarrow> bool" where
  "negative_number_like s \<longleftrightarrow>
     negative_number_body s \<or> (s \<noteq> [] \<and> last s = CHR 0x0A \<and> negative_number_body (butlast s))"

definition get_option_tuples :: "string \<Rightarrow> (opt_action \<times> string \<times> (string \<times> string) option) list" where
  "get_option_tuples t =
     (if t ! 1 = CHR ''-'' then
        (let (pre, sep, ex) = py_partition CHR ''='' t;
             sx = (if sep = [] then None else Some (sep, ex))
         in [(act, os, sx). (os, act) \<leftarrow> option_string_actions, startswith os pre])
      else [(act, os, if os = take 2 t then Some ([], drop 2 t) else None).
              (os, act) \<leftarrow> option_string_actions, os = take 2 t \<or> startswith os t])"

definition parse_optional :: "string \<Rightarrow> int + arg_kind" where
  "parse_optional t =
     (if t = [] then Inr Arg_A
      else if hd t \<noteq> CHR ''-'' then Inr Arg_A
      else case map_of option_string_actions t of
        Some act \<Rightarrow> Inr (Arg_opt act t None)
      | None \<Rightarrow>
          if length t = 1 then Inr Arg_A
          else let (optstr, sep, ex) = py_partition CHR ''='' t in
            (case if sep \<noteq> [] then map_of option_string_actions optstr else None of
               Some act \<Rightarrow> Inr (Arg_opt act optstr (Some (sep, ex)))
             | None \<Rightarrow>
                 (case get_option_tuples t of
                    [(act, os, sx)] \<Rightarrow> Inr (Arg_opt act os sx)
                  | _ # _ # _ \<Rightarrow> Inl 2
                  | [] \<Rightarrow>
                      if negative_number_like t then Inr Arg_A
                      else if CHR '' '' \<in> set t then Inr Arg_A
                      else Inr Arg_unknown)))"

fun classify :: "string list \<Rightarrow> int + (string \<times> arg_kind) list" where
  "classify [] = Inr []"
| "classify (t # ts) =
     (if t = ''--'' then Inr ((t, Arg_sep) # map (\<lambda>s. (s, Arg_A)) ts)
      else case parse_optional t of
        Inl c \<Rightarrow> Inl c
      | Inr k \<Rightarrow> (case classify ts of Inl c \<Rightarrow> Inl c | Inr ks \<Rightarrow> Inr ((t, k) # ks)))"

definition explicit_rest :: "string \<Rightarrow> (string \<times> string) option" where
  "explicit_rest ex = (if ex = [] then None else if hd ex = CHR ''='' then Some (''='', tl ex) else Some ([], ex))"

function (sequential) consume_opt ::
  "opt_action \<Rightarrow> string \<Rightarrow> (string \<times> string) option \<Rightarrow> (string \<times> arg_kind) list \<Rightarrow>
   int + (opt_action \<times> string list) list \<times> string list \<times> nat" where
  "consume_opt act os None rest =
     (if nargs act = 1 then
        (case rest of (t, Arg_A) # _ \<Rightarrow> Inr ([(act, [t])], [], 1) | _ \<Rightarrow> Inl 2)
      else Inr ([(act, [])], [], 0))"
| "consume_opt act os (Some (sep, ex)) rest =
     (if nargs act = 0 \<and> os ! 1 \<noteq> CHR ''-'' \<and> ex \<noteq> [] then
        (if sep \<noteq> [] \<or> hd ex = CHR ''-'' then Inl 2
         else case map_of option_string_actions [hd os, hd ex] of
           Some act' \<Rightarrow>
             (case consume_opt act' [hd os, hd ex] (explicit_rest (tl ex)) rest of
                Inl c \<Rightarrow> Inl c
              | Inr (tups, xs, n) \<Rightarrow> Inr ((act, []) # tups, xs, n))
         | None \<Rightarrow> Inr ([(act, [])], [hd os # ex], 0))
      else if nargs act = 1 then Inr ([(act, [ex])], [], 0)
      else Inl 2)"
  by pat_completeness auto
termination
  by (relation "measure (\<lambda>(act, os, sx, rest). case sx of None \<Rightarrow> 0 | Some (sep, ex) \<Rightarrow> Suc (length ex))")
     (auto simp: explicit_rest_def)

fun set_str :: "str_dest \<Rightarrow> string \<Rightarrow> namespace \<Rightarrow> namespace" where
  "set_str Dest_plugin v ns = ns\<lparr>ns_plugin := Some v\<rparr>"
| "set_str Dest_config v ns = ns\<lparr>ns_config := v\<rparr>"
| "set_str Dest_output_dir v ns = ns\<lparr>ns_output_dir := v\<rparr>"
| "set_str Dest_state_dir v ns = ns\<lparr>ns_state_dir := v\<rparr>"

fun set_flag :: "flag_dest \<Rightarrow> namespace \<Rightarrow> namespace" where
  "set_flag Dest_publish ns = ns\<lparr>ns_publish := True\<rparr>"
| "set_flag Dest_force ns = ns\<lparr>ns_force := True\<rparr>"
| "set_flag Dest_ignore_branch ns = ns\<lparr>ns_ignore_branch := True\<rparr>"
| "set_flag Dest_verbose ns = ns\<lparr>ns_verbose := True\<rparr>"

fun take_action :: "namespace \<Rightarrow> opt_action \<times> string list \<Rightarrow> int + namespace" where
  "take_action ns (Help_action, _) = Inl 0"
| "take_action ns (Store_action d, vs) = Inr (set_str d (hd vs) ns)"
| "take_action ns (Store_true_action d, _) = Inr (set_flag d ns)"

fun take_actions :: "namespace \<Rightarrow> (opt_action \<times> string list) list \<Rightarrow> int + namespace" where
  "take_actions ns [] = Inr ns"
| "take_actions ns (a # as) = (case take_action ns a of Inl c \<Rightarrow> Inl c | Inr ns' \<Rightarrow> take_actions ns' as)"

fun consume :: "namespace \<Rightarrow> string list \<Rightarrow> (string \<times> arg_kind) list \<Rightarrow> int + namespace \<times> string list" where
  "consume ns xs [] = Inr (ns, xs)"
| "consume ns xs ((t, Arg_opt act os sx) # r) =
     (case consume_opt act os sx r of
        Inl c \<Rightarrow> Inl c
      | Inr (tups, xs', n) \<Rightarrow>
          (case take_actions ns tups of Inl c \<Rightarrow> Inl c | Inr ns' \<Rightarrow> consume ns' (xs @ xs') (drop n r)))"
| "consume ns xs ((t, _) # r) = consume ns (xs @ [t]) r"

definition args_of :: "namespace \<Rightarrow> string \<Rightarrow> cli_args" where
  "args_of ns p =
     \<lparr>arg_plugin = p, arg_config = ns_config ns, arg_output_dir = ns_output_dir ns,
      arg_state_dir = ns_state_dir ns, arg_publish = ns_publish ns, arg_force = ns_force ns,
      arg_ignore_branch = ns_ignore_branch ns\<rparr>"

definition parse_args :: "string list \<Rightarrow> int + cli_args \<times> bool" where
  "parse_args argv =
     (case classify argv of
        Inl c \<Rightarrow> Inl c
      | Inr ks \<Rightarrow>
          (case consume default_namespace [] ks of
             Inl c \<Rightarrow> Inl c
           | Inr (ns, extras) \<Rightarrow>
               (case ns_plugin ns of
                  None \<Rightarrow> Inl 2
                | Some p \<Rightarrow> if extras \<noteq> [] then Inl 2 else Inr (args_of ns p, ns_verbose ns))))"

definition main_argv ::
  "'re regex_engine \<Rightarrow> env \<Rightarrow> string list option \<Rightarrow> string list \<Rightarrow> world \<Rightarrow> (int + (error + int)) \<times> world" where
  "main_argv R E argv sys_args w =
     (case parse_args (case argv of None \<Rightarrow> sys_args | Some xs \<Rightarrow> if xs = [] then sys_args else xs) of
        Inl c \<Rightarrow> (Inl c, w)
      | Inr (args, verbose) \<Rightarrow> (let (r, w') = main R E args w in (Inr r, w')))"

fun process_exit :: "int + (error + int) \<Rightarrow> int" where
  "process_exit (Inl c) = c"
| "process_exit (Inr (Inl e)) = 1"
| "process_exit (Inr (Inr c)) = c"

definition script_run :: "'re regex_engine \<Rightarrow> env \<Rightarrow> string list \<Rightarrow> world \<Rightarrow> int \<times> world" where
  "script_run R E sys_args w = (let (r, w') = main_argv R E None sys_args w in (process_exit r, w'))"

definition render_args :: "cli_args \<Rightarrow> bool \<Rightarrow> string list" where
  "render_args a v =
     [''--plugin='' @ arg_plugin a, ''--config='' @ arg_config a,
      ''--output-dir='' @ arg_output_dir a, ''--state-dir='' @ arg_state_dir a] @
     (if arg_publish a then [''--publish''] else []) @ (if arg_force a then [''--force''] else []) @
     (if arg_ignore_branch a then [''--ignore-branch''] else []) @ (if v then [''--verbose''] else [])"

section \<open>Lemmas\<close>

subsection \<open>Classification of the argument strings\<close>

lemma option_string_keys:
  "map_of option_string_actions t = Some act \<Longrightarrow>
   t \<in> {''-h'', ''--help'', ''--plugin'', ''--config'', ''--output-dir'', ''--state-dir'', ''--publish'',
         ''--force'', ''--ignore-branch'', ''--verbose''}"
  by (simp add: option_string_actions_def split: if_splits)

lemma option_string_plugin:
  assumes "map_of option_string_actions t = Some (Store_action Dest_plugin)"
  shows "t = ''--plugin''"
  using option_string_keys [OF assms] assms unfolding insert_iff empty_iff
  by (elim disjE) (simp_all add: option_string_actions_def)

lemma plugin_action_key: "(os, Store_action Dest_plugin) \<in> set option_string_actions \<Longrightarrow> os = ''--plugin''"
  by (simp add: option_string_actions_def)

lemma short_option_help: "map_of option_string_actions [c1, c2] = Some a \<Longrightarrow> a = Help_action"
  by (simp add: option_string_actions_def split: if_splits)

lemma parse_optional_key:
  assumes "map_of option_string_actions t = Some act"
  shows "parse_optional t = Inr (Arg_opt act t None)"
  using option_string_keys [OF assms] assms unfolding insert_iff empty_iff by (elim disjE) (simp_all add: parse_optional_def)

lemma parse_optional_explicit:
  assumes "map_of option_string_actions os = Some act"
  shows "parse_optional (os @ CHR ''='' # v) = Inr (Arg_opt act os (Some (''='', v)))"
  using option_string_keys [OF assms] assms unfolding insert_iff empty_iff by (elim disjE) (simp_all add: parse_optional_def option_string_actions_def py_partition_def)

lemma parse_optional_store_eq:
  "parse_optional (''--plugin='' @ x) = Inr (Arg_opt (Store_action Dest_plugin) ''--plugin'' (Some (''='', x)))"
  "parse_optional (''--config='' @ x) = Inr (Arg_opt (Store_action Dest_config) ''--config'' (Some (''='', x)))"
  "parse_optional (''--output-dir='' @ x) = Inr (Arg_opt (Store_action Dest_output_dir) ''--output-dir'' (Some (''='', x)))"
  "parse_optional (''--state-dir='' @ x) = Inr (Arg_opt (Store_action Dest_state_dir) ''--state-dir'' (Some (''='', x)))"
  using parse_optional_explicit [of "''--plugin''" _ x] parse_optional_explicit [of "''--config''" _ x]
    parse_optional_explicit [of "''--output-dir''" _ x] parse_optional_explicit [of "''--state-dir''" _ x]
  by (simp_all add: option_string_actions_def)

lemma parse_optional_positional: "x = [] \<or> hd x \<noteq> CHR ''-'' \<Longrightarrow> parse_optional x = Inr Arg_A"
  by (auto simp: parse_optional_def)

lemma plugin_prefixes:
  assumes "startswith ''--plugin'' p" "startswith p ''--pl''"
  shows "p \<in> {''--pl'', ''--plu'', ''--plug'', ''--plugi'', ''--plugin''}"
proof -
  have p: "p = take (length p) ''--plugin''" using assms(1) by (simp add: startswith_def)
  have "4 \<le> length p" using assms(2) by (auto simp: startswith_def dest: arg_cong [where f = length])
  moreover have "length p \<le> 8" using arg_cong [OF p, where f = length] by simp
  ultimately have "length p = 4 \<or> length p = 5 \<or> length p = 6 \<or> length p = 7 \<or> length p = 8" by arith
  moreover have "\<And>n. length p = n \<Longrightarrow> p = take n ''--plugin''" using p by simp
  ultimately show ?thesis by auto
qed

lemma parse_optional_plugin_prefix:
  assumes "startswith ''--plugin'' p" "startswith p ''--pl''"
  shows "parse_optional p = Inr (Arg_opt (Store_action Dest_plugin) ''--plugin'' None)"
  using plugin_prefixes [OF assms] unfolding insert_iff empty_iff
  by (elim disjE) (simp_all add: parse_optional_def option_string_actions_def py_partition_def get_option_tuples_def startswith_def)

lemma parse_optional_ambiguous_p: "parse_optional ''--p'' = Inl 2"
  by (simp add: parse_optional_def option_string_actions_def py_partition_def get_option_tuples_def startswith_def)

lemma plugin_prefix_or_publish:
  assumes "startswith ''--plugin'' pre" "\<not> startswith pre ''--pl''"
  shows "startswith ''--publish'' pre"
proof -
  have p: "pre = take (length pre) ''--plugin''" using assms(1) by (simp add: startswith_def)
  have "length pre \<le> 3"
  proof (rule ccontr)
    assume "\<not> length pre \<le> 3"
    then have "take 4 pre = ''--pl''" by (subst p) simp
    then show False using assms(2) by (simp add: startswith_def eval_nat_numeral)
  qed
  then have "length pre = 0 \<or> length pre = 1 \<or> length pre = 2 \<or> length pre = 3" by arith
  moreover have "\<And>n. length pre = n \<Longrightarrow> pre = take n ''--plugin''" using p by simp
  ultimately show ?thesis by (auto simp: startswith_def)
qed

lemma get_option_tuples_long:
  assumes "(act, os, sx) \<in> set (get_option_tuples t)" "t ! 1 = CHR ''-''"
  shows "(os, act) \<in> set option_string_actions \<and> startswith os (fst (py_partition CHR ''='' t)) \<and>
    (\<forall>os' act'. (os', act') \<in> set option_string_actions \<longrightarrow> startswith os' (fst (py_partition CHR ''='' t)) \<longrightarrow>
       (act', os', sx) \<in> set (get_option_tuples t))"
proof -
  obtain pre sep ex where pp: "py_partition CHR ''='' t = (pre, sep, ex)" by (metis prod_cases3)
  show ?thesis using assms by (auto simp: get_option_tuples_def pp)
qed

lemma get_option_tuples_short:
  assumes "(act, os, sx) \<in> set (get_option_tuples t)" "t ! 1 \<noteq> CHR ''-''"
  shows "(os, act) \<in> set option_string_actions \<and> (os = take 2 t \<or> startswith os t)"
  using assms by (auto simp: get_option_tuples_def)

lemma parse_optional_Arg_opt_cases:
  assumes "parse_optional t = Inr (Arg_opt act os sx)"
  obtains (key) "map_of option_string_actions t = Some act"
    | (explicit) "map_of option_string_actions (fst (py_partition CHR ''='' t)) = Some act"
    | (tuple) "2 \<le> length t" "get_option_tuples t = [(act, os, sx)]"
proof -
  have len: "2 \<le> length t" if "map_of option_string_actions t = None"
  proof -
    have "t \<noteq> []" "length t \<noteq> 1" using assms that by (auto simp: parse_optional_def split: if_splits)
    then show ?thesis by (cases t) (auto simp: Suc_le_eq)
  qed
  show ?thesis
    using assms that len
    by (cases "map_of option_string_actions t"; cases "py_partition CHR ''='' t")
       (auto simp: parse_optional_def Let_def split: if_splits option.splits list.splits prod.splits)
qed

lemma parse_optional_plugin_startswith:
  assumes "parse_optional t = Inr (Arg_opt (Store_action Dest_plugin) os sx)"
  shows "startswith t ''--pl''"
  using assms
proof (cases rule: parse_optional_Arg_opt_cases)
  case key
  then have "t = ''--plugin''" by (rule option_string_plugin)
  then show ?thesis by (simp add: startswith_def)
next
  case explicit
  then have "startswith t ''--plugin''" using startswith_partition [of t] option_string_plugin by metis
  then show ?thesis by (rule startswith_trans) (simp add: startswith_def)
next
  case tuple
  then have mem: "(Store_action Dest_plugin, os, sx) \<in> set (get_option_tuples t)" by simp
  show ?thesis
  proof (cases "t ! 1 = CHR ''-''")
    case True
    let ?pre = "fst (py_partition CHR ''='' t)"
    from get_option_tuples_long [OF mem True] plugin_action_key
    have os: "os = ''--plugin''" and pre: "startswith ''--plugin'' ?pre"
      and all: "\<And>os' act'. (os', act') \<in> set option_string_actions \<Longrightarrow> startswith os' ?pre \<Longrightarrow>
                  (act', os', sx) \<in> set (get_option_tuples t)" by auto
    have "startswith ?pre ''--pl''"
    proof (rule ccontr)
      assume "\<not> startswith ?pre ''--pl''"
      then have "startswith ''--publish'' ?pre" by (rule plugin_prefix_or_publish [OF pre])
      then have "(Store_true_action Dest_publish, ''--publish'', sx) \<in> set (get_option_tuples t)"
        by (intro all) (simp_all add: option_string_actions_def)
      then show False using tuple by simp
    qed
    then show ?thesis by (rule startswith_trans [OF startswith_partition])
  next
    case False
    from get_option_tuples_short [OF mem False] plugin_action_key
    have "''--plugin'' = take 2 t \<or> startswith ''--plugin'' t" by auto
    moreover have "take 2 t = t ! 0 # t ! 1 # []"
      using tuple by (cases t; cases "tl t") auto
    moreover have "startswith ''--plugin'' t \<Longrightarrow> t ! 1 = CHR ''-''"
      using tuple by (cases t; cases "tl t") (auto simp: startswith_def)
    ultimately show ?thesis using False by auto
  qed
qed

lemma classify_mem:
  "classify xs = Inr ks \<Longrightarrow> (t, Arg_opt act os sx) \<in> set ks \<Longrightarrow>
   t \<in> set xs \<and> parse_optional t = Inr (Arg_opt act os sx)"
  by (induction xs arbitrary: ks) (auto split: if_splits sum.splits)

subsection \<open>Exit statuses\<close>

text \<open>\<open>parser.error\<close> exits with status 2 and the help action with status 0; nothing else exits.\<close>

lemma parse_optional_Inl: "parse_optional t = Inl c \<Longrightarrow> c = 2"
  by (auto simp: parse_optional_def Let_def split: if_splits option.splits list.splits prod.splits)

lemma classify_Inl: "classify ts = Inl c \<Longrightarrow> c = 2"
  by (induction ts) (auto split: if_splits sum.splits dest: parse_optional_Inl)

lemma classify_append_Inl:
  "''--'' \<notin> set xs \<Longrightarrow> t \<noteq> ''--'' \<Longrightarrow> parse_optional t = Inl c \<Longrightarrow> classify (xs @ t # ys) = Inl 2"
  by (induction xs) (auto split: sum.splits dest: classify_Inl parse_optional_Inl)

lemma consume_opt_Inl: "consume_opt act os sx r = Inl c \<Longrightarrow> c = 2"
  by (induction act os sx r rule: consume_opt.induct) (auto split: if_splits option.splits list.splits prod.splits arg_kind.splits sum.splits)

lemma take_actions_Inl: "take_actions ns tups = Inl c \<Longrightarrow> c = 0"
  by (induction ns tups rule: take_actions.induct) (auto elim: take_action.elims split: sum.splits)

lemma consume_Inl: "consume ns xs ks = Inl c \<Longrightarrow> c = 0 \<or> c = 2"
  by (induction ns xs ks rule: consume.induct) (auto split: sum.splits prod.splits dest: consume_opt_Inl take_actions_Inl)

lemma parse_args_Inl: "parse_args argv = Inl c \<Longrightarrow> c = 0 \<or> c = 2"
  by (auto simp: parse_args_def split: sum.splits prod.splits option.splits if_splits dest: classify_Inl consume_Inl)

subsection \<open>Consumption\<close>

lemma consume_opt_actions:
  "consume_opt act os sx r = Inr (tups, xs, n) \<Longrightarrow> fst ` set tups \<subseteq> {act, Help_action}"
proof (induction act os sx r arbitrary: tups xs n rule: consume_opt.induct)
  case (1 act os rest)
  then show ?case by (auto split: if_splits list.splits prod.splits arg_kind.splits)
next
  case (2 act os sep ex rest)
  show ?case
  proof (cases "nargs act = 0 \<and> os ! 1 \<noteq> CHR ''-'' \<and> ex \<noteq> [] \<and> sep = [] \<and> hd ex \<noteq> CHR ''-''")
    case c: True
    show ?thesis
    proof (cases "map_of option_string_actions [hd os, hd ex]")
      case None
      then show ?thesis using 2(2) c by auto
    next
      case (Some act')
      with 2(2) c obtain tups' where
        r: "consume_opt act' [hd os, hd ex] (explicit_rest (tl ex)) rest = Inr (tups', xs, n)"
        and t: "tups = (act, []) # tups'"
        by (auto split: sum.splits prod.splits)
      have "fst ` set tups' \<subseteq> {act', Help_action}" using 2(1) [OF _ _ Some r] c by auto
      then show ?thesis using short_option_help [OF Some] t by auto
    qed
  next
    case False
    then show ?thesis using 2(2) by (auto split: if_splits)
  qed
qed

lemma set_str_plugin: "d \<noteq> Dest_plugin \<Longrightarrow> ns_plugin (set_str d v ns) = ns_plugin ns"
  by (cases d) simp_all

lemma set_flag_plugin: "ns_plugin (set_flag d ns) = ns_plugin ns"
  by (cases d) simp_all

lemma take_actions_plugin:
  "take_actions ns tups = Inr ns' \<Longrightarrow> Store_action Dest_plugin \<notin> fst ` set tups \<Longrightarrow>
   ns_plugin ns' = ns_plugin ns"
proof (induction ns tups rule: take_actions.induct)
  case (2 ns a as)
  then show ?case
    by (cases "(ns, a)" rule: take_action.cases)
       (auto split: sum.splits simp: set_flag_plugin set_str_plugin)
qed simp

lemma consume_plugin:
  "consume ns xs ks = Inr (ns', xs') \<Longrightarrow>
   \<forall>t act os sx. (t, Arg_opt act os sx) \<in> set ks \<longrightarrow> act \<noteq> Store_action Dest_plugin \<Longrightarrow>
   ns_plugin ns' = ns_plugin ns"
proof (induction ns xs ks rule: consume.induct)
  case (2 ns xs t act os sx r)
  then obtain tups xs'' n ns'' where
    c: "consume_opt act os sx r = Inr (tups, xs'', n)" and
    a: "take_actions ns tups = Inr ns''" and
    r: "consume ns'' (xs @ xs'') (drop n r) = Inr (ns', xs')"
    by (auto split: sum.splits prod.splits)
  have "act \<noteq> Store_action Dest_plugin" using 2(3) by simp
  then have "Store_action Dest_plugin \<notin> fst ` set tups"
    using consume_opt_actions [OF c] by auto
  then have "ns_plugin ns'' = ns_plugin ns" by (rule take_actions_plugin [OF a])
  moreover have "\<forall>t act os sx. (t, Arg_opt act os sx) \<in> set (drop n r) \<longrightarrow> act \<noteq> Store_action Dest_plugin"
  proof (intro allI impI)
    fix t' act' os' sx'
    assume "(t', Arg_opt act' os' sx') \<in> set (drop n r)"
    then have "(t', Arg_opt act' os' sx') \<in> set ((t, Arg_opt act os sx) # r)" by (simp add: in_set_dropD)
    then show "act' \<noteq> Store_action Dest_plugin" using 2(3) by blast
  qed
  then have "ns_plugin ns' = ns_plugin ns''" by (rule 2(1) [OF c refl refl a r])
  ultimately show ?case by simp
qed auto

lemma main_process_exit: "main R E args w = (r, w') \<Longrightarrow> process_exit (Inr r) = 0 \<or> process_exit (Inr r) = 1"
  by (cases r) (auto dest: main_exit_status)

lemmas parse_render_simps = parse_args_def render_args_def parse_optional_key parse_optional_store_eq [simplified]
  option_string_actions_def default_namespace_def args_of_def

subsection \<open>Properties of the command line\<close>

text \<open>
  C13 (roundtrip): every command line main can be given is expressible: the argument list
  \<open>render_args a v\<close>, which writes each option of \<open>a\<close> as \<open>--opt=value\<close> and each set flag
  by its name, parses back to exactly \<open>a\<close> and the verbose flag \<open>v\<close>, whatever the values
  (empty, starting with a dash, or containing \<open>=\<close>).
\<close>

theorem parse_args_render: "parse_args (render_args a v) = Inr (a, v)"
  by (cases a) (simp add: parse_render_simps)

text \<open>
  C14 (functional): run as a script with the command line \<open>render_args a v\<close>, the process
  runs \<open>main\<close> on exactly \<open>a\<close> and exits with its status (1 for an escaping exception);
  with \<open>--help\<close> appended it exits 0 before \<open>main\<close> touches the world.
\<close>

theorem script_run_render:
  "script_run R E (render_args a v) w = (let (r, w') = main R E a w in (process_exit (Inr r), w')) \<and>
   script_run R E (render_args a v @ [''--help'']) w = (0, w)"
proof -
  have ne: "render_args a v \<noteq> []" by (simp add: render_args_def)
  have "parse_args (render_args a v) = Inr (a, v)" by (cases a) (simp add: parse_render_simps)
  moreover have "parse_args (render_args a v @ [''--help'']) = Inl 0" by (cases a) (simp add: parse_render_simps)
  ultimately show ?thesis using ne by (simp add: script_run_def main_argv_def split: prod.splits)
qed

text \<open>
  C37 (error): the abbreviation \<open>--p\<close> is ambiguous (\<open>--plugin\<close>, \<open>--publish\<close>), and
  argparse classifies every argument string before it acts on any: whatever precedes it,
  \<open>-h\<close> or a complete command line included, and whatever follows, the parser exits
  with status 2, unless a \<open>--\<close> before it makes it a positional string.
\<close>

theorem parse_args_ambiguous_prefix: "''--'' \<notin> set xs \<Longrightarrow> parse_args (xs @ ''--p'' # ys) = Inl 2"
  by (simp add: parse_args_def classify_append_Inl [OF _ _ parse_optional_ambiguous_p])

theorem parse_args_ambiguous_prefix_witness:
  "''--'' \<notin> set [''-h''] \<and> parse_args ([''-h''] @ ''--p'' # [''x'']) = Inl 2"
  using parse_args_ambiguous_prefix [of "[''-h'']" "[''x'']"] by simp

text \<open>
  C38 (functional): options may be abbreviated to a unique prefix and take their value from
  the next string, and a later occurrence overrides an earlier one: appending
  \<open>--pl\<close> \<dots> \<open>--plugin\<close> with a value that does not start with a dash to a complete
  command line replaces the plugin name and nothing else.
\<close>

theorem parse_args_abbrev_last_wins:
  assumes "startswith ''--plugin'' p" "startswith p ''--pl''" "x = [] \<or> hd x \<noteq> CHR ''-''"
  shows "parse_args (render_args a v @ [p, x]) = Inr (a\<lparr>arg_plugin := x\<rparr>, v)"
proof -
  have "p \<noteq> ''--''" "x \<noteq> ''--''" using assms(2,3) by (auto simp: startswith_def)
  then show ?thesis
    by (cases a) (simp add: parse_args_def render_args_def parse_optional_key parse_optional_store_eq [simplified]
       parse_optional_plugin_prefix [OF assms(1,2)] parse_optional_positional [OF assms(3)]
       option_string_actions_def default_namespace_def args_of_def)
qed

theorem parse_args_abbrev_last_wins_witness:
  "startswith ''--plugin'' ''--plug'' \<and> startswith ''--plug'' ''--pl'' \<and> hd ''bar'' = CHR ''b'' \<and>
   parse_args (render_args e2e_args True @ [''--plug'', ''bar'']) = Inr (e2e_args\<lparr>arg_plugin := ''bar''\<rparr>, True)"
  using parse_args_abbrev_last_wins [of "''--plug''" "''bar''" e2e_args True] by (simp add: startswith_def)

text \<open>
  C39 (error): \<open>--plugin\<close> is required: a command line none of whose strings starts with
  \<open>--pl\<close> never reaches \<open>main\<close>'s body; argparse exits with status 2, or 0 when the help
  action comes first.
\<close>

theorem parse_args_requires_plugin:
  assumes "\<forall>t \<in> set xs. \<not> startswith t ''--pl''"
  shows "parse_args xs = Inl 0 \<or> parse_args xs = Inl 2"
proof (cases "classify xs")
  case (Inl c)
  then show ?thesis by (simp add: parse_args_def classify_Inl)
next
  case (Inr ks)
  have no: "\<forall>t act os sx. (t, Arg_opt act os sx) \<in> set ks \<longrightarrow> act \<noteq> Store_action Dest_plugin"
    using assms by (auto dest!: classify_mem [OF Inr] parse_optional_plugin_startswith)
  show ?thesis
  proof (cases "consume default_namespace [] ks")
    case (Inl c)
    then show ?thesis using Inr consume_Inl by (auto simp: parse_args_def)
  next
    case (Inr r)
    obtain ns ex where r: "r = (ns, ex)" by fastforce
    have "ns_plugin ns = None"
      using consume_plugin [of default_namespace "[]" ks ns ex] Inr r no by (simp add: default_namespace_def)
    then show ?thesis using \<open>classify xs = Inr ks\<close> Inr r by (simp add: parse_args_def)
  qed
qed

theorem parse_args_requires_plugin_witness:
  "\<not> startswith ''--config'' ''--pl'' \<and> \<not> startswith ''c'' ''--pl'' \<and> \<not> startswith ''--publish'' ''--pl'' \<and>
   (parse_args [''--config'', ''c'', ''--publish''] = Inl 0 \<or> parse_args [''--config'', ''c'', ''--publish''] = Inl 2)"
  using parse_args_requires_plugin [of "[''--config'', ''c'', ''--publish'']"] by (simp add: startswith_def)

text \<open>
  C40 (bounds): whatever the command line and the environment, the script exits with status
  0, 1 or 2: 2 and 0 from argparse, 0 and 1 from \<open>main\<close>, 1 for an escaping exception.
\<close>

theorem script_exit_status: "fst (script_run R E xs w) \<in> {0, 1, 2}"
proof (cases "parse_args xs")
  case (Inl c)
  then show ?thesis using parse_args_Inl [OF Inl] by (auto simp: script_run_def main_argv_def)
next
  case (Inr p)
  obtain args verbose where p: "p = (args, verbose)" by fastforce
  obtain r w' where m: "main R E args w = (r, w')" by (cases "main R E args w") simp
  show ?thesis using main_process_exit [OF m] Inr p m by (auto simp: script_run_def main_argv_def)
qed

end
