(* ===== verification/Spec2Isabelle.thy ===== *)
theory Spec2Isabelle
  imports Reruns Service Frame Cli
begin

text \<open>
  \<^bold>\<open>A verification model of the MobaXterm plugin release scripts.\<close>

  \<^bold>\<open>The program.\<close> \<^verbatim>\<open>src/scripts/plugin_release.py\<close> is a command-line tool
  that processes one plugin per run. \<open>main\<close> loads the plugin table
  (\<^verbatim>\<open>config_loader.py\<close>), checks the git branch, asks GitHub for the upstream
  releases and resolves the latest eligible one (\<open>_latest_release\<close>), reads the state
  file (\<^verbatim>\<open>state.py\<close>) and stops if that version was already processed. Otherwise it
  matches one upstream asset per architecture (\<open>_match_assets\<close>), and for each
  architecture downloads it into the scratch directory \<open>.tmp/{name}-{version}\<close>
  (\<open>_download_asset\<close>), takes the binary out of an archive if needed
  (\<open>_prepare_binary\<close>, \<open>_extract_from_archive\<close>, \<open>_select_member\<close>) and writes a
  host package (\<open>PackageBuilder.build\<close> in \<^verbatim>\<open>package_builder.py\<close>). It removes the
  scratch directory in a \<open>finally\<close> block, saves the new state and, with
  \<open>--publish\<close>, creates or reuses the release \<open>{name}-v{version}\<close> of the repository
  named by \<open>origin\<close> and uploads the packages (\<open>_upload_release\<close>, \<^verbatim>\<open>github_api.py\<close>).

  \<^bold>\<open>Theories.\<close>
  \<^item> \<open>Prelude\<close>: the exception-and-state monad \<open>exn_st\<close> (the result \<open>Inl e\<close> is a
    raised exception, \<open>Inr a\<close> a return) and \<open>sbind\<close> for stateless code. It also has
    Python dictionaries as association lists (\<open>d[k] = v\<close> is \<open>AList.update\<close>), the
    \<open>str\<close> methods the scripts call, and \<open>pathlib\<close> paths (\<open>path_div\<close>,
    \<open>path_name\<close>, \<open>path_suffix\<close>, \<open>path_parent\<close>).
  \<^item> \<open>Models\<close>: the dataclasses of \<^verbatim>\<open>models.py\<close> as records, and the release and
    asset dictionaries of the GitHub API as records. The exceptions are one
    datatype \<open>error\<close> with a constructor per raise site. The regular-expression
    engine is an interface (\<open>re_compile\<close>, \<open>re_search\<close>). The file store \<open>fs\<close> maps
    paths to contents (bytes, a JSON document, a zip or a tar archive), with
    directories implicit.
  \<^item> \<open>Regex\<close>: a concrete engine for a fragment of \<open>re\<close> (literals, \<open>.\<close>, escapes,
    anchors), used to run examples.
  \<^item> \<open>Resolver\<close> (\<open>_latest_release\<close>), \<open>Matcher\<close> (\<open>_match_assets\<close>),
    \<open>Extractor\<close> (\<open>_prepare_binary\<close>, \<open>_extract_from_archive\<close>,
    \<open>_select_member\<close>), \<open>Builder\<close> (\<^verbatim>\<open>package_builder.py\<close>), \<open>State\<close>
    (\<^verbatim>\<open>state.py\<close>), \<open>Config\<close> (\<^verbatim>\<open>config_loader.py\<close>), \<open>Publisher\<close>
    (\<open>_origin_repo\<close>, template formatting, \<open>_upload_release\<close> and the GitHub calls it
    makes, on a model of the service: releases by repository and tag, with the
    invariant \<open>gh_wf\<close> that tags are unique per repository and asset names unique
    per release).
  \<^item> \<open>Client\<close>: every method of \<open>GitHubAPI\<close> in \<^verbatim>\<open>github_api.py\<close>
    (\<open>_build_headers\<close>, \<open>_request\<close>, \<open>list_releases\<close>, \<open>get_release_by_tag\<close>,
    \<open>create_release\<close>, \<open>upload_asset\<close>) over a session: a function from a request
    and the state of the service behind it to an answer (an HTTP status, or a content
    type and a body) and the new state. On top of them, \<open>_latest_release\<close> on the JSON
    values the listing returns, with Python truthiness for \<open>draft\<close> and
    \<open>prerelease\<close>, and \<open>_upload_release\<close> as the client runs it
    (\<open>upload_release_api\<close>).
  \<^item> \<open>Service\<close>: the GitHub service as a session, \<open>gh_session\<close>, built from the
    service operations of \<open>Publisher\<close>. It connects the two levels: the client
    composed with it is the service-level model.
  \<^item> \<open>Pipeline\<close>: \<open>_download_asset\<close>, \<open>_archive_assets\<close>, the scratch-directory
    handling and \<open>main\<close>, composed from the above in the order of the code. Each
    operation has the name of its Python function, without the leading underscore.
  \<^item> \<open>Reruns\<close>: a schedule of runs of \<open>main\<close> with one command line, each in its own
    environment and starting from the world the previous one left (\<open>run_seq\<close>); the
    spec makes the rerun the retry mechanism.
  \<^item> \<open>Frame\<close>: which files a run may change. \<open>writes_within S m\<close> says that the
    computation \<open>m\<close> changes only files whose path satisfies \<open>S\<close>; every operation
    that writes has such a lemma, and they compose up to \<open>main\<close>.
  \<^item> \<open>Cli\<close>: the command line. \<open>parse_args\<close> (lines 244-258) with the parsing algorithm
    of CPython 3.11's \<open>argparse\<close> for this parser: \<open>parse_optional\<close> and
    \<open>get_option_tuples\<close> classify each argument string (exact option, \<open>--opt=value\<close>,
    unique prefix, ambiguous prefix, negative number, the separator \<open>--\<close>),
    \<open>classify\<close> does so for the whole list before any action, \<open>consume_opt\<close> and
    \<open>consume\<close> consume the strings left to right and \<open>take_action\<close> stores
    values, sets flags or exits for \<open>--help\<close>. Then come the check of the required
    \<open>--plugin\<close> and of unrecognized strings. \<open>main_argv\<close> is \<open>main(argv)\<close> up to
    the call of \<open>main\<close>'s body (\<open>argv or sys.argv[1:]\<close>), and \<open>script_run\<close> is
    \<open>sys.exit(main())\<close> (lines 354-355), with \<open>process_exit\<close> giving status 1 for an
    escaping exception. The model agrees with the interpreter's \<open>argparse\<close> on
    every argument list of a differential test of a few hundred lists built from
    options, prefixes, \<open>=\<close> forms, dashes, negative numbers and separators.

  \<^bold>\<open>State and environment.\<close> A run of \<open>main\<close> is a function from a world (the
  file store and the GitHub service, \<open>world\<close>) to an exit status or an escaping
  exception, together with the new world. Everything else the run observes comes
  from an environment record \<open>env\<close>:
  \<^item> the raw output of \<open>git rev-parse\<close> and \<open>git config\<close> (\<open>None\<close> when the
    command fails), which the code strips with \<open>str.strip\<close> (\<open>py_strip\<close>);
  \<^item> the upstream release listing;
  \<^item> the response of each download URL;
  \<^item> the HTTP failures of GitHub calls.
  This way every branch of the code can be reached by choosing the environment. The
  command line is the record \<open>cli_args\<close> that \<open>parse_args\<close> produces
  (\<open>Cli\<close>); an exit of \<open>argparse\<close> is \<open>Inl c\<close>, \<open>SystemExit(c)\<close>.

  \<^bold>\<open>What the lemmas show.\<close>
  \<^item> Runs of \<open>main\<close> (\<open>Pipeline\<close>): whenever \<open>main\<close> exits 0, the state
    file of the plugin holds the version it resolved; a successful run is idempotent;
    the scratch directory is removed on every exit path; errors of the packaging pass
    escape \<open>main\<close>. Turning \<open>--publish\<close> on leaves the files of a run as they are
    without it, and changes its result only when the run without it exits 0.
  \<^item> Refinement: \<open>_latest_release\<close> implements the contract \<open>resolve_spec\<close> (the
    first eligible release, prefix stripped), and \<open>_match_assets\<close> implements
    \<open>match_spec\<close> (each pattern against all assets, first match).
  \<^item> Functional behaviour and every error branch of resolution, matching, extraction
    (with duplicate member names in a zip, the last entry of the selected name is
    written), naming and building.
  \<^item> Round trips: the state file, and the plugin table through
    \<open>load_plugins_config\<close> (every table with distinct names loads back to itself;
    with a duplicate name the later entry silently replaces the earlier one).
  \<^item> Publishing (\<open>Publisher\<close>): \<open>_upload_release\<close> preserves \<open>gh_wf\<close> and leaves
    the packages as assets of the release; once it has succeeded, a second call for
    the same tag fails with GitHub's 422 for the duplicate asset name. The release
    name and body templates are formatted with exactly the keywords \<open>name\<close> and
    \<open>version\<close> that \<open>main\<close> passes (\<open>release_kwargs\<close>); \<open>_origin_repo\<close> reads the
    usual GitHub remote URLs, and stops a repository name at its first dot.
  \<^item> Safety: a run changes only the state file, the package paths of the resolved
    version and the files of its scratch directory (\<open>Frame\<close>); without
    \<open>--publish\<close>, no run and no schedule of reruns changes the GitHub service
    (\<open>Reruns\<close>).
  \<^item> Exit statuses of \<open>main\<close>: 0, or 1 when a publish step fails, after the state is
    saved.
  \<^item> The command line (\<open>Cli\<close>): every \<open>cli_args\<close> value and verbose flag is
    reached by an argument list (round trip); the script runs \<open>main\<close> on exactly the
    parsed arguments and exits with status 0, 1 or 2 on every command line; an
    ambiguous abbreviation is refused even after \<open>-h\<close>; unique prefixes are accepted
    and the last occurrence of an option wins; \<open>--plugin\<close> is required.
  \<^item> Refinement of the service model by the client (\<open>Service\<close>): \<open>_upload_release\<close>
    through \<open>GitHubAPI\<close> against \<open>gh_session\<close> has the outcome, service state and
    files of \<open>upload_release\<close> on every path, so the publish step of \<open>main\<close>,
    written on the service model, is what the client code does.
  \<^item> Liveness of reruns (\<open>Reruns\<close>): runs during an outage of the release listing
    exit 1 and change nothing; the first run in a working environment reaches the
    processed world, and later runs stay there.
  \<^item> JSON-level refinement (\<open>Client\<close>): \<open>_latest_release\<close> on the JSON listing
    that \<open>list_releases\<close> returns computes what the typed resolver computes, and an
    HTTP error or a payload of the wrong shape is the corresponding exception.
  Where the code departs from the spec or from its evident intent, a theorem states
  what the code does.

  \<^bold>\<open>Bounds and termination.\<close> Every loop of the scripts runs over a finite list
  (releases, assets, patterns, archive members, plugins, state assets) and is
  structural recursion here. Two functions are not structural: the template formatter
  \<open>py_format\<close> terminates by the length of the template, and the argparse routine
  \<open>consume_opt\<close> (the loop over the flags of one \<open>-hhh\<close> string) by the length of
  the explicit argument. No fuel is needed.

  \<^bold>\<open>Not modelled.\<close>
  \<^item> The URL strings built by \<open>urljoin\<close> and \<open>urlencode\<close>: a request is
    identified by its API path and query; the bytes of JSON bodies; pagination of
    \<open>list_releases\<close> beyond the first page (\<open>per_page=30\<close>); the \<open>api_url\<close> of
    the \<open>GitHubAPI\<close> constructor.
  \<^item> The GitHub service beyond the three calls of the publish step:
    \<open>gh_session\<close> answers 404 to every other request, and draft and prerelease
    flags of created releases are not kept.
  \<^item> Directories as objects of the file store: they exist implicitly, so a write
    into a directory that was never created succeeds in the model (the code creates
    the parents it writes into, except for a package name that contains a slash).
  \<^item> The Unicode whitespace of \<open>str.strip\<close> beyond ASCII and the separator
    characters.
  \<^item> The byte encoding of JSON and zip files: they are values.
  \<^item> Tar links and special files beyond being refused.
  \<^item> Resolution of \<open>..\<close> by the operating system, in member names and in the
    paths \<open>Frame\<close> reasons about: paths are compared by their \<open>pathlib\<close>
    components. Git forbids \<open>..\<close> in tag names, so a resolved version holds none.
  \<^item> File permissions.
  \<^item> Logging (\<open>_configure_logging\<close>): \<open>--verbose\<close> is parsed and returned, but no
    logging state is modelled. The text of the help and error messages of
    \<open>argparse\<close>; its features this parser does not use (positional arguments,
    \<open>nargs\<close> other than one or zero, mutually exclusive groups, argument files).
  \<^item> \<open>re\<close> beyond the interface: the theorems hold for every engine, and the
    fragment engine only evaluates examples.
  \<^item> Python's behaviour on configuration values of the wrong JSON type: the loader
    refuses them.
\<close>

end
